theory Spec2Isabelle
  imports Main "HOL-Library.Word"
begin

section \<open>Go values used by the two packages\<close>

text \<open>
  Go strings are byte sequences and so are HOL strings. A pointer that may be nil is an
  \<open>option\<close>; a slice is a list, so that a nil slice and an empty slice are the same value
  (both have length zero and both are omitted by \<open>omitempty\<close>). A Go function that can
  panic returns an \<open>outcome\<close>: the value it returns, or the panic with its message.
\<close>

datatype 'a outcome = Return 'a | Panic string

definition nil_dereference :: string where
  "nil_dereference = ''runtime error: invalid memory address or nil pointer dereference''"

subsection \<open>Decimal integers (fmt and strconv)\<close>

definition digit_char :: "nat \<Rightarrow> char" where
  "digit_char d = (''0123456789'' ! d)"

fun digits :: "nat \<Rightarrow> string" where
  "digits n = (if n < 10 then [digit_char n] else digits (n div 10) @ [digit_char (n mod 10)])"

declare digits.simps [simp del]

text \<open>\<open>Itoa\<close> is the decimal rendering that \<open>fmt.Sprintf("%v", v)\<close> gives an integer.\<close>

definition Itoa :: "int \<Rightarrow> string" where
  "Itoa i = (if i < 0 then CHR ''-'' # digits (nat (- i)) else digits (nat i))"

definition digit_val :: "char \<Rightarrow> nat option" where
  "digit_val c = map_of (zip ''0123456789'' [0, 1, 2, 3, 4, 5, 6, 7, 8, 9]) c"

fun parse_digits :: "string \<Rightarrow> nat \<Rightarrow> nat option" where
  "parse_digits [] acc = Some acc"
| "parse_digits (c # cs) acc =
     (case digit_val c of None \<Rightarrow> None | Some d \<Rightarrow> parse_digits cs (acc * 10 + d))"

text \<open>
  \<open>strconv.ParseInt(s, 10, 64)\<close>: an optional sign, at least one decimal digit, and a value
  that fits an \<open>int64\<close>; \<open>None\<close> is its error.
\<close>

definition ParseInt64 :: "string \<Rightarrow> 64 word option" where
  "ParseInt64 str =
     (let neg = (case str of c # cs \<Rightarrow> c = CHR ''-'' | [] \<Rightarrow> False);
          ds = (case str of c # cs \<Rightarrow> if c = CHR ''-'' \<or> c = CHR ''+'' then cs else str | [] \<Rightarrow> [])
      in if ds = [] then None
         else case parse_digits ds 0 of
                None \<Rightarrow> None
              | Some n \<Rightarrow>
                  (let i = (if neg then - int n else int n)
                   in if - (2 ^ 63) \<le> i \<and> i < 2 ^ 63 then Some (word_of_int i) else None))"

subsection \<open>JSON values and HTTP messages\<close>

text \<open>
  A JSON text is represented by the value that the scanner of \<open>encoding/json\<close> reads from
  it; the members of an object keep their order in the text. A number keeps its literal,
  which no field of this package reads. A response body is \<open>Some\<close> of the JSON value it
  holds, or \<open>None\<close> when its bytes are not a JSON text (an empty body, a CSV report).
\<close>

datatype json =
    JNull
  | JBool bool
  | JNumber string
  | JString string
  | JArray "json list"
  | JObject "(string \<times> json) list"

type_synonym http_Header = "(string \<times> string list) list"

type_synonym body = "json option"

record Response =
  StatusCode :: int
  Header :: http_Header
  Body :: "body option"

definition http_StatusNotModified :: int where
  "http_StatusNotModified = 304"

text \<open>
  \<open>googleapi.Error\<close>, with the fields that this package and the spec speak of. The other
  errors are those of \<open>errors.New\<close>, of the HTTP transport, and of the JSON decoder (a text
  that is not JSON, a value of the wrong JSON type for a Go field, a misuse of the
  \<open>string\<close> tag option).
\<close>

record googleapi_Error =
  Code :: int
  Error_Body :: body
  Error_Header :: http_Header

datatype error =
    ErrorsNew string
  | GoogleapiError googleapi_Error
  | NetError string
  | SyntaxError
  | UnmarshalTypeError string string
  | StringTagError string

record ServerResponse =
  HTTPStatusCode :: int
  ServerResponse_Header :: http_Header

definition ServerResponse_zero :: ServerResponse where
  "ServerResponse_zero = \<lparr>HTTPStatusCode = 0, ServerResponse_Header = []\<rparr>"

text \<open>
  What \<open>Do\<close> and \<open>Download\<close> do to the body of the response, in order: decoding it into
  the result, and closing it.
\<close>

datatype body_event = BodyDecoded | BodyClosed

text \<open>
  Modelled from the spec: \<open>googleapi.CheckResponse\<close>, which is not among the source files.
  The spec has every status outside 2xx fail with an error that carries the status code, the
  headers and the decoded error body if present.
\<close>

definition CheckResponse :: "Response \<Rightarrow> error option" where
  "CheckResponse res =
     (if 200 \<le> StatusCode res \<and> StatusCode res \<le> 299 then None
      else Some (GoogleapiError
             \<lparr>Code = StatusCode res,
              Error_Body = (case Body res of None \<Rightarrow> None | Some b \<Rightarrow> b),
              Error_Header = Header res\<rparr>))"

text \<open>
  Modelled from the spec: \<open>googleapi.CheckMediaResponse\<close>, which is not among the source
  files. The comment of \<open>Download\<close> has a nil error guarantee a 2xx status; the error of
  any other status is taken to be the one of \<open>CheckResponse\<close>.
\<close>

definition CheckMediaResponse :: "Response \<Rightarrow> error option" where
  "CheckMediaResponse res = CheckResponse res"

text \<open>
  Modelled from the spec: \<open>googleapi.CloseBody\<close>, which is not among the source files. The
  spec has the body closed on every exit path; a nil response or a nil body has nothing to
  close.
\<close>

definition CloseBody :: "Response option \<Rightarrow> body_event list" where
  "CloseBody res =
     (case res of
        None \<Rightarrow> []
      | Some r \<Rightarrow> (case Body r of None \<Rightarrow> [] | Some b \<Rightarrow> [BodyClosed]))"

subsection \<open>Decoding JSON into Go values (encoding/json)\<close>

text \<open>
  The decoder matches a member name with a field name exactly or ignoring case; the fold
  of the library also takes the Kelvin sign (bytes E2 84 AA) for \<open>k\<close> and the long s
  (bytes C5 BF) for \<open>s\<close>. No two fields of a struct of this package have the same fold,
  so the preference for an exact match decides nothing here.
\<close>

definition to_lower :: "char \<Rightarrow> char" where
  "to_lower c =
     (case map_of (zip ''ABCDEFGHIJKLMNOPQRSTUVWXYZ'' ''abcdefghijklmnopqrstuvwxyz'') c of
        Some l \<Rightarrow> l
      | None \<Rightarrow> c)"

fun foldName :: "string \<Rightarrow> string" where
  "foldName (a # b # c # cs) =
     (if a = CHR 0xE2 \<and> b = CHR 0x84 \<and> c = CHR 0xAA then CHR ''k'' # foldName cs
      else if a = CHR 0xC5 \<and> b = CHR 0xBF then CHR ''s'' # foldName (c # cs)
      else to_lower a # foldName (b # c # cs))"
| "foldName [a, b] =
     (if a = CHR 0xC5 \<and> b = CHR 0xBF then ''s'' else [to_lower a, to_lower b])"
| "foldName [a] = [to_lower a]"
| "foldName [] = []"

declare foldName.simps [simp del]

definition equalFold :: "string \<Rightarrow> string \<Rightarrow> bool" where
  "equalFold name key \<longleftrightarrow> foldName name = foldName key"

definition json_kind :: "json \<Rightarrow> string" where
  "json_kind j =
     (case j of
        JNull \<Rightarrow> ''null'' | JBool _ \<Rightarrow> ''bool'' | JNumber _ \<Rightarrow> ''number''
      | JString _ \<Rightarrow> ''string'' | JArray _ \<Rightarrow> ''array'' | JObject _ \<Rightarrow> ''object'')"

text \<open>
  Every decoder takes the JSON value and the current Go value, and returns the new Go value
  or the error. A JSON null leaves a string, a boolean, a number or a struct as it is, and
  sets a pointer or a slice to nil. A value of the wrong JSON type is an error; the library
  goes on decoding and returns its first error at the end, and since \<open>Do\<close> drops the result
  on any error the model stops at the first one.
\<close>

definition dec_string :: "json \<Rightarrow> string \<Rightarrow> error + string" where
  "dec_string j cur =
     (case j of
        JString str \<Rightarrow> Inr str
      | JNull \<Rightarrow> Inr cur
      | _ \<Rightarrow> Inl (UnmarshalTypeError (json_kind j) ''string''))"

definition dec_bool :: "json \<Rightarrow> bool \<Rightarrow> error + bool" where
  "dec_bool j cur =
     (case j of
        JBool b \<Rightarrow> Inr b
      | JNull \<Rightarrow> Inr cur
      | _ \<Rightarrow> Inl (UnmarshalTypeError (json_kind j) ''bool''))"

text \<open>
  An \<open>int64\<close> field with the tag option \<open>string\<close> is read from a JSON string that holds
  the number: the string must start with a minus sign or a digit and satisfy
  \<open>strconv.ParseInt\<close>; the string \<open>null\<close> leaves the field as it is.
\<close>

definition dec_int64_string :: "json \<Rightarrow> 64 word \<Rightarrow> error + 64 word" where
  "dec_int64_string j cur =
     (case j of
        JNull \<Rightarrow> Inr cur
      | JString str \<Rightarrow>
          (if str = ''null'' then Inr cur
           else case str of
                  [] \<Rightarrow> Inl (StringTagError str)
                | c # cs \<Rightarrow>
                    if c = CHR ''-'' \<or> digit_val c \<noteq> None
                    then (case ParseInt64 str of
                            Some n \<Rightarrow> Inr n
                          | None \<Rightarrow> Inl (UnmarshalTypeError (''number '' @ str) ''int64''))
                    else Inl (StringTagError str))
      | _ \<Rightarrow> Inl (StringTagError (json_kind j)))"

text \<open>
  A JSON array is decoded element by element into the slice: into the element the slice
  already has at that index, or into a zero element beyond its length. (The elements that
  an earlier, longer array left in the capacity of the slice are not modelled; they can show
  only when an object repeats a member name three times.)
\<close>

fun dec_elems :: "(json \<Rightarrow> 'a \<Rightarrow> error + 'a) \<Rightarrow> 'a \<Rightarrow> json list \<Rightarrow> 'a list \<Rightarrow> error + 'a list" where
  "dec_elems dec zero [] cur = Inr []"
| "dec_elems dec zero (j # js) cur =
     (case dec j (case cur of [] \<Rightarrow> zero | c # _ \<Rightarrow> c) of
        Inl e \<Rightarrow> Inl e
      | Inr v \<Rightarrow>
          (case dec_elems dec zero js (tl cur) of
             Inl e \<Rightarrow> Inl e
           | Inr vs \<Rightarrow> Inr (v # vs)))"

definition dec_slice :: "(json \<Rightarrow> 'a \<Rightarrow> error + 'a) \<Rightarrow> 'a \<Rightarrow> json \<Rightarrow> 'a list \<Rightarrow> error + 'a list" where
  "dec_slice dec zero j cur =
     (case j of
        JArray js \<Rightarrow> dec_elems dec zero js cur
      | JNull \<Rightarrow> Inr []
      | _ \<Rightarrow> Inl (UnmarshalTypeError (json_kind j) ''slice''))"

definition dec_ptr :: "(json \<Rightarrow> 'a \<Rightarrow> error + 'a) \<Rightarrow> 'a \<Rightarrow> json \<Rightarrow> 'a option \<Rightarrow> error + 'a option" where
  "dec_ptr dec zero j cur =
     (case j of
        JNull \<Rightarrow> Inr None
      | _ \<Rightarrow>
          (case dec j (case cur of None \<Rightarrow> zero | Some v \<Rightarrow> v) of
             Inl e \<Rightarrow> Inl e
           | Inr v \<Rightarrow> Inr (Some v)))"

text \<open>
  A JSON object is decoded member by member, in the order of the text; \<open>field\<close> is the
  struct's own table from member names to fields, and ignores a name it does not know.
\<close>

fun dec_members ::
    "(string \<Rightarrow> json \<Rightarrow> 'a \<Rightarrow> error + 'a) \<Rightarrow> (string \<times> json) list \<Rightarrow> 'a \<Rightarrow> error + 'a" where
  "dec_members field [] cur = Inr cur"
| "dec_members field ((k, v) # ms) cur =
     (case field k v cur of
        Inl e \<Rightarrow> Inl e
      | Inr cur' \<Rightarrow> dec_members field ms cur')"

definition dec_struct ::
    "(string \<Rightarrow> json \<Rightarrow> 'a \<Rightarrow> error + 'a) \<Rightarrow> json \<Rightarrow> 'a \<Rightarrow> error + 'a" where
  "dec_struct field j cur =
     (case j of
        JObject ms \<Rightarrow> dec_members field ms cur
      | JNull \<Rightarrow> Inr cur
      | _ \<Rightarrow> Inl (UnmarshalTypeError (json_kind j) ''struct''))"

definition stored :: "('v \<Rightarrow> 'a) \<Rightarrow> error + 'v \<Rightarrow> error + 'a" where
  "stored upd r = (case r of Inl e \<Rightarrow> Inl e | Inr v \<Rightarrow> Inr (upd v))"

text \<open>
  \<open>json.NewDecoder(res.Body).Decode(&ret)\<close>, where \<open>ret\<close> is a pointer to the result that
  is not nil. The decoder is handed \<open>&ret\<close>, the address of that pointer, and the library
  unmarshals the JSON literal null into a pointer by setting the pointer to nil: so a body
  that is null sets \<open>ret\<close> itself to nil and is no error. Any other value is decoded
  into the struct that \<open>ret\<close> points to. A body that is not a JSON text is an error.
\<close>

definition Decode :: "(json \<Rightarrow> 'a \<Rightarrow> error + 'a) \<Rightarrow> body \<Rightarrow> 'a \<Rightarrow> error + 'a option" where
  "Decode dec b ret =
     (case b of
        None \<Rightarrow> Inl SyntaxError
      | Some JNull \<Rightarrow> Inr None
      | Some j \<Rightarrow> (case dec j ret of Inl e \<Rightarrow> Inl e | Inr v \<Rightarrow> Inr (Some v)))"

text \<open>
  Modelled from the spec: \<open>gensupport.MarshalJSON\<close>, which is not among the source files.
  The spec and the comment of every \<open>ForceSendFields\<close> have a field with an empty value
  left out unless the Go name of the field is in \<open>ForceSendFields\<close>; a nil pointer is
  never sent. \<open>member\<close> is the list of members that one field contributes to the object,
  and the fields are encoded in the order of their declaration.
\<close>

definition member :: "string list \<Rightarrow> string \<Rightarrow> string \<Rightarrow> bool \<Rightarrow> json \<Rightarrow> (string \<times> json) list" where
  "member force goName key isEmpty v = (if isEmpty \<and> goName \<notin> set force then [] else [(key, v)])"

section \<open>The datastore object (govmomi, object/datastore.go)\<close>






section \<open>The Ad Exchange Seller client (adexchangeseller-gen.go)\<close>

subsection \<open>The service tree\<close>

text \<open>
  \<open>http_Client\<close> stands for a \<open>*http.Client\<close> that is not nil; a pointer that may be nil
  is an \<open>option\<close>. Every sub-service keeps the pointer \<open>s\<close> to the service it belongs to;
  the model keeps there the fields of the service that the calls read.
\<close>

datatype http_Client = Client nat

definition basePath :: string where
  "basePath = ''https://www.googleapis.com/adexchangeseller/v1/''"

record Service_core =
  client :: http_Client
  BasePath :: string
  UserAgent :: string

record AdclientsService =
  AdclientsService_s :: Service_core

record AdunitsCustomchannelsService =
  AdunitsCustomchannelsService_s :: Service_core

record AdunitsService =
  AdunitsService_s :: Service_core
  AdunitsService_Customchannels :: "AdunitsCustomchannelsService option"

record CustomchannelsAdunitsService =
  CustomchannelsAdunitsService_s :: Service_core

record CustomchannelsService =
  CustomchannelsService_s :: Service_core
  CustomchannelsService_Adunits :: "CustomchannelsAdunitsService option"

record ReportsSavedService =
  ReportsSavedService_s :: Service_core

record ReportsService =
  ReportsService_s :: Service_core
  ReportsService_Saved :: "ReportsSavedService option"

record UrlchannelsService =
  UrlchannelsService_s :: Service_core

record Service = Service_core +
  Adclients :: "AdclientsService option"
  Adunits :: "AdunitsService option"
  Customchannels :: "CustomchannelsService option"
  Reports :: "ReportsService option"
  Urlchannels :: "UrlchannelsService option"

definition NewAdclientsService :: "Service_core \<Rightarrow> AdclientsService" where
  "NewAdclientsService s = \<lparr>AdclientsService_s = s\<rparr>"

definition NewAdunitsCustomchannelsService :: "Service_core \<Rightarrow> AdunitsCustomchannelsService" where
  "NewAdunitsCustomchannelsService s = \<lparr>AdunitsCustomchannelsService_s = s\<rparr>"

definition NewAdunitsService :: "Service_core \<Rightarrow> AdunitsService" where
  "NewAdunitsService s =
     \<lparr>AdunitsService_s = s,
      AdunitsService_Customchannels = Some (NewAdunitsCustomchannelsService s)\<rparr>"

definition NewCustomchannelsAdunitsService :: "Service_core \<Rightarrow> CustomchannelsAdunitsService" where
  "NewCustomchannelsAdunitsService s = \<lparr>CustomchannelsAdunitsService_s = s\<rparr>"

definition NewCustomchannelsService :: "Service_core \<Rightarrow> CustomchannelsService" where
  "NewCustomchannelsService s =
     \<lparr>CustomchannelsService_s = s,
      CustomchannelsService_Adunits = Some (NewCustomchannelsAdunitsService s)\<rparr>"

definition NewReportsSavedService :: "Service_core \<Rightarrow> ReportsSavedService" where
  "NewReportsSavedService s = \<lparr>ReportsSavedService_s = s\<rparr>"

definition NewReportsService :: "Service_core \<Rightarrow> ReportsService" where
  "NewReportsService s =
     \<lparr>ReportsService_s = s, ReportsService_Saved = Some (NewReportsSavedService s)\<rparr>"

definition NewUrlchannelsService :: "Service_core \<Rightarrow> UrlchannelsService" where
  "NewUrlchannelsService s = \<lparr>UrlchannelsService_s = s\<rparr>"

text \<open>
  \<open>New\<close> returns the pair of Go: the service pointer and the error.
\<close>

definition New :: "http_Client option \<Rightarrow> Service option \<times> error option" where
  "New cl =
     (case cl of
        None \<Rightarrow> (None, Some (ErrorsNew ''client is nil''))
      | Some c \<Rightarrow>
          (let s = \<lparr>client = c, BasePath = basePath, UserAgent = []\<rparr>
           in (Some \<lparr>client = c, BasePath = basePath, UserAgent = [],
                     Adclients = Some (NewAdclientsService s),
                     Adunits = Some (NewAdunitsService s),
                     Customchannels = Some (NewCustomchannelsService s),
                     Reports = Some (NewReportsService s),
                     Urlchannels = Some (NewUrlchannelsService s)\<rparr>,
               None)))"

subsection \<open>Calls and their optional parameters\<close>

text \<open>
  The values that the setters store in the option map \<open>opt_\<close> of a call (a
  \<open>map[string]interface{}\<close>), and their rendering by \<open>fmt.Sprintf("%v", v)\<close>.
\<close>

datatype optval = VInt64 "64 word" | VString string | VBool bool

definition Sprintf_v :: "optval \<Rightarrow> string" where
  "Sprintf_v v =
     (case v of
        VInt64 n \<Rightarrow> Itoa (sint n)
      | VString str \<Rightarrow> str
      | VBool b \<Rightarrow> (if b then ''true'' else ''false''))"

text \<open>
  Every call type has the service pointer \<open>s\<close>, the option map \<open>opt_\<close> and the context
  \<open>ctx_\<close> (fields \<open>Call_s\<close>, \<open>Call_opt\<close> and \<open>Call_ctx\<close>: a name cannot end with an
  underscore here); some add the identifiers of their path. Call types with the same fields
  share a record.
\<close>

datatype Context = Ctx nat

record Call =
  Call_s :: Service_core
  Call_opt :: "string \<rightharpoonup> optval"
  Call_ctx :: "Context option"

record AdClientCall = Call +
  adClientId :: string

record AdUnitCall = AdClientCall +
  adUnitId :: string

record CustomChannelCall = AdClientCall +
  customChannelId :: string

record ReportsGenerateCall = Call +
  startDate :: string
  endDate :: string

record ReportsSavedGenerateCall = Call +
  savedReportId :: string

type_synonym AdclientsListCall = Call
type_synonym AdunitsGetCall = AdUnitCall
type_synonym AdunitsListCall = AdClientCall
type_synonym AdunitsCustomchannelsListCall = AdUnitCall
type_synonym CustomchannelsGetCall = CustomChannelCall
type_synonym CustomchannelsListCall = AdClientCall
type_synonym CustomchannelsAdunitsListCall = CustomChannelCall
type_synonym ReportsSavedListCall = Call
type_synonym UrlchannelsListCall = AdClientCall

definition AdclientsService_List :: "AdclientsService \<Rightarrow> AdclientsListCall" where
  "AdclientsService_List r = \<lparr>Call_s = AdclientsService_s r, Call_opt = Map.empty, Call_ctx = None\<rparr>"

definition AdunitsService_Get :: "AdunitsService \<Rightarrow> string \<Rightarrow> string \<Rightarrow> AdunitsGetCall" where
  "AdunitsService_Get r adClientId' adUnitId' =
     \<lparr>Call_s = AdunitsService_s r, Call_opt = Map.empty, Call_ctx = None,
      adClientId = adClientId', adUnitId = adUnitId'\<rparr>"

definition AdunitsService_List :: "AdunitsService \<Rightarrow> string \<Rightarrow> AdunitsListCall" where
  "AdunitsService_List r adClientId' =
     \<lparr>Call_s = AdunitsService_s r, Call_opt = Map.empty, Call_ctx = None, adClientId = adClientId'\<rparr>"


definition CustomchannelsService_Get ::
    "CustomchannelsService \<Rightarrow> string \<Rightarrow> string \<Rightarrow> CustomchannelsGetCall" where
  "CustomchannelsService_Get r adClientId' customChannelId' =
     \<lparr>Call_s = CustomchannelsService_s r, Call_opt = Map.empty, Call_ctx = None,
      adClientId = adClientId', customChannelId = customChannelId'\<rparr>"



definition ReportsService_Generate :: "ReportsService \<Rightarrow> string \<Rightarrow> string \<Rightarrow> ReportsGenerateCall" where
  "ReportsService_Generate r startDate' endDate' =
     \<lparr>Call_s = ReportsService_s r, Call_opt = Map.empty, Call_ctx = None,
      startDate = startDate', endDate = endDate'\<rparr>"

definition ReportsSavedService_Generate :: "ReportsSavedService \<Rightarrow> string \<Rightarrow> ReportsSavedGenerateCall" where
  "ReportsSavedService_Generate r savedReportId' =
     \<lparr>Call_s = ReportsSavedService_s r, Call_opt = Map.empty, Call_ctx = None,
      savedReportId = savedReportId'\<rparr>"



text \<open>
  Modelled from the spec: \<open>googleapi.CombineFields\<close>, which is not among the source files.
  The field mask of the spec is the list of the names of the fields; the names are joined
  with commas, as the partial responses of the API write them.
\<close>

definition CombineFields :: "string list \<Rightarrow> string" where
  "CombineFields fs = (case fs of [] \<Rightarrow> [] | f # rest \<Rightarrow> f @ concat (map (\<lambda>g. CHR '','' # g) rest))"

text \<open>
  The setter methods. A method of the source stores its argument under its key in
  \<open>opt_\<close>, or the context in \<open>ctx_\<close>, and returns the call; the body is the same in every
  call type that has the method. \<open>call_set\<close> is one application of a setter,
  \<open>call_sets\<close> a sequence of them, and \<open>setter_key\<close> the key that a setter writes.
\<close>

datatype setter =
    MaxResults "64 word"
  | PageToken string
  | Fields "string list"
  | IfNoneMatch string
  | Context Context
  | IncludeInactive bool
  | Dimension string
  | Filter string
  | Locale string
  | Metric string
  | Sort string
  | StartIndex "64 word"

fun call_set :: "setter \<Rightarrow> 'a Call_scheme \<Rightarrow> 'a Call_scheme" where
  "call_set (MaxResults maxResults) c = c\<lparr>Call_opt := (Call_opt c)(''maxResults'' \<mapsto> VInt64 maxResults)\<rparr>"
| "call_set (PageToken pageToken) c = c\<lparr>Call_opt := (Call_opt c)(''pageToken'' \<mapsto> VString pageToken)\<rparr>"
| "call_set (Fields fs) c = c\<lparr>Call_opt := (Call_opt c)(''fields'' \<mapsto> VString (CombineFields fs))\<rparr>"
| "call_set (IfNoneMatch entityTag) c = c\<lparr>Call_opt := (Call_opt c)(''ifNoneMatch'' \<mapsto> VString entityTag)\<rparr>"
| "call_set (Context ctx) c = c\<lparr>Call_ctx := Some ctx\<rparr>"
| "call_set (IncludeInactive includeInactive) c =
     c\<lparr>Call_opt := (Call_opt c)(''includeInactive'' \<mapsto> VBool includeInactive)\<rparr>"
| "call_set (Dimension dimension) c = c\<lparr>Call_opt := (Call_opt c)(''dimension'' \<mapsto> VString dimension)\<rparr>"
| "call_set (Filter filter') c = c\<lparr>Call_opt := (Call_opt c)(''filter'' \<mapsto> VString filter')\<rparr>"
| "call_set (Locale locale) c = c\<lparr>Call_opt := (Call_opt c)(''locale'' \<mapsto> VString locale)\<rparr>"
| "call_set (Metric metric) c = c\<lparr>Call_opt := (Call_opt c)(''metric'' \<mapsto> VString metric)\<rparr>"
| "call_set (Sort sort') c = c\<lparr>Call_opt := (Call_opt c)(''sort'' \<mapsto> VString sort')\<rparr>"
| "call_set (StartIndex startIndex) c = c\<lparr>Call_opt := (Call_opt c)(''startIndex'' \<mapsto> VInt64 startIndex)\<rparr>"








subsection \<open>Building the request\<close>

text \<open>
  \<open>url.Values\<close> maps a key to its list of values, and \<open>Set\<close> replaces the list by one
  value; \<open>Encode\<close> writes one \<open>key=value\<close> pair for every value of every key, so the
  keys of the query string are the keys of the map. \<open>set_opt\<close> is the statement
  \<open>if v, ok := c.opt_[k]; ok { params.Set(k, fmt.Sprintf("%v", v)) }\<close>.
\<close>

type_synonym url_Values = "string \<rightharpoonup> string list"

definition Values_Set :: "string \<Rightarrow> string \<Rightarrow> url_Values \<Rightarrow> url_Values" where
  "Values_Set k v params = params(k \<mapsto> [v])"

definition set_opt :: "(string \<rightharpoonup> optval) \<Rightarrow> string \<Rightarrow> url_Values \<Rightarrow> url_Values" where
  "set_opt opt k params =
     (case opt k of Some v \<Rightarrow> Values_Set k (Sprintf_v v) params | None \<Rightarrow> params)"

text \<open>
  Modelled from the spec: the constant \<open>googleapi.UserAgent\<close>, which is not among the
  source files. The spec has a header that identifies the client; its value is the name
  and version of the client library.
\<close>

definition googleapi_UserAgent :: string where
  "googleapi_UserAgent = ''google-api-go-client/0.5''"

definition userAgent :: "Service_core \<Rightarrow> string" where
  "userAgent s =
     (if UserAgent s = [] then googleapi_UserAgent
      else googleapi_UserAgent @ '' '' @ UserAgent s)"

text \<open>
  The request keeps apart what \<open>googleapi.ResolveRelative\<close>, \<open>params.Encode\<close> and
  \<open>googleapi.Expand\<close> put into one URL: the base path, the path template, the values of
  its placeholders, and the query parameters. The method is GET and there is no body.
\<close>

record Request =
  Method :: string
  URL_base :: string
  URL_path :: string
  URL_vars :: "(string \<times> string) list"
  Query :: url_Values
  Req_Header :: "string \<rightharpoonup> string"

definition new_request ::
    "'a Call_scheme \<Rightarrow> string \<Rightarrow> (string \<times> string) list \<Rightarrow> url_Values \<Rightarrow> Request" where
  "new_request c path vars params =
     \<lparr>Method = ''GET'', URL_base = BasePath (Call_s c), URL_path = path, URL_vars = vars,
      Query = params,
      Req_Header =
        (let h = [''User-Agent'' \<mapsto> userAgent (Call_s c)]
         in case Call_opt c ''ifNoneMatch'' of
              Some v \<Rightarrow> h(''If-None-Match'' \<mapsto> Sprintf_v v)
            | None \<Rightarrow> h)\<rparr>"

text \<open>
  The request of each call: \<open>doRequest\<close> up to the point where it sends.
\<close>

definition AdclientsListCall_request :: "string \<Rightarrow> AdclientsListCall \<Rightarrow> Request" where
  "AdclientsListCall_request alt c =
     (let params = Values_Set ''alt'' alt Map.empty;
          params = set_opt (Call_opt c) ''maxResults'' params;
          params = set_opt (Call_opt c) ''pageToken'' params;
          params = set_opt (Call_opt c) ''fields'' params
      in new_request c ''adclients'' [] params)"

definition AdunitsGetCall_request :: "string \<Rightarrow> AdunitsGetCall \<Rightarrow> Request" where
  "AdunitsGetCall_request alt c =
     (let params = Values_Set ''alt'' alt Map.empty;
          params = set_opt (Call_opt c) ''fields'' params
      in new_request c ''adclients/{adClientId}/adunits/{adUnitId}''
           [(''adClientId'', adClientId c), (''adUnitId'', adUnitId c)] params)"

definition AdunitsListCall_request :: "string \<Rightarrow> AdunitsListCall \<Rightarrow> Request" where
  "AdunitsListCall_request alt c =
     (let params = Values_Set ''alt'' alt Map.empty;
          params = set_opt (Call_opt c) ''includeInactive'' params;
          params = set_opt (Call_opt c) ''maxResults'' params;
          params = set_opt (Call_opt c) ''pageToken'' params;
          params = set_opt (Call_opt c) ''fields'' params
      in new_request c ''adclients/{adClientId}/adunits''
           [(''adClientId'', adClientId c)] params)"

definition AdunitsCustomchannelsListCall_request ::
    "string \<Rightarrow> AdunitsCustomchannelsListCall \<Rightarrow> Request" where
  "AdunitsCustomchannelsListCall_request alt c =
     (let params = Values_Set ''alt'' alt Map.empty;
          params = set_opt (Call_opt c) ''maxResults'' params;
          params = set_opt (Call_opt c) ''pageToken'' params;
          params = set_opt (Call_opt c) ''fields'' params
      in new_request c ''adclients/{adClientId}/adunits/{adUnitId}/customchannels''
           [(''adClientId'', adClientId c), (''adUnitId'', adUnitId c)] params)"

definition CustomchannelsGetCall_request :: "string \<Rightarrow> CustomchannelsGetCall \<Rightarrow> Request" where
  "CustomchannelsGetCall_request alt c =
     (let params = Values_Set ''alt'' alt Map.empty;
          params = set_opt (Call_opt c) ''fields'' params
      in new_request c ''adclients/{adClientId}/customchannels/{customChannelId}''
           [(''adClientId'', adClientId c), (''customChannelId'', customChannelId c)] params)"

definition CustomchannelsListCall_request :: "string \<Rightarrow> CustomchannelsListCall \<Rightarrow> Request" where
  "CustomchannelsListCall_request alt c =
     (let params = Values_Set ''alt'' alt Map.empty;
          params = set_opt (Call_opt c) ''maxResults'' params;
          params = set_opt (Call_opt c) ''pageToken'' params;
          params = set_opt (Call_opt c) ''fields'' params
      in new_request c ''adclients/{adClientId}/customchannels''
           [(''adClientId'', adClientId c)] params)"

definition CustomchannelsAdunitsListCall_request ::
    "string \<Rightarrow> CustomchannelsAdunitsListCall \<Rightarrow> Request" where
  "CustomchannelsAdunitsListCall_request alt c =
     (let params = Values_Set ''alt'' alt Map.empty;
          params = set_opt (Call_opt c) ''includeInactive'' params;
          params = set_opt (Call_opt c) ''maxResults'' params;
          params = set_opt (Call_opt c) ''pageToken'' params;
          params = set_opt (Call_opt c) ''fields'' params
      in new_request c ''adclients/{adClientId}/customchannels/{customChannelId}/adunits''
           [(''adClientId'', adClientId c), (''customChannelId'', customChannelId c)] params)"

definition ReportsGenerateCall_request :: "string \<Rightarrow> ReportsGenerateCall \<Rightarrow> Request" where
  "ReportsGenerateCall_request alt c =
     (let params = Values_Set ''alt'' alt Map.empty;
          params = Values_Set ''endDate'' (endDate c) params;
          params = Values_Set ''startDate'' (startDate c) params;
          params = set_opt (Call_opt c) ''dimension'' params;
          params = set_opt (Call_opt c) ''filter'' params;
          params = set_opt (Call_opt c) ''locale'' params;
          params = set_opt (Call_opt c) ''maxResults'' params;
          params = set_opt (Call_opt c) ''metric'' params;
          params = set_opt (Call_opt c) ''sort'' params;
          params = set_opt (Call_opt c) ''startIndex'' params;
          params = set_opt (Call_opt c) ''fields'' params
      in new_request c ''reports'' [] params)"

definition ReportsSavedGenerateCall_request :: "string \<Rightarrow> ReportsSavedGenerateCall \<Rightarrow> Request" where
  "ReportsSavedGenerateCall_request alt c =
     (let params = Values_Set ''alt'' alt Map.empty;
          params = set_opt (Call_opt c) ''locale'' params;
          params = set_opt (Call_opt c) ''maxResults'' params;
          params = set_opt (Call_opt c) ''startIndex'' params;
          params = set_opt (Call_opt c) ''fields'' params
      in new_request c ''reports/{savedReportId}'' [(''savedReportId'', savedReportId c)] params)"

definition ReportsSavedListCall_request :: "string \<Rightarrow> ReportsSavedListCall \<Rightarrow> Request" where
  "ReportsSavedListCall_request alt c =
     (let params = Values_Set ''alt'' alt Map.empty;
          params = set_opt (Call_opt c) ''maxResults'' params;
          params = set_opt (Call_opt c) ''pageToken'' params;
          params = set_opt (Call_opt c) ''fields'' params
      in new_request c ''reports/saved'' [] params)"

definition UrlchannelsListCall_request :: "string \<Rightarrow> UrlchannelsListCall \<Rightarrow> Request" where
  "UrlchannelsListCall_request alt c =
     (let params = Values_Set ''alt'' alt Map.empty;
          params = set_opt (Call_opt c) ''maxResults'' params;
          params = set_opt (Call_opt c) ''pageToken'' params;
          params = set_opt (Call_opt c) ''fields'' params
      in new_request c ''adclients/{adClientId}/urlchannels''
           [(''adClientId'', adClientId c)] params)"

subsection \<open>Sending the request\<close>

text \<open>
  The network is a parameter: \<open>client_Do\<close> is \<open>c.s.client.Do(req)\<close> and \<open>ctxhttp_Do\<close> is
  \<open>ctxhttp.Do(c.ctx_, c.s.client, req)\<close>; both return the pair of Go, a response pointer
  and an error.
\<close>

record Transport =
  client_Do :: "http_Client \<Rightarrow> Request \<Rightarrow> Response option \<times> error option"
  ctxhttp_Do :: "Context \<Rightarrow> http_Client \<Rightarrow> Request \<Rightarrow> Response option \<times> error option"

definition send :: "Transport \<Rightarrow> 'a Call_scheme \<Rightarrow> Request \<Rightarrow> Response option \<times> error option" where
  "send net c req =
     (case Call_ctx c of
        Some ctx \<Rightarrow> ctxhttp_Do net ctx (client (Call_s c)) req
      | None \<Rightarrow> client_Do net (client (Call_s c)) req)"

definition AdclientsListCall_doRequest ::
    "Transport \<Rightarrow> string \<Rightarrow> AdclientsListCall \<Rightarrow> Response option \<times> error option" where
  "AdclientsListCall_doRequest net alt c = send net c (AdclientsListCall_request alt c)"

definition AdunitsGetCall_doRequest ::
    "Transport \<Rightarrow> string \<Rightarrow> AdunitsGetCall \<Rightarrow> Response option \<times> error option" where
  "AdunitsGetCall_doRequest net alt c = send net c (AdunitsGetCall_request alt c)"

definition AdunitsListCall_doRequest ::
    "Transport \<Rightarrow> string \<Rightarrow> AdunitsListCall \<Rightarrow> Response option \<times> error option" where
  "AdunitsListCall_doRequest net alt c = send net c (AdunitsListCall_request alt c)"

definition AdunitsCustomchannelsListCall_doRequest ::
    "Transport \<Rightarrow> string \<Rightarrow> AdunitsCustomchannelsListCall \<Rightarrow> Response option \<times> error option" where
  "AdunitsCustomchannelsListCall_doRequest net alt c = send net c (AdunitsCustomchannelsListCall_request alt c)"

definition CustomchannelsGetCall_doRequest ::
    "Transport \<Rightarrow> string \<Rightarrow> CustomchannelsGetCall \<Rightarrow> Response option \<times> error option" where
  "CustomchannelsGetCall_doRequest net alt c = send net c (CustomchannelsGetCall_request alt c)"

definition CustomchannelsListCall_doRequest ::
    "Transport \<Rightarrow> string \<Rightarrow> CustomchannelsListCall \<Rightarrow> Response option \<times> error option" where
  "CustomchannelsListCall_doRequest net alt c = send net c (CustomchannelsListCall_request alt c)"

definition CustomchannelsAdunitsListCall_doRequest ::
    "Transport \<Rightarrow> string \<Rightarrow> CustomchannelsAdunitsListCall \<Rightarrow> Response option \<times> error option" where
  "CustomchannelsAdunitsListCall_doRequest net alt c = send net c (CustomchannelsAdunitsListCall_request alt c)"

definition ReportsGenerateCall_doRequest ::
    "Transport \<Rightarrow> string \<Rightarrow> ReportsGenerateCall \<Rightarrow> Response option \<times> error option" where
  "ReportsGenerateCall_doRequest net alt c = send net c (ReportsGenerateCall_request alt c)"

definition ReportsSavedGenerateCall_doRequest ::
    "Transport \<Rightarrow> string \<Rightarrow> ReportsSavedGenerateCall \<Rightarrow> Response option \<times> error option" where
  "ReportsSavedGenerateCall_doRequest net alt c = send net c (ReportsSavedGenerateCall_request alt c)"

definition ReportsSavedListCall_doRequest ::
    "Transport \<Rightarrow> string \<Rightarrow> ReportsSavedListCall \<Rightarrow> Response option \<times> error option" where
  "ReportsSavedListCall_doRequest net alt c = send net c (ReportsSavedListCall_request alt c)"

definition UrlchannelsListCall_doRequest ::
    "Transport \<Rightarrow> string \<Rightarrow> UrlchannelsListCall \<Rightarrow> Response option \<times> error option" where
  "UrlchannelsListCall_doRequest net alt c = send net c (UrlchannelsListCall_request alt c)"

subsection \<open>The resources and their JSON encoding\<close>

text \<open>
  Each struct of the source is a record; its \<open>_field\<close> function is the table of its
  \<open>json\<close> tags, \<open>_dec\<close> decodes a JSON value into it, and \<open>_MarshalJSON\<close> is its
  method of that name. The embedded \<open>googleapi.ServerResponse\<close> and \<open>ForceSendFields\<close>
  have the tag \<open>json:"-"\<close>: no member is decoded into them and they are not encoded.
  \<open>_new\<close> is the value that \<open>Do\<close> decodes into, empty but for the server response.
\<close>

record AdClient =
  AdClient_ArcOptIn :: bool
  AdClient_Id :: string
  AdClient_Kind :: string
  AdClient_ProductCode :: string
  AdClient_SupportsReporting :: bool
  AdClient_ForceSendFields :: "string list"

definition AdClient_zero :: AdClient where
  "AdClient_zero =
     \<lparr>AdClient_ArcOptIn = False,
      AdClient_Id = [],
      AdClient_Kind = [],
      AdClient_ProductCode = [],
      AdClient_SupportsReporting = False,
      AdClient_ForceSendFields = []\<rparr>"

definition AdClient_field :: "string \<Rightarrow> json \<Rightarrow> AdClient \<Rightarrow> error + AdClient" where
  "AdClient_field k v cur =
     (if equalFold ''arcOptIn'' k
      then stored (\<lambda>x. cur\<lparr>AdClient_ArcOptIn := x\<rparr>)
             (dec_bool v (AdClient_ArcOptIn cur))
      else if equalFold ''id'' k
      then stored (\<lambda>x. cur\<lparr>AdClient_Id := x\<rparr>)
             (dec_string v (AdClient_Id cur))
      else if equalFold ''kind'' k
      then stored (\<lambda>x. cur\<lparr>AdClient_Kind := x\<rparr>)
             (dec_string v (AdClient_Kind cur))
      else if equalFold ''productCode'' k
      then stored (\<lambda>x. cur\<lparr>AdClient_ProductCode := x\<rparr>)
             (dec_string v (AdClient_ProductCode cur))
      else if equalFold ''supportsReporting'' k
      then stored (\<lambda>x. cur\<lparr>AdClient_SupportsReporting := x\<rparr>)
             (dec_bool v (AdClient_SupportsReporting cur))
      else Inr cur)"

definition AdClient_dec :: "json \<Rightarrow> AdClient \<Rightarrow> error + AdClient" where
  "AdClient_dec = dec_struct AdClient_field"

definition AdClient_MarshalJSON :: "AdClient \<Rightarrow> json" where
  "AdClient_MarshalJSON s =
     (let f = AdClient_ForceSendFields s
      in JObject
           (member f ''ArcOptIn'' ''arcOptIn'' (\<not> AdClient_ArcOptIn s) (JBool (AdClient_ArcOptIn s)) @
            member f ''Id'' ''id'' (AdClient_Id s = []) (JString (AdClient_Id s)) @
            member f ''Kind'' ''kind'' (AdClient_Kind s = []) (JString (AdClient_Kind s)) @
            member f ''ProductCode'' ''productCode'' (AdClient_ProductCode s = []) (JString (AdClient_ProductCode s)) @
            member f ''SupportsReporting'' ''supportsReporting'' (\<not> AdClient_SupportsReporting s) (JBool (AdClient_SupportsReporting s))))"

definition AdClient_ptr_json :: "AdClient option \<Rightarrow> json" where
  "AdClient_ptr_json p = (case p of None \<Rightarrow> JNull | Some a \<Rightarrow> AdClient_MarshalJSON a)"

record AdClients =
  AdClients_Etag :: string
  AdClients_Items :: "AdClient option list"
  AdClients_Kind :: string
  AdClients_NextPageToken :: string
  AdClients_ServerResponse :: ServerResponse
  AdClients_ForceSendFields :: "string list"

definition AdClients_zero :: AdClients where
  "AdClients_zero =
     \<lparr>AdClients_Etag = [],
      AdClients_Items = [],
      AdClients_Kind = [],
      AdClients_NextPageToken = [],
      AdClients_ServerResponse = ServerResponse_zero,
      AdClients_ForceSendFields = []\<rparr>"

definition AdClients_field :: "string \<Rightarrow> json \<Rightarrow> AdClients \<Rightarrow> error + AdClients" where
  "AdClients_field k v cur =
     (if equalFold ''etag'' k
      then stored (\<lambda>x. cur\<lparr>AdClients_Etag := x\<rparr>)
             (dec_string v (AdClients_Etag cur))
      else if equalFold ''items'' k
      then stored (\<lambda>x. cur\<lparr>AdClients_Items := x\<rparr>)
             (dec_slice (dec_ptr AdClient_dec AdClient_zero) None v (AdClients_Items cur))
      else if equalFold ''kind'' k
      then stored (\<lambda>x. cur\<lparr>AdClients_Kind := x\<rparr>)
             (dec_string v (AdClients_Kind cur))
      else if equalFold ''nextPageToken'' k
      then stored (\<lambda>x. cur\<lparr>AdClients_NextPageToken := x\<rparr>)
             (dec_string v (AdClients_NextPageToken cur))
      else Inr cur)"

definition AdClients_dec :: "json \<Rightarrow> AdClients \<Rightarrow> error + AdClients" where
  "AdClients_dec = dec_struct AdClients_field"

definition AdClients_MarshalJSON :: "AdClients \<Rightarrow> json" where
  "AdClients_MarshalJSON s =
     (let f = AdClients_ForceSendFields s
      in JObject
           (member f ''Etag'' ''etag'' (AdClients_Etag s = []) (JString (AdClients_Etag s)) @
            member f ''Items'' ''items'' (AdClients_Items s = [])
              (JArray (map AdClient_ptr_json (AdClients_Items s))) @
            member f ''Kind'' ''kind'' (AdClients_Kind s = []) (JString (AdClients_Kind s)) @
            member f ''NextPageToken'' ''nextPageToken'' (AdClients_NextPageToken s = []) (JString (AdClients_NextPageToken s))))"

definition AdClients_new :: "ServerResponse \<Rightarrow> AdClients" where
  "AdClients_new sr = AdClients_zero\<lparr>AdClients_ServerResponse := sr\<rparr>"

record AdUnit =
  AdUnit_Code :: string
  AdUnit_Id :: string
  AdUnit_Kind :: string
  AdUnit_Name :: string
  AdUnit_Status :: string
  AdUnit_ServerResponse :: ServerResponse
  AdUnit_ForceSendFields :: "string list"

definition AdUnit_zero :: AdUnit where
  "AdUnit_zero =
     \<lparr>AdUnit_Code = [],
      AdUnit_Id = [],
      AdUnit_Kind = [],
      AdUnit_Name = [],
      AdUnit_Status = [],
      AdUnit_ServerResponse = ServerResponse_zero,
      AdUnit_ForceSendFields = []\<rparr>"

definition AdUnit_field :: "string \<Rightarrow> json \<Rightarrow> AdUnit \<Rightarrow> error + AdUnit" where
  "AdUnit_field k v cur =
     (if equalFold ''code'' k
      then stored (\<lambda>x. cur\<lparr>AdUnit_Code := x\<rparr>)
             (dec_string v (AdUnit_Code cur))
      else if equalFold ''id'' k
      then stored (\<lambda>x. cur\<lparr>AdUnit_Id := x\<rparr>)
             (dec_string v (AdUnit_Id cur))
      else if equalFold ''kind'' k
      then stored (\<lambda>x. cur\<lparr>AdUnit_Kind := x\<rparr>)
             (dec_string v (AdUnit_Kind cur))
      else if equalFold ''name'' k
      then stored (\<lambda>x. cur\<lparr>AdUnit_Name := x\<rparr>)
             (dec_string v (AdUnit_Name cur))
      else if equalFold ''status'' k
      then stored (\<lambda>x. cur\<lparr>AdUnit_Status := x\<rparr>)
             (dec_string v (AdUnit_Status cur))
      else Inr cur)"

definition AdUnit_dec :: "json \<Rightarrow> AdUnit \<Rightarrow> error + AdUnit" where
  "AdUnit_dec = dec_struct AdUnit_field"

definition AdUnit_MarshalJSON :: "AdUnit \<Rightarrow> json" where
  "AdUnit_MarshalJSON s =
     (let f = AdUnit_ForceSendFields s
      in JObject
           (member f ''Code'' ''code'' (AdUnit_Code s = []) (JString (AdUnit_Code s)) @
            member f ''Id'' ''id'' (AdUnit_Id s = []) (JString (AdUnit_Id s)) @
            member f ''Kind'' ''kind'' (AdUnit_Kind s = []) (JString (AdUnit_Kind s)) @
            member f ''Name'' ''name'' (AdUnit_Name s = []) (JString (AdUnit_Name s)) @
            member f ''Status'' ''status'' (AdUnit_Status s = []) (JString (AdUnit_Status s))))"

definition AdUnit_ptr_json :: "AdUnit option \<Rightarrow> json" where
  "AdUnit_ptr_json p = (case p of None \<Rightarrow> JNull | Some a \<Rightarrow> AdUnit_MarshalJSON a)"

definition AdUnit_new :: "ServerResponse \<Rightarrow> AdUnit" where
  "AdUnit_new sr = AdUnit_zero\<lparr>AdUnit_ServerResponse := sr\<rparr>"

record AdUnits =
  AdUnits_Etag :: string
  AdUnits_Items :: "AdUnit option list"
  AdUnits_Kind :: string
  AdUnits_NextPageToken :: string
  AdUnits_ServerResponse :: ServerResponse
  AdUnits_ForceSendFields :: "string list"

definition AdUnits_zero :: AdUnits where
  "AdUnits_zero =
     \<lparr>AdUnits_Etag = [],
      AdUnits_Items = [],
      AdUnits_Kind = [],
      AdUnits_NextPageToken = [],
      AdUnits_ServerResponse = ServerResponse_zero,
      AdUnits_ForceSendFields = []\<rparr>"

definition AdUnits_field :: "string \<Rightarrow> json \<Rightarrow> AdUnits \<Rightarrow> error + AdUnits" where
  "AdUnits_field k v cur =
     (if equalFold ''etag'' k
      then stored (\<lambda>x. cur\<lparr>AdUnits_Etag := x\<rparr>)
             (dec_string v (AdUnits_Etag cur))
      else if equalFold ''items'' k
      then stored (\<lambda>x. cur\<lparr>AdUnits_Items := x\<rparr>)
             (dec_slice (dec_ptr AdUnit_dec AdUnit_zero) None v (AdUnits_Items cur))
      else if equalFold ''kind'' k
      then stored (\<lambda>x. cur\<lparr>AdUnits_Kind := x\<rparr>)
             (dec_string v (AdUnits_Kind cur))
      else if equalFold ''nextPageToken'' k
      then stored (\<lambda>x. cur\<lparr>AdUnits_NextPageToken := x\<rparr>)
             (dec_string v (AdUnits_NextPageToken cur))
      else Inr cur)"

definition AdUnits_dec :: "json \<Rightarrow> AdUnits \<Rightarrow> error + AdUnits" where
  "AdUnits_dec = dec_struct AdUnits_field"

definition AdUnits_MarshalJSON :: "AdUnits \<Rightarrow> json" where
  "AdUnits_MarshalJSON s =
     (let f = AdUnits_ForceSendFields s
      in JObject
           (member f ''Etag'' ''etag'' (AdUnits_Etag s = []) (JString (AdUnits_Etag s)) @
            member f ''Items'' ''items'' (AdUnits_Items s = [])
              (JArray (map AdUnit_ptr_json (AdUnits_Items s))) @
            member f ''Kind'' ''kind'' (AdUnits_Kind s = []) (JString (AdUnits_Kind s)) @
            member f ''NextPageToken'' ''nextPageToken'' (AdUnits_NextPageToken s = []) (JString (AdUnits_NextPageToken s))))"

definition AdUnits_new :: "ServerResponse \<Rightarrow> AdUnits" where
  "AdUnits_new sr = AdUnits_zero\<lparr>AdUnits_ServerResponse := sr\<rparr>"

record CustomChannelTargetingInfo =
  CustomChannelTargetingInfo_AdsAppearOn :: string
  CustomChannelTargetingInfo_Description :: string
  CustomChannelTargetingInfo_Location :: string
  CustomChannelTargetingInfo_SiteLanguage :: string
  CustomChannelTargetingInfo_ForceSendFields :: "string list"

definition CustomChannelTargetingInfo_zero :: CustomChannelTargetingInfo where
  "CustomChannelTargetingInfo_zero =
     \<lparr>CustomChannelTargetingInfo_AdsAppearOn = [],
      CustomChannelTargetingInfo_Description = [],
      CustomChannelTargetingInfo_Location = [],
      CustomChannelTargetingInfo_SiteLanguage = [],
      CustomChannelTargetingInfo_ForceSendFields = []\<rparr>"

definition CustomChannelTargetingInfo_field :: "string \<Rightarrow> json \<Rightarrow> CustomChannelTargetingInfo \<Rightarrow> error + CustomChannelTargetingInfo" where
  "CustomChannelTargetingInfo_field k v cur =
     (if equalFold ''adsAppearOn'' k
      then stored (\<lambda>x. cur\<lparr>CustomChannelTargetingInfo_AdsAppearOn := x\<rparr>)
             (dec_string v (CustomChannelTargetingInfo_AdsAppearOn cur))
      else if equalFold ''description'' k
      then stored (\<lambda>x. cur\<lparr>CustomChannelTargetingInfo_Description := x\<rparr>)
             (dec_string v (CustomChannelTargetingInfo_Description cur))
      else if equalFold ''location'' k
      then stored (\<lambda>x. cur\<lparr>CustomChannelTargetingInfo_Location := x\<rparr>)
             (dec_string v (CustomChannelTargetingInfo_Location cur))
      else if equalFold ''siteLanguage'' k
      then stored (\<lambda>x. cur\<lparr>CustomChannelTargetingInfo_SiteLanguage := x\<rparr>)
             (dec_string v (CustomChannelTargetingInfo_SiteLanguage cur))
      else Inr cur)"

definition CustomChannelTargetingInfo_dec :: "json \<Rightarrow> CustomChannelTargetingInfo \<Rightarrow> error + CustomChannelTargetingInfo" where
  "CustomChannelTargetingInfo_dec = dec_struct CustomChannelTargetingInfo_field"

definition CustomChannelTargetingInfo_MarshalJSON :: "CustomChannelTargetingInfo \<Rightarrow> json" where
  "CustomChannelTargetingInfo_MarshalJSON s =
     (let f = CustomChannelTargetingInfo_ForceSendFields s
      in JObject
           (member f ''AdsAppearOn'' ''adsAppearOn'' (CustomChannelTargetingInfo_AdsAppearOn s = []) (JString (CustomChannelTargetingInfo_AdsAppearOn s)) @
            member f ''Description'' ''description'' (CustomChannelTargetingInfo_Description s = []) (JString (CustomChannelTargetingInfo_Description s)) @
            member f ''Location'' ''location'' (CustomChannelTargetingInfo_Location s = []) (JString (CustomChannelTargetingInfo_Location s)) @
            member f ''SiteLanguage'' ''siteLanguage'' (CustomChannelTargetingInfo_SiteLanguage s = []) (JString (CustomChannelTargetingInfo_SiteLanguage s))))"

record CustomChannel =
  CustomChannel_Code :: string
  CustomChannel_Id :: string
  CustomChannel_Kind :: string
  CustomChannel_Name :: string
  CustomChannel_TargetingInfo :: "CustomChannelTargetingInfo option"
  CustomChannel_ServerResponse :: ServerResponse
  CustomChannel_ForceSendFields :: "string list"

definition CustomChannel_zero :: CustomChannel where
  "CustomChannel_zero =
     \<lparr>CustomChannel_Code = [],
      CustomChannel_Id = [],
      CustomChannel_Kind = [],
      CustomChannel_Name = [],
      CustomChannel_TargetingInfo = None,
      CustomChannel_ServerResponse = ServerResponse_zero,
      CustomChannel_ForceSendFields = []\<rparr>"

definition CustomChannel_field :: "string \<Rightarrow> json \<Rightarrow> CustomChannel \<Rightarrow> error + CustomChannel" where
  "CustomChannel_field k v cur =
     (if equalFold ''code'' k
      then stored (\<lambda>x. cur\<lparr>CustomChannel_Code := x\<rparr>)
             (dec_string v (CustomChannel_Code cur))
      else if equalFold ''id'' k
      then stored (\<lambda>x. cur\<lparr>CustomChannel_Id := x\<rparr>)
             (dec_string v (CustomChannel_Id cur))
      else if equalFold ''kind'' k
      then stored (\<lambda>x. cur\<lparr>CustomChannel_Kind := x\<rparr>)
             (dec_string v (CustomChannel_Kind cur))
      else if equalFold ''name'' k
      then stored (\<lambda>x. cur\<lparr>CustomChannel_Name := x\<rparr>)
             (dec_string v (CustomChannel_Name cur))
      else if equalFold ''targetingInfo'' k
      then stored (\<lambda>x. cur\<lparr>CustomChannel_TargetingInfo := x\<rparr>)
             (dec_ptr CustomChannelTargetingInfo_dec CustomChannelTargetingInfo_zero v (CustomChannel_TargetingInfo cur))
      else Inr cur)"

definition CustomChannel_dec :: "json \<Rightarrow> CustomChannel \<Rightarrow> error + CustomChannel" where
  "CustomChannel_dec = dec_struct CustomChannel_field"

definition CustomChannel_MarshalJSON :: "CustomChannel \<Rightarrow> json" where
  "CustomChannel_MarshalJSON s =
     (let f = CustomChannel_ForceSendFields s
      in JObject
           (member f ''Code'' ''code'' (CustomChannel_Code s = []) (JString (CustomChannel_Code s)) @
            member f ''Id'' ''id'' (CustomChannel_Id s = []) (JString (CustomChannel_Id s)) @
            member f ''Kind'' ''kind'' (CustomChannel_Kind s = []) (JString (CustomChannel_Kind s)) @
            member f ''Name'' ''name'' (CustomChannel_Name s = []) (JString (CustomChannel_Name s)) @
            (case CustomChannel_TargetingInfo s of None \<Rightarrow> [] | Some p \<Rightarrow> [(''targetingInfo'', CustomChannelTargetingInfo_MarshalJSON p)])))"

definition CustomChannel_ptr_json :: "CustomChannel option \<Rightarrow> json" where
  "CustomChannel_ptr_json p = (case p of None \<Rightarrow> JNull | Some a \<Rightarrow> CustomChannel_MarshalJSON a)"

definition CustomChannel_new :: "ServerResponse \<Rightarrow> CustomChannel" where
  "CustomChannel_new sr = CustomChannel_zero\<lparr>CustomChannel_ServerResponse := sr\<rparr>"

record CustomChannels =
  CustomChannels_Etag :: string
  CustomChannels_Items :: "CustomChannel option list"
  CustomChannels_Kind :: string
  CustomChannels_NextPageToken :: string
  CustomChannels_ServerResponse :: ServerResponse
  CustomChannels_ForceSendFields :: "string list"

definition CustomChannels_zero :: CustomChannels where
  "CustomChannels_zero =
     \<lparr>CustomChannels_Etag = [],
      CustomChannels_Items = [],
      CustomChannels_Kind = [],
      CustomChannels_NextPageToken = [],
      CustomChannels_ServerResponse = ServerResponse_zero,
      CustomChannels_ForceSendFields = []\<rparr>"

definition CustomChannels_field :: "string \<Rightarrow> json \<Rightarrow> CustomChannels \<Rightarrow> error + CustomChannels" where
  "CustomChannels_field k v cur =
     (if equalFold ''etag'' k
      then stored (\<lambda>x. cur\<lparr>CustomChannels_Etag := x\<rparr>)
             (dec_string v (CustomChannels_Etag cur))
      else if equalFold ''items'' k
      then stored (\<lambda>x. cur\<lparr>CustomChannels_Items := x\<rparr>)
             (dec_slice (dec_ptr CustomChannel_dec CustomChannel_zero) None v (CustomChannels_Items cur))
      else if equalFold ''kind'' k
      then stored (\<lambda>x. cur\<lparr>CustomChannels_Kind := x\<rparr>)
             (dec_string v (CustomChannels_Kind cur))
      else if equalFold ''nextPageToken'' k
      then stored (\<lambda>x. cur\<lparr>CustomChannels_NextPageToken := x\<rparr>)
             (dec_string v (CustomChannels_NextPageToken cur))
      else Inr cur)"

definition CustomChannels_dec :: "json \<Rightarrow> CustomChannels \<Rightarrow> error + CustomChannels" where
  "CustomChannels_dec = dec_struct CustomChannels_field"

definition CustomChannels_MarshalJSON :: "CustomChannels \<Rightarrow> json" where
  "CustomChannels_MarshalJSON s =
     (let f = CustomChannels_ForceSendFields s
      in JObject
           (member f ''Etag'' ''etag'' (CustomChannels_Etag s = []) (JString (CustomChannels_Etag s)) @
            member f ''Items'' ''items'' (CustomChannels_Items s = [])
              (JArray (map CustomChannel_ptr_json (CustomChannels_Items s))) @
            member f ''Kind'' ''kind'' (CustomChannels_Kind s = []) (JString (CustomChannels_Kind s)) @
            member f ''NextPageToken'' ''nextPageToken'' (CustomChannels_NextPageToken s = []) (JString (CustomChannels_NextPageToken s))))"

definition CustomChannels_new :: "ServerResponse \<Rightarrow> CustomChannels" where
  "CustomChannels_new sr = CustomChannels_zero\<lparr>CustomChannels_ServerResponse := sr\<rparr>"

record ReportHeaders =
  ReportHeaders_Currency :: string
  ReportHeaders_Name :: string
  ReportHeaders_Type :: string
  ReportHeaders_ForceSendFields :: "string list"

definition ReportHeaders_zero :: ReportHeaders where
  "ReportHeaders_zero =
     \<lparr>ReportHeaders_Currency = [],
      ReportHeaders_Name = [],
      ReportHeaders_Type = [],
      ReportHeaders_ForceSendFields = []\<rparr>"

definition ReportHeaders_field :: "string \<Rightarrow> json \<Rightarrow> ReportHeaders \<Rightarrow> error + ReportHeaders" where
  "ReportHeaders_field k v cur =
     (if equalFold ''currency'' k
      then stored (\<lambda>x. cur\<lparr>ReportHeaders_Currency := x\<rparr>)
             (dec_string v (ReportHeaders_Currency cur))
      else if equalFold ''name'' k
      then stored (\<lambda>x. cur\<lparr>ReportHeaders_Name := x\<rparr>)
             (dec_string v (ReportHeaders_Name cur))
      else if equalFold ''type'' k
      then stored (\<lambda>x. cur\<lparr>ReportHeaders_Type := x\<rparr>)
             (dec_string v (ReportHeaders_Type cur))
      else Inr cur)"

definition ReportHeaders_dec :: "json \<Rightarrow> ReportHeaders \<Rightarrow> error + ReportHeaders" where
  "ReportHeaders_dec = dec_struct ReportHeaders_field"

definition ReportHeaders_MarshalJSON :: "ReportHeaders \<Rightarrow> json" where
  "ReportHeaders_MarshalJSON s =
     (let f = ReportHeaders_ForceSendFields s
      in JObject
           (member f ''Currency'' ''currency'' (ReportHeaders_Currency s = []) (JString (ReportHeaders_Currency s)) @
            member f ''Name'' ''name'' (ReportHeaders_Name s = []) (JString (ReportHeaders_Name s)) @
            member f ''Type'' ''type'' (ReportHeaders_Type s = []) (JString (ReportHeaders_Type s))))"

definition ReportHeaders_ptr_json :: "ReportHeaders option \<Rightarrow> json" where
  "ReportHeaders_ptr_json p = (case p of None \<Rightarrow> JNull | Some a \<Rightarrow> ReportHeaders_MarshalJSON a)"

record Report =
  Report_Averages :: "string list"
  Report_Headers :: "ReportHeaders option list"
  Report_Kind :: string
  Report_Rows :: "string list list"
  Report_TotalMatchedRows :: "64 word"
  Report_Totals :: "string list"
  Report_Warnings :: "string list"
  Report_ServerResponse :: ServerResponse
  Report_ForceSendFields :: "string list"

definition Report_zero :: Report where
  "Report_zero =
     \<lparr>Report_Averages = [],
      Report_Headers = [],
      Report_Kind = [],
      Report_Rows = [],
      Report_TotalMatchedRows = 0,
      Report_Totals = [],
      Report_Warnings = [],
      Report_ServerResponse = ServerResponse_zero,
      Report_ForceSendFields = []\<rparr>"

definition Report_field :: "string \<Rightarrow> json \<Rightarrow> Report \<Rightarrow> error + Report" where
  "Report_field k v cur =
     (if equalFold ''averages'' k
      then stored (\<lambda>x. cur\<lparr>Report_Averages := x\<rparr>)
             (dec_slice dec_string [] v (Report_Averages cur))
      else if equalFold ''headers'' k
      then stored (\<lambda>x. cur\<lparr>Report_Headers := x\<rparr>)
             (dec_slice (dec_ptr ReportHeaders_dec ReportHeaders_zero) None v (Report_Headers cur))
      else if equalFold ''kind'' k
      then stored (\<lambda>x. cur\<lparr>Report_Kind := x\<rparr>)
             (dec_string v (Report_Kind cur))
      else if equalFold ''rows'' k
      then stored (\<lambda>x. cur\<lparr>Report_Rows := x\<rparr>)
             (dec_slice (dec_slice dec_string []) [] v (Report_Rows cur))
      else if equalFold ''totalMatchedRows'' k
      then stored (\<lambda>x. cur\<lparr>Report_TotalMatchedRows := x\<rparr>)
             (dec_int64_string v (Report_TotalMatchedRows cur))
      else if equalFold ''totals'' k
      then stored (\<lambda>x. cur\<lparr>Report_Totals := x\<rparr>)
             (dec_slice dec_string [] v (Report_Totals cur))
      else if equalFold ''warnings'' k
      then stored (\<lambda>x. cur\<lparr>Report_Warnings := x\<rparr>)
             (dec_slice dec_string [] v (Report_Warnings cur))
      else Inr cur)"

definition Report_dec :: "json \<Rightarrow> Report \<Rightarrow> error + Report" where
  "Report_dec = dec_struct Report_field"

definition Report_MarshalJSON :: "Report \<Rightarrow> json" where
  "Report_MarshalJSON s =
     (let f = Report_ForceSendFields s
      in JObject
           (member f ''Averages'' ''averages'' (Report_Averages s = []) (JArray (map JString (Report_Averages s))) @
            member f ''Headers'' ''headers'' (Report_Headers s = [])
              (JArray (map ReportHeaders_ptr_json (Report_Headers s))) @
            member f ''Kind'' ''kind'' (Report_Kind s = []) (JString (Report_Kind s)) @
            member f ''Rows'' ''rows'' (Report_Rows s = [])
              (JArray (map (\<lambda>row. JArray (map JString row)) (Report_Rows s))) @
            member f ''TotalMatchedRows'' ''totalMatchedRows'' (Report_TotalMatchedRows s = 0) (JString (Itoa (sint (Report_TotalMatchedRows s)))) @
            member f ''Totals'' ''totals'' (Report_Totals s = []) (JArray (map JString (Report_Totals s))) @
            member f ''Warnings'' ''warnings'' (Report_Warnings s = []) (JArray (map JString (Report_Warnings s)))))"

definition Report_new :: "ServerResponse \<Rightarrow> Report" where
  "Report_new sr = Report_zero\<lparr>Report_ServerResponse := sr\<rparr>"

record SavedReport =
  SavedReport_Id :: string
  SavedReport_Kind :: string
  SavedReport_Name :: string
  SavedReport_ForceSendFields :: "string list"

definition SavedReport_zero :: SavedReport where
  "SavedReport_zero =
     \<lparr>SavedReport_Id = [],
      SavedReport_Kind = [],
      SavedReport_Name = [],
      SavedReport_ForceSendFields = []\<rparr>"

definition SavedReport_field :: "string \<Rightarrow> json \<Rightarrow> SavedReport \<Rightarrow> error + SavedReport" where
  "SavedReport_field k v cur =
     (if equalFold ''id'' k
      then stored (\<lambda>x. cur\<lparr>SavedReport_Id := x\<rparr>)
             (dec_string v (SavedReport_Id cur))
      else if equalFold ''kind'' k
      then stored (\<lambda>x. cur\<lparr>SavedReport_Kind := x\<rparr>)
             (dec_string v (SavedReport_Kind cur))
      else if equalFold ''name'' k
      then stored (\<lambda>x. cur\<lparr>SavedReport_Name := x\<rparr>)
             (dec_string v (SavedReport_Name cur))
      else Inr cur)"

definition SavedReport_dec :: "json \<Rightarrow> SavedReport \<Rightarrow> error + SavedReport" where
  "SavedReport_dec = dec_struct SavedReport_field"

definition SavedReport_MarshalJSON :: "SavedReport \<Rightarrow> json" where
  "SavedReport_MarshalJSON s =
     (let f = SavedReport_ForceSendFields s
      in JObject
           (member f ''Id'' ''id'' (SavedReport_Id s = []) (JString (SavedReport_Id s)) @
            member f ''Kind'' ''kind'' (SavedReport_Kind s = []) (JString (SavedReport_Kind s)) @
            member f ''Name'' ''name'' (SavedReport_Name s = []) (JString (SavedReport_Name s))))"

definition SavedReport_ptr_json :: "SavedReport option \<Rightarrow> json" where
  "SavedReport_ptr_json p = (case p of None \<Rightarrow> JNull | Some a \<Rightarrow> SavedReport_MarshalJSON a)"

record SavedReports =
  SavedReports_Etag :: string
  SavedReports_Items :: "SavedReport option list"
  SavedReports_Kind :: string
  SavedReports_NextPageToken :: string
  SavedReports_ServerResponse :: ServerResponse
  SavedReports_ForceSendFields :: "string list"

definition SavedReports_zero :: SavedReports where
  "SavedReports_zero =
     \<lparr>SavedReports_Etag = [],
      SavedReports_Items = [],
      SavedReports_Kind = [],
      SavedReports_NextPageToken = [],
      SavedReports_ServerResponse = ServerResponse_zero,
      SavedReports_ForceSendFields = []\<rparr>"

definition SavedReports_field :: "string \<Rightarrow> json \<Rightarrow> SavedReports \<Rightarrow> error + SavedReports" where
  "SavedReports_field k v cur =
     (if equalFold ''etag'' k
      then stored (\<lambda>x. cur\<lparr>SavedReports_Etag := x\<rparr>)
             (dec_string v (SavedReports_Etag cur))
      else if equalFold ''items'' k
      then stored (\<lambda>x. cur\<lparr>SavedReports_Items := x\<rparr>)
             (dec_slice (dec_ptr SavedReport_dec SavedReport_zero) None v (SavedReports_Items cur))
      else if equalFold ''kind'' k
      then stored (\<lambda>x. cur\<lparr>SavedReports_Kind := x\<rparr>)
             (dec_string v (SavedReports_Kind cur))
      else if equalFold ''nextPageToken'' k
      then stored (\<lambda>x. cur\<lparr>SavedReports_NextPageToken := x\<rparr>)
             (dec_string v (SavedReports_NextPageToken cur))
      else Inr cur)"

definition SavedReports_dec :: "json \<Rightarrow> SavedReports \<Rightarrow> error + SavedReports" where
  "SavedReports_dec = dec_struct SavedReports_field"

definition SavedReports_MarshalJSON :: "SavedReports \<Rightarrow> json" where
  "SavedReports_MarshalJSON s =
     (let f = SavedReports_ForceSendFields s
      in JObject
           (member f ''Etag'' ''etag'' (SavedReports_Etag s = []) (JString (SavedReports_Etag s)) @
            member f ''Items'' ''items'' (SavedReports_Items s = [])
              (JArray (map SavedReport_ptr_json (SavedReports_Items s))) @
            member f ''Kind'' ''kind'' (SavedReports_Kind s = []) (JString (SavedReports_Kind s)) @
            member f ''NextPageToken'' ''nextPageToken'' (SavedReports_NextPageToken s = []) (JString (SavedReports_NextPageToken s))))"

definition SavedReports_new :: "ServerResponse \<Rightarrow> SavedReports" where
  "SavedReports_new sr = SavedReports_zero\<lparr>SavedReports_ServerResponse := sr\<rparr>"

record UrlChannel =
  UrlChannel_Id :: string
  UrlChannel_Kind :: string
  UrlChannel_UrlPattern :: string
  UrlChannel_ForceSendFields :: "string list"

definition UrlChannel_zero :: UrlChannel where
  "UrlChannel_zero =
     \<lparr>UrlChannel_Id = [],
      UrlChannel_Kind = [],
      UrlChannel_UrlPattern = [],
      UrlChannel_ForceSendFields = []\<rparr>"

definition UrlChannel_field :: "string \<Rightarrow> json \<Rightarrow> UrlChannel \<Rightarrow> error + UrlChannel" where
  "UrlChannel_field k v cur =
     (if equalFold ''id'' k
      then stored (\<lambda>x. cur\<lparr>UrlChannel_Id := x\<rparr>)
             (dec_string v (UrlChannel_Id cur))
      else if equalFold ''kind'' k
      then stored (\<lambda>x. cur\<lparr>UrlChannel_Kind := x\<rparr>)
             (dec_string v (UrlChannel_Kind cur))
      else if equalFold ''urlPattern'' k
      then stored (\<lambda>x. cur\<lparr>UrlChannel_UrlPattern := x\<rparr>)
             (dec_string v (UrlChannel_UrlPattern cur))
      else Inr cur)"

definition UrlChannel_dec :: "json \<Rightarrow> UrlChannel \<Rightarrow> error + UrlChannel" where
  "UrlChannel_dec = dec_struct UrlChannel_field"

definition UrlChannel_MarshalJSON :: "UrlChannel \<Rightarrow> json" where
  "UrlChannel_MarshalJSON s =
     (let f = UrlChannel_ForceSendFields s
      in JObject
           (member f ''Id'' ''id'' (UrlChannel_Id s = []) (JString (UrlChannel_Id s)) @
            member f ''Kind'' ''kind'' (UrlChannel_Kind s = []) (JString (UrlChannel_Kind s)) @
            member f ''UrlPattern'' ''urlPattern'' (UrlChannel_UrlPattern s = []) (JString (UrlChannel_UrlPattern s))))"

definition UrlChannel_ptr_json :: "UrlChannel option \<Rightarrow> json" where
  "UrlChannel_ptr_json p = (case p of None \<Rightarrow> JNull | Some a \<Rightarrow> UrlChannel_MarshalJSON a)"

record UrlChannels =
  UrlChannels_Etag :: string
  UrlChannels_Items :: "UrlChannel option list"
  UrlChannels_Kind :: string
  UrlChannels_NextPageToken :: string
  UrlChannels_ServerResponse :: ServerResponse
  UrlChannels_ForceSendFields :: "string list"

definition UrlChannels_zero :: UrlChannels where
  "UrlChannels_zero =
     \<lparr>UrlChannels_Etag = [],
      UrlChannels_Items = [],
      UrlChannels_Kind = [],
      UrlChannels_NextPageToken = [],
      UrlChannels_ServerResponse = ServerResponse_zero,
      UrlChannels_ForceSendFields = []\<rparr>"

definition UrlChannels_field :: "string \<Rightarrow> json \<Rightarrow> UrlChannels \<Rightarrow> error + UrlChannels" where
  "UrlChannels_field k v cur =
     (if equalFold ''etag'' k
      then stored (\<lambda>x. cur\<lparr>UrlChannels_Etag := x\<rparr>)
             (dec_string v (UrlChannels_Etag cur))
      else if equalFold ''items'' k
      then stored (\<lambda>x. cur\<lparr>UrlChannels_Items := x\<rparr>)
             (dec_slice (dec_ptr UrlChannel_dec UrlChannel_zero) None v (UrlChannels_Items cur))
      else if equalFold ''kind'' k
      then stored (\<lambda>x. cur\<lparr>UrlChannels_Kind := x\<rparr>)
             (dec_string v (UrlChannels_Kind cur))
      else if equalFold ''nextPageToken'' k
      then stored (\<lambda>x. cur\<lparr>UrlChannels_NextPageToken := x\<rparr>)
             (dec_string v (UrlChannels_NextPageToken cur))
      else Inr cur)"

definition UrlChannels_dec :: "json \<Rightarrow> UrlChannels \<Rightarrow> error + UrlChannels" where
  "UrlChannels_dec = dec_struct UrlChannels_field"

definition UrlChannels_MarshalJSON :: "UrlChannels \<Rightarrow> json" where
  "UrlChannels_MarshalJSON s =
     (let f = UrlChannels_ForceSendFields s
      in JObject
           (member f ''Etag'' ''etag'' (UrlChannels_Etag s = []) (JString (UrlChannels_Etag s)) @
            member f ''Items'' ''items'' (UrlChannels_Items s = [])
              (JArray (map UrlChannel_ptr_json (UrlChannels_Items s))) @
            member f ''Kind'' ''kind'' (UrlChannels_Kind s = []) (JString (UrlChannels_Kind s)) @
            member f ''NextPageToken'' ''nextPageToken'' (UrlChannels_NextPageToken s = []) (JString (UrlChannels_NextPageToken s))))"

definition UrlChannels_new :: "ServerResponse \<Rightarrow> UrlChannels" where
  "UrlChannels_new sr = UrlChannels_zero\<lparr>UrlChannels_ServerResponse := sr\<rparr>"

subsection \<open>Items as the decoder builds them\<close>

text \<open>
  An item that the decoder builds from a zero value has no \<open>ForceSendFields\<close> and no
  server response, since no member of a JSON object is decoded into them (\<open>_fresh\<close>); and
  these are the fields that the encoding of an item does not carry (\<open>_strip\<close> clears them).
\<close>

definition AdClient_strip :: "AdClient \<Rightarrow> AdClient" where
  "AdClient_strip a = a\<lparr>AdClient_ForceSendFields := []\<rparr>"

definition AdClient_fresh :: "AdClient \<Rightarrow> bool" where
  "AdClient_fresh a \<longleftrightarrow>
     AdClient_ForceSendFields a = []"

definition AdUnit_strip :: "AdUnit \<Rightarrow> AdUnit" where
  "AdUnit_strip a = a\<lparr>AdUnit_ServerResponse := ServerResponse_zero,
       AdUnit_ForceSendFields := []\<rparr>"

definition AdUnit_fresh :: "AdUnit \<Rightarrow> bool" where
  "AdUnit_fresh a \<longleftrightarrow>
     AdUnit_ForceSendFields a = [] \<and>
     AdUnit_ServerResponse a = ServerResponse_zero"

definition CustomChannelTargetingInfo_strip :: "CustomChannelTargetingInfo \<Rightarrow> CustomChannelTargetingInfo" where
  "CustomChannelTargetingInfo_strip a = a\<lparr>CustomChannelTargetingInfo_ForceSendFields := []\<rparr>"

definition CustomChannelTargetingInfo_fresh :: "CustomChannelTargetingInfo \<Rightarrow> bool" where
  "CustomChannelTargetingInfo_fresh a \<longleftrightarrow>
     CustomChannelTargetingInfo_ForceSendFields a = []"

definition CustomChannel_strip :: "CustomChannel \<Rightarrow> CustomChannel" where
  "CustomChannel_strip a = a\<lparr>CustomChannel_TargetingInfo := map_option CustomChannelTargetingInfo_strip (CustomChannel_TargetingInfo a),
       CustomChannel_ServerResponse := ServerResponse_zero,
       CustomChannel_ForceSendFields := []\<rparr>"

definition CustomChannel_fresh :: "CustomChannel \<Rightarrow> bool" where
  "CustomChannel_fresh a \<longleftrightarrow>
     CustomChannel_ForceSendFields a = [] \<and>
     CustomChannel_ServerResponse a = ServerResponse_zero \<and>
     pred_option CustomChannelTargetingInfo_fresh (CustomChannel_TargetingInfo a)"

definition ReportHeaders_strip :: "ReportHeaders \<Rightarrow> ReportHeaders" where
  "ReportHeaders_strip a = a\<lparr>ReportHeaders_ForceSendFields := []\<rparr>"

definition ReportHeaders_fresh :: "ReportHeaders \<Rightarrow> bool" where
  "ReportHeaders_fresh a \<longleftrightarrow>
     ReportHeaders_ForceSendFields a = []"

definition SavedReport_strip :: "SavedReport \<Rightarrow> SavedReport" where
  "SavedReport_strip a = a\<lparr>SavedReport_ForceSendFields := []\<rparr>"

definition SavedReport_fresh :: "SavedReport \<Rightarrow> bool" where
  "SavedReport_fresh a \<longleftrightarrow>
     SavedReport_ForceSendFields a = []"

definition UrlChannel_strip :: "UrlChannel \<Rightarrow> UrlChannel" where
  "UrlChannel_strip a = a\<lparr>UrlChannel_ForceSendFields := []\<rparr>"

definition UrlChannel_fresh :: "UrlChannel \<Rightarrow> bool" where
  "UrlChannel_fresh a \<longleftrightarrow>
     UrlChannel_ForceSendFields a = []"

subsection \<open>Executing a call\<close>

text \<open>
  The body of every \<open>Do\<close> method is the same but for the type of the result; \<open>Do_json\<close>
  is that body, from the pair that \<open>doRequest\<close> returned. It yields the pair of Go (the
  result pointer and the error) or a panic, and the events on the response body. The
  deferred \<open>googleapi.CloseBody(res)\<close> runs on every path after the \<open>defer\<close> statement.
\<close>

definition Do_json ::
    "(ServerResponse \<Rightarrow> 'a) \<Rightarrow> (json \<Rightarrow> 'a \<Rightarrow> error + 'a) \<Rightarrow> Response option \<times> error option
     \<Rightarrow> ('a option \<times> error option) outcome \<times> body_event list" where
  "Do_json new dec tr =
     (case tr of (res, err) \<Rightarrow>
        (case (case res of
                 Some r \<Rightarrow> if StatusCode r = http_StatusNotModified then Some r else None
               | None \<Rightarrow> None) of
           Some r \<Rightarrow>
             (Return (None, Some (GoogleapiError
                        \<lparr>Code = StatusCode r, Error_Body = None, Error_Header = Header r\<rparr>)),
              (case Body r of Some b \<Rightarrow> [BodyClosed] | None \<Rightarrow> []))
         | None \<Rightarrow>
             (case err of
                Some e \<Rightarrow> (Return (None, Some e), [])
              | None \<Rightarrow>
                  (case res of
                     None \<Rightarrow> (Panic nil_dereference, CloseBody res)
                   | Some r \<Rightarrow>
                       (case CheckResponse r of
                          Some e \<Rightarrow> (Return (None, Some e), CloseBody res)
                        | None \<Rightarrow>
                            (case Body r of
                               None \<Rightarrow> (Panic nil_dereference, CloseBody res)
                             | Some b \<Rightarrow>
                                 (case Decode dec b
                                         (new \<lparr>HTTPStatusCode = StatusCode r,
                                               ServerResponse_Header = Header r\<rparr>) of
                                    Inl e \<Rightarrow> (Return (None, Some e), BodyDecoded # CloseBody res)
                                  | Inr ret \<Rightarrow> (Return (ret, None), BodyDecoded # CloseBody res))))))))"

definition AdclientsListCall_Do ::
    "Transport \<Rightarrow> AdclientsListCall \<Rightarrow> (AdClients option \<times> error option) outcome \<times> body_event list" where
  "AdclientsListCall_Do net c = Do_json AdClients_new AdClients_dec (AdclientsListCall_doRequest net ''json'' c)"

definition AdunitsGetCall_Do ::
    "Transport \<Rightarrow> AdunitsGetCall \<Rightarrow> (AdUnit option \<times> error option) outcome \<times> body_event list" where
  "AdunitsGetCall_Do net c = Do_json AdUnit_new AdUnit_dec (AdunitsGetCall_doRequest net ''json'' c)"

definition AdunitsListCall_Do ::
    "Transport \<Rightarrow> AdunitsListCall \<Rightarrow> (AdUnits option \<times> error option) outcome \<times> body_event list" where
  "AdunitsListCall_Do net c = Do_json AdUnits_new AdUnits_dec (AdunitsListCall_doRequest net ''json'' c)"

definition AdunitsCustomchannelsListCall_Do ::
    "Transport \<Rightarrow> AdunitsCustomchannelsListCall \<Rightarrow> (CustomChannels option \<times> error option) outcome \<times> body_event list" where
  "AdunitsCustomchannelsListCall_Do net c = Do_json CustomChannels_new CustomChannels_dec (AdunitsCustomchannelsListCall_doRequest net ''json'' c)"

definition CustomchannelsGetCall_Do ::
    "Transport \<Rightarrow> CustomchannelsGetCall \<Rightarrow> (CustomChannel option \<times> error option) outcome \<times> body_event list" where
  "CustomchannelsGetCall_Do net c = Do_json CustomChannel_new CustomChannel_dec (CustomchannelsGetCall_doRequest net ''json'' c)"

definition CustomchannelsListCall_Do ::
    "Transport \<Rightarrow> CustomchannelsListCall \<Rightarrow> (CustomChannels option \<times> error option) outcome \<times> body_event list" where
  "CustomchannelsListCall_Do net c = Do_json CustomChannels_new CustomChannels_dec (CustomchannelsListCall_doRequest net ''json'' c)"

definition CustomchannelsAdunitsListCall_Do ::
    "Transport \<Rightarrow> CustomchannelsAdunitsListCall \<Rightarrow> (AdUnits option \<times> error option) outcome \<times> body_event list" where
  "CustomchannelsAdunitsListCall_Do net c = Do_json AdUnits_new AdUnits_dec (CustomchannelsAdunitsListCall_doRequest net ''json'' c)"

definition ReportsGenerateCall_Do ::
    "Transport \<Rightarrow> ReportsGenerateCall \<Rightarrow> (Report option \<times> error option) outcome \<times> body_event list" where
  "ReportsGenerateCall_Do net c = Do_json Report_new Report_dec (ReportsGenerateCall_doRequest net ''json'' c)"

definition ReportsSavedGenerateCall_Do ::
    "Transport \<Rightarrow> ReportsSavedGenerateCall \<Rightarrow> (Report option \<times> error option) outcome \<times> body_event list" where
  "ReportsSavedGenerateCall_Do net c = Do_json Report_new Report_dec (ReportsSavedGenerateCall_doRequest net ''json'' c)"

definition ReportsSavedListCall_Do ::
    "Transport \<Rightarrow> ReportsSavedListCall \<Rightarrow> (SavedReports option \<times> error option) outcome \<times> body_event list" where
  "ReportsSavedListCall_Do net c = Do_json SavedReports_new SavedReports_dec (ReportsSavedListCall_doRequest net ''json'' c)"

definition UrlchannelsListCall_Do ::
    "Transport \<Rightarrow> UrlchannelsListCall \<Rightarrow> (UrlChannels option \<times> error option) outcome \<times> body_event list" where
  "UrlchannelsListCall_Do net c = Do_json UrlChannels_new UrlChannels_dec (UrlchannelsListCall_doRequest net ''json'' c)"

text \<open>
  \<open>Download\<close> of the report call asks for the media value and returns the response
  itself. \<open>res.Body.Close()\<close> has no nil check there.
\<close>

definition ReportsGenerateCall_Download ::
    "Transport \<Rightarrow> ReportsGenerateCall
     \<Rightarrow> (Response option \<times> error option) outcome \<times> body_event list" where
  "ReportsGenerateCall_Download net c =
     (case ReportsGenerateCall_doRequest net ''media'' c of (res, err) \<Rightarrow>
        (case err of
           Some e \<Rightarrow> (Return (None, Some e), [])
         | None \<Rightarrow>
             (case res of
                None \<Rightarrow> (Panic nil_dereference, [])
              | Some r \<Rightarrow>
                  (case CheckMediaResponse r of
                     Some e \<Rightarrow>
                       (case Body r of
                          None \<Rightarrow> (Panic nil_dereference, [])
                        | Some b \<Rightarrow> (Return (None, Some e), [BodyClosed]))
                   | None \<Rightarrow> (Return (Some r, None), [])))))"

section \<open>The properties that the claims speak of\<close>

text \<open>What the claim about \<open>New\<close> asks of a service: the base URL and the whole tree.\<close>

definition Service_complete :: "Service \<Rightarrow> bool" where
  "Service_complete s \<longleftrightarrow>
     BasePath s = basePath \<and>
     Adclients s \<noteq> None \<and>
     (case Adunits s of None \<Rightarrow> False | Some u \<Rightarrow> AdunitsService_Customchannels u \<noteq> None) \<and>
     (case Customchannels s of None \<Rightarrow> False | Some u \<Rightarrow> CustomchannelsService_Adunits u \<noteq> None) \<and>
     (case Reports s of None \<Rightarrow> False | Some u \<Rightarrow> ReportsService_Saved u \<noteq> None) \<and>
     Urlchannels s \<noteq> None"



text \<open>
  The ceiling of \<open>maxResults\<close> for the list of ad clients, as the description of the
  method in the source has it (\<open>"maximum": "10000"\<close>).
\<close>

definition adclients_list_maxResults_maximum :: int where
  "adclients_list_maxResults_maximum = 10000"

text \<open>
  The invariant that the spec gives a report: every row and both summary rows have as many
  cells as there are headers.
\<close>

definition Report_rows_match :: "Report \<Rightarrow> bool" where
  "Report_rows_match r \<longleftrightarrow>
     (\<forall>row \<in> set (Report_Rows r). length row = length (Report_Headers r)) \<and>
     length (Report_Averages r) = length (Report_Headers r) \<and>
     length (Report_Totals r) = length (Report_Headers r)"

text \<open>A service, a network and responses to evaluate the calls on.\<close>

definition svc0 :: Service_core where
  "svc0 = \<lparr>client = Client 0, BasePath = basePath, UserAgent = []\<rparr>"

definition net_of :: "Response option \<times> error option \<Rightarrow> Transport" where
  "net_of tr = \<lparr>client_Do = (\<lambda>cl req. tr), ctxhttp_Do = (\<lambda>ctx cl req. tr)\<rparr>"

definition response :: "int \<Rightarrow> body \<Rightarrow> Response" where
  "response code b =
     \<lparr>StatusCode = code, Header = [(''Etag'', [''abc''])], Body = Some b\<rparr>"

text \<open>
  A body with three items, one of them null, and the collection it decodes into; a report
  body with one header, summary rows of one cell and a data row of two cells, and the report
  it decodes into.
\<close>

definition adclients_body :: body where
  "adclients_body =
     Some (JObject
       [(''kind'', JString ''adexchangeseller#adClients''),
        (''items'', JArray
           [JObject [(''id'', JString ''ca-pub-1'')],
            JNull,
            JObject [(''id'', JString ''ca-pub-2''), (''supportsReporting'', JBool True)]]),
        (''nextPageToken'', JString ''t2'')])"

definition adclients_decoded :: AdClients where
  "adclients_decoded =
     AdClients_zero
       \<lparr>AdClients_Items :=
          [Some (AdClient_zero\<lparr>AdClient_Id := ''ca-pub-1''\<rparr>), None,
           Some (AdClient_zero\<lparr>AdClient_Id := ''ca-pub-2'', AdClient_SupportsReporting := True\<rparr>)],
        AdClients_Kind := ''adexchangeseller#adClients'',
        AdClients_NextPageToken := ''t2''\<rparr>"

definition report_body :: body where
  "report_body =
     Some (JObject
       [(''headers'', JArray
           [JObject [(''name'', JString ''DATE''), (''type'', JString ''DIMENSION'')]]),
        (''rows'', JArray [JArray [JString ''2016-01-01'', JString ''7'']]),
        (''averages'', JArray [JString '''']),
        (''totals'', JArray [JString ''''])])"

definition report_decoded :: Report where
  "report_decoded =
     Report_zero
       \<lparr>Report_Averages := [''''],
        Report_Headers :=
          [Some (ReportHeaders_zero
             \<lparr>ReportHeaders_Name := ''DATE'', ReportHeaders_Type := ''DIMENSION''\<rparr>)],
        Report_Rows := [[''2016-01-01'', ''7'']],
        Report_Totals := [''''],
        Report_ServerResponse :=
          \<lparr>HTTPStatusCode = 200, ServerResponse_Header = [(''Etag'', [''abc''])]\<rparr>\<rparr>"

text \<open>
  What the claims say of \<open>Do\<close> on a response \<open>r\<close>: for status 304, a nil result, the
  error with the code 304 and the headers of \<open>r\<close>, and no decoding; and, on every path,
  the events on the body, which end with its closing and decode it only for a 2xx status.
\<close>

definition not_modified_result ::
    "Response \<Rightarrow> ('a option \<times> error option) outcome \<times> body_event list \<Rightarrow> bool" where
  "not_modified_result r out \<longleftrightarrow>
     fst out = Return (None, Some (GoogleapiError
       \<lparr>Code = 304, Error_Body = None, Error_Header = Header r\<rparr>)) \<and>
     BodyDecoded \<notin> set (snd out)"

definition body_events :: "Response \<Rightarrow> body_event list" where
  "body_events r =
     (if CheckResponse r = None then [BodyDecoded, BodyClosed] else [BodyClosed])"

definition adclients_call :: AdclientsListCall where
  "adclients_call = AdclientsService_List \<lparr>AdclientsService_s = svc0\<rparr>"

definition reports_call :: ReportsGenerateCall where
  "reports_call =
     ReportsService_Generate \<lparr>ReportsService_s = svc0, ReportsService_Saved = None\<rparr>
       ''2016-01-01'' ''2016-01-31''"

text \<open>
  What a JSON object holds for a field: the values of the members that the decoder takes
  for the field called \<open>name\<close>, in the order of the text; and the object as a holder of the
  list \<open>js\<close> under that name, which has the member once with the array \<open>js\<close>, or, for
  the empty list, has it once with null or not at all.
\<close>

definition members_named :: "string \<Rightarrow> (string \<times> json) list \<Rightarrow> json list" where
  "members_named name ms = map snd (filter (\<lambda>(k, v). equalFold name k) ms)"

definition member_array :: "string \<Rightarrow> (string \<times> json) list \<Rightarrow> json list \<Rightarrow> bool" where
  "member_array name ms js \<longleftrightarrow>
     (case members_named name ms of
        [] \<Rightarrow> js = []
      | [j] \<Rightarrow> (case j of JArray xs \<Rightarrow> js = xs | JNull \<Rightarrow> js = [] | _ \<Rightarrow> False)
      | _ \<Rightarrow> False)"

text \<open>
  For each collection, the items of a body, written with the members of an item in an order
  that is not the one of the encoder, and the members of the body; the members of the report
  body above; and a call for a saved report.
\<close>

definition adclients_items :: "json list" where
  "adclients_items =
     [JObject [(''supportsReporting'', JBool True), (''id'', JString ''ca-pub-9'')],
      JNull,
      JObject [(''id'', JString ''ca-pub-7'')]]"

definition adclients_members :: "(string \<times> json) list" where
  "adclients_members =
     [(''items'', JArray adclients_items), (''etag'', JString ''e0'')]"

definition adunits_items :: "json list" where
  "adunits_items =
     [JObject [(''name'', JString ''Top''), (''id'', JString ''ca-pub-1:10'')],
      JObject [(''id'', JString ''ca-pub-1:11''), (''status'', JString ''ACTIVE'')]]"

definition adunits_members :: "(string \<times> json) list" where
  "adunits_members =
     [(''nextPageToken'', JString ''p2''), (''items'', JArray adunits_items)]"

definition customchannels_items :: "json list" where
  "customchannels_items =
     [JObject [(''id'', JString ''ch-1''),
               (''targetingInfo'', JObject [(''location'', JString ''TOP_LEFT'')])],
      JNull]"

definition customchannels_members :: "(string \<times> json) list" where
  "customchannels_members =
     [(''items'', JArray customchannels_items),
      (''kind'', JString ''adexchangeseller#customChannels'')]"

definition savedreports_items :: "json list" where
  "savedreports_items =
     [JObject [(''name'', JString ''Weekly''), (''id'', JString ''r1'')],
      JObject [(''id'', JString ''r2'')]]"

definition savedreports_members :: "(string \<times> json) list" where
  "savedreports_members =
     [(''Items'', JArray savedreports_items)]"

definition urlchannels_items :: "json list" where
  "urlchannels_items =
     [JObject [(''urlPattern'', JString ''example.com/a''), (''id'', JString ''u1'')],
      JObject [(''id'', JString ''u2''), (''urlPattern'', JString ''example.com/b'')]]"

definition urlchannels_members :: "(string \<times> json) list" where
  "urlchannels_members =
     [(''etag'', JString ''e1''), (''items'', JArray urlchannels_items)]"

definition report_members :: "(string \<times> json) list" where
  "report_members =
     [(''headers'', JArray
         [JObject [(''name'', JString ''DATE''), (''type'', JString ''DIMENSION'')]]),
      (''rows'', JArray [JArray [JString ''2016-01-01'', JString ''7'']]),
      (''averages'', JArray [JString '''']),
      (''totals'', JArray [JString ''''])]"

definition saved_call :: ReportsSavedGenerateCall where
  "saved_call = ReportsSavedService_Generate \<lparr>ReportsSavedService_s = svc0\<rparr> ''r1''"

section \<open>Theorems\<close>

subsection \<open>The datastore path\<close>




subsection \<open>Building the service\<close>

text \<open>
  C9. \<open>New\<close> returns an error exactly when the client is nil; for a client that is not
  nil it returns no error and a service with the fixed base URL whose five sub-services and
  their nested sub-services are all present.
\<close>

theorem New_error_iff_nil_client:
  "(snd (New cl) \<noteq> None \<longleftrightarrow> cl = None) \<and>
   (cl = None \<longrightarrow> fst (New cl) = None) \<and>
   (cl \<noteq> None \<longrightarrow> (\<exists>s. fst (New cl) = Some s \<and> Service_complete s))"
  by (cases cl)
     (simp_all add: New_def Let_def Service_complete_def NewAdunitsService_def
        NewCustomchannelsService_def NewReportsService_def)

theorem New_witness:
  "snd (New (Some (Client 0))) = None \<and>
   (\<exists>s. fst (New (Some (Client 0))) = Some s \<and> Service_complete s) \<and>
   snd (New None) \<noteq> None \<and> fst (New None) = None"
  using New_error_iff_nil_client [of "Some (Client 0)"] New_error_iff_nil_client [of None]
  by simp

subsection \<open>Decimal integers\<close>

lemma digit_val_digit_char: "d < 10 \<Longrightarrow> digit_val (digit_char d) = Some d"
proof -
  assume "d < 10"
  then have "d \<in> {0, 1, 2, 3, 4, 5, 6, 7, 8, 9}" by auto
  then show ?thesis by (auto simp: digit_val_def digit_char_def)
qed

lemma parse_digits_snoc:
  "parse_digits (xs @ [c]) a =
     (case parse_digits xs a of None \<Rightarrow> None
      | Some m \<Rightarrow> (case digit_val c of None \<Rightarrow> None | Some d \<Rightarrow> Some (m * 10 + d)))"
  by (induction xs arbitrary: a) (auto split: option.splits)

lemma parse_digits_digits: "parse_digits (digits n) 0 = Some n"
proof (induction n rule: digits.induct)
  case (1 n)
  show ?case
  proof (cases "n < 10")
    case True
    then show ?thesis by (simp add: digits.simps [of n] digit_val_digit_char)
  next
    case False
    then have ih: "parse_digits (digits (n div 10)) 0 = Some (n div 10)" using 1 by simp
    have "n mod 10 < 10" by simp
    then have dv: "digit_val (digit_char (n mod 10)) = Some (n mod 10)"
      by (rule digit_val_digit_char)
    from False show ?thesis
      by (simp add: digits.simps [of n] parse_digits_snoc ih dv)
  qed
qed

lemma digits_nonempty: "digits n \<noteq> []"
  by (simp add: digits.simps [of n])

lemma digits_all_digit: "c \<in> set (digits n) \<Longrightarrow> digit_val c \<noteq> None"
proof (induction n rule: digits.induct)
  case (1 n)
  show ?case
  proof (cases "n < 10")
    case True
    with 1(2) show ?thesis by (simp add: digits.simps [of n] digit_val_digit_char)
  next
    case False
    have "n mod 10 < 10" by simp
    then have dv: "digit_val (digit_char (n mod 10)) = Some (n mod 10)"
      by (rule digit_val_digit_char)
    from False 1 dv show ?thesis
      by (auto simp add: digits.simps [of n])
  qed
qed

lemma digits_hd_no_sign:
  "\<exists>c cs. digits n = c # cs \<and> c \<noteq> CHR ''-'' \<and> c \<noteq> CHR ''+''"
proof -
  obtain c cs where e: "digits n = c # cs" using digits_nonempty [of n] by (cases "digits n") auto
  then have "digit_val c \<noteq> None" using digits_all_digit [of c n] by simp
  then have "c \<noteq> CHR ''-'' \<and> c \<noteq> CHR ''+''" by (auto simp: digit_val_def)
  with e show ?thesis by blast
qed

lemma ParseInt64_Itoa: "ParseInt64 (Itoa (sint n)) = Some n"
proof -
  have lo: "- (2 ^ 63) \<le> sint n" using sint_ge [of n] by simp
  have hi: "sint n < 2 ^ 63" using sint_lt [of n] by simp
  show ?thesis
  proof (cases "sint n < 0")
    case True
    have "ParseInt64 (CHR ''-'' # digits (nat (- sint n))) = Some (word_of_int (sint n))"
      using True lo hi
      by (simp add: ParseInt64_def digits_nonempty parse_digits_digits)
    with True show ?thesis by (simp add: Itoa_def)
  next
    case False
    obtain c cs where e: "digits (nat (sint n)) = c # cs" "c \<noteq> CHR ''-''" "c \<noteq> CHR ''+''"
      using digits_hd_no_sign [of "nat (sint n)"] by blast
    have p: "parse_digits (c # cs) 0 = Some (nat (sint n))"
      using parse_digits_digits [of "nat (sint n)"] e by simp
    have "ParseInt64 (c # cs) = Some (word_of_int (sint n))"
      using False lo hi e(2,3)
      by (simp add: ParseInt64_def p del: parse_digits.simps)
    with False e show ?thesis by (simp add: Itoa_def)
  qed
qed

subsection \<open>The query of a request\<close>

lemma Query_new_request [simp]: "Query (new_request c p vs params) = params"
  by (simp add: new_request_def)

lemma set_opt_apply:
  "set_opt opt k params k' =
     (if k' = k then (case opt k of Some v \<Rightarrow> Some [Sprintf_v v] | None \<Rightarrow> params k)
      else params k')"
  by (simp add: set_opt_def Values_Set_def split: option.splits)

lemma Values_Set_apply:
  "Values_Set k v params k' = (if k' = k then Some [v] else params k')"
  by (simp add: Values_Set_def)



















lemma maxResults_sent:
  "Query (AdclientsListCall_request alt (call_set (MaxResults n) c1)) ''maxResults'' = Some [Itoa (sint n)]"
  "Query (AdunitsListCall_request alt (call_set (MaxResults n) c2)) ''maxResults'' = Some [Itoa (sint n)]"
  "Query (AdunitsCustomchannelsListCall_request alt (call_set (MaxResults n) c3)) ''maxResults'' = Some [Itoa (sint n)]"
  "Query (CustomchannelsListCall_request alt (call_set (MaxResults n) c4)) ''maxResults'' = Some [Itoa (sint n)]"
  "Query (CustomchannelsAdunitsListCall_request alt (call_set (MaxResults n) c5)) ''maxResults'' = Some [Itoa (sint n)]"
  "Query (ReportsSavedListCall_request alt (call_set (MaxResults n) c6)) ''maxResults'' = Some [Itoa (sint n)]"
  "Query (UrlchannelsListCall_request alt (call_set (MaxResults n) c7)) ''maxResults'' = Some [Itoa (sint n)]"
  by (simp_all add: AdclientsListCall_request_def AdunitsListCall_request_def
      AdunitsCustomchannelsListCall_request_def CustomchannelsListCall_request_def
      CustomchannelsAdunitsListCall_request_def ReportsSavedListCall_request_def
      UrlchannelsListCall_request_def set_opt_apply Values_Set_apply Sprintf_v_def)



text \<open>
  C5, as stated, fails: \<open>MaxResults(10001)\<close> on the list of ad clients puts
  \<open>maxResults=10001\<close> into the query, above the ceiling of 10000.
\<close>

theorem maxResults_not_clamped:
  "Query (AdclientsListCall_request ''json''
      (call_set (MaxResults 10001) (AdclientsService_List \<lparr>AdclientsService_s = svc0\<rparr>)))
     ''maxResults'' = Some [''10001''] \<and>
   ParseInt64 ''10001'' = Some 10001 \<and>
   \<not> sint (10001 :: 64 word) \<le> adclients_list_maxResults_maximum"
  by (simp add: AdclientsListCall_request_def set_opt_apply Values_Set_apply Sprintf_v_def
      Itoa_def digits.simps digit_char_def ParseInt64_def digit_val_def
      adclients_list_maxResults_maximum_def)

text \<open>
  C5, amended. For every list call, the value of \<open>maxResults\<close> in the query is the decimal
  rendering of the very \<open>int64\<close> that was passed to \<open>MaxResults\<close> (parsing it gives that
  number back): the client applies no ceiling; the ceiling is part of the description of
  the method only.
\<close>

theorem maxResults_sent_unchanged:
  "Query (AdclientsListCall_request alt (call_set (MaxResults n) c1)) ''maxResults''
     = Some [Itoa (sint n)] \<and>
   Query (AdunitsListCall_request alt (call_set (MaxResults n) c2)) ''maxResults''
     = Some [Itoa (sint n)] \<and>
   Query (AdunitsCustomchannelsListCall_request alt (call_set (MaxResults n) c3)) ''maxResults''
     = Some [Itoa (sint n)] \<and>
   Query (CustomchannelsListCall_request alt (call_set (MaxResults n) c4)) ''maxResults''
     = Some [Itoa (sint n)] \<and>
   Query (CustomchannelsAdunitsListCall_request alt (call_set (MaxResults n) c5)) ''maxResults''
     = Some [Itoa (sint n)] \<and>
   Query (ReportsSavedListCall_request alt (call_set (MaxResults n) c6)) ''maxResults''
     = Some [Itoa (sint n)] \<and>
   Query (UrlchannelsListCall_request alt (call_set (MaxResults n) c7)) ''maxResults''
     = Some [Itoa (sint n)] \<and>
   ParseInt64 (Itoa (sint n)) = Some n"
  by (simp only: maxResults_sent ParseInt64_Itoa simp_thms)

theorem maxResults_sent_unchanged_witness:
  "Query (AdclientsListCall_request ''json''
      (call_set (MaxResults 20000) (AdclientsService_List \<lparr>AdclientsService_s = svc0\<rparr>)))
     ''maxResults'' = Some [''20000''] \<and>
   ParseInt64 ''20000'' = Some 20000"
proof -
  have i: "Itoa (sint (20000 :: 64 word)) = ''20000''"
    by (simp add: Itoa_def digits.simps digit_char_def)
  have "Query (AdclientsListCall_request ''json''
      (call_set (MaxResults 20000) (AdclientsService_List \<lparr>AdclientsService_s = svc0\<rparr>)))
     ''maxResults'' = Some [Itoa (sint (20000 :: 64 word))]"
    by (rule maxResults_sent_unchanged [THEN conjunct1])
  then have "Query (AdclientsListCall_request ''json''
      (call_set (MaxResults 20000) (AdclientsService_List \<lparr>AdclientsService_s = svc0\<rparr>)))
     ''maxResults'' = Some [''20000'']"
    by (simp only: i)
  then show ?thesis by (simp add: ParseInt64_def digit_val_def)
qed

subsection \<open>Executing a call\<close>

lemma Do_json_304:
  "StatusCode r = http_StatusNotModified \<Longrightarrow>
   Do_json new dec (Some r, err) =
     (Return (None, Some (GoogleapiError
        \<lparr>Code = StatusCode r, Error_Body = None, Error_Header = Header r\<rparr>)),
      (case Body r of Some b \<Rightarrow> [BodyClosed] | None \<Rightarrow> []))"
  by (simp add: Do_json_def)

lemma Do_json_transport_error:
  "(\<And>r. res = Some r \<Longrightarrow> StatusCode r \<noteq> http_StatusNotModified) \<Longrightarrow>
   Do_json new dec (res, Some e) = (Return (None, Some e), [])"
  by (cases res) (simp_all add: Do_json_def)

lemma Do_json_status_error:
  "StatusCode r \<noteq> http_StatusNotModified \<Longrightarrow> CheckResponse r = Some e \<Longrightarrow>
   Do_json new dec (Some r, None) = (Return (None, Some e), CloseBody (Some r))"
  by (simp add: Do_json_def)

lemma CheckResponse_None_iff:
  "CheckResponse r = None \<longleftrightarrow> 200 \<le> StatusCode r \<and> StatusCode r \<le> 299"
  by (simp add: CheckResponse_def)

lemma CheckResponse_not_304:
  "CheckResponse r = None \<Longrightarrow> StatusCode r \<noteq> http_StatusNotModified"
  by (simp add: CheckResponse_None_iff http_StatusNotModified_def)

lemma Do_json_2xx:
  "CheckResponse r = None \<Longrightarrow> Body r = Some b \<Longrightarrow>
   Do_json new dec (Some r, None) =
     (case Decode dec b (new \<lparr>HTTPStatusCode = StatusCode r, ServerResponse_Header = Header r\<rparr>) of
        Inl e \<Rightarrow> (Return (None, Some e), [BodyDecoded, BodyClosed])
      | Inr ret \<Rightarrow> (Return (ret, None), [BodyDecoded, BodyClosed]))"
  by (frule CheckResponse_not_304) (simp add: Do_json_def CloseBody_def split: sum.splits)

lemmas Do_defs =
  AdclientsListCall_Do_def
  AdunitsGetCall_Do_def
  AdunitsListCall_Do_def
  AdunitsCustomchannelsListCall_Do_def
  CustomchannelsGetCall_Do_def
  CustomchannelsListCall_Do_def
  CustomchannelsAdunitsListCall_Do_def
  ReportsGenerateCall_Do_def
  ReportsSavedGenerateCall_Do_def
  ReportsSavedListCall_Do_def
  UrlchannelsListCall_Do_def

text \<open>
  C2. When the response has status 304, the \<open>Do\<close> method of every call returns a nil
  result and a \<open>googleapi.Error\<close> that carries the status code 304 and the headers of the
  response, whatever the transport error and the content of the body are; the body is not
  decoded.
\<close>

theorem Do_not_modified:
  assumes "StatusCode r = http_StatusNotModified"
  shows "(AdclientsListCall_doRequest net ''json'' c1 = (Some r, err) \<longrightarrow>
            not_modified_result r (AdclientsListCall_Do net c1)) \<and>
         (AdunitsGetCall_doRequest net ''json'' c2 = (Some r, err) \<longrightarrow>
            not_modified_result r (AdunitsGetCall_Do net c2)) \<and>
         (AdunitsListCall_doRequest net ''json'' c3 = (Some r, err) \<longrightarrow>
            not_modified_result r (AdunitsListCall_Do net c3)) \<and>
         (AdunitsCustomchannelsListCall_doRequest net ''json'' c4 = (Some r, err) \<longrightarrow>
            not_modified_result r (AdunitsCustomchannelsListCall_Do net c4)) \<and>
         (CustomchannelsGetCall_doRequest net ''json'' c5 = (Some r, err) \<longrightarrow>
            not_modified_result r (CustomchannelsGetCall_Do net c5)) \<and>
         (CustomchannelsListCall_doRequest net ''json'' c6 = (Some r, err) \<longrightarrow>
            not_modified_result r (CustomchannelsListCall_Do net c6)) \<and>
         (CustomchannelsAdunitsListCall_doRequest net ''json'' c7 = (Some r, err) \<longrightarrow>
            not_modified_result r (CustomchannelsAdunitsListCall_Do net c7)) \<and>
         (ReportsGenerateCall_doRequest net ''json'' c8 = (Some r, err) \<longrightarrow>
            not_modified_result r (ReportsGenerateCall_Do net c8)) \<and>
         (ReportsSavedGenerateCall_doRequest net ''json'' c9 = (Some r, err) \<longrightarrow>
            not_modified_result r (ReportsSavedGenerateCall_Do net c9)) \<and>
         (ReportsSavedListCall_doRequest net ''json'' c10 = (Some r, err) \<longrightarrow>
            not_modified_result r (ReportsSavedListCall_Do net c10)) \<and>
         (UrlchannelsListCall_doRequest net ''json'' c11 = (Some r, err) \<longrightarrow>
            not_modified_result r (UrlchannelsListCall_Do net c11))"
  using assms
  by (simp add: Do_defs Do_json_304 not_modified_result_def http_StatusNotModified_def
      split: option.splits)

theorem Do_not_modified_witness:
  "StatusCode (response 304 adclients_body) = http_StatusNotModified \<and>
   fst (AdclientsListCall_Do (net_of (Some (response 304 adclients_body), None))
          (AdclientsService_List \<lparr>AdclientsService_s = svc0\<rparr>)) =
     Return (None, Some (GoogleapiError
       \<lparr>Code = 304, Error_Body = None, Error_Header = [(''Etag'', [''abc''])]\<rparr>)) \<and>
   BodyDecoded \<notin> set (snd (AdclientsListCall_Do
          (net_of (Some (response 304 adclients_body), None))
          (AdclientsService_List \<lparr>AdclientsService_s = svc0\<rparr>)))"
proof -
  have s: "StatusCode (response 304 adclients_body) = http_StatusNotModified"
    by (simp add: response_def http_StatusNotModified_def)
  have d: "AdclientsListCall_doRequest (net_of (Some (response 304 adclients_body), None)) ''json''
             (AdclientsService_List \<lparr>AdclientsService_s = svc0\<rparr>)
           = (Some (response 304 adclients_body), None)"
    by (simp add: AdclientsListCall_doRequest_def send_def net_of_def AdclientsService_List_def)
  have h: "Header (response 304 adclients_body) = [(''Etag'', [''abc''])]"
    by (simp add: response_def)
  from Do_not_modified [OF s, THEN conjunct1, rule_format, OF d]
  have "not_modified_result (response 304 adclients_body)
          (AdclientsListCall_Do (net_of (Some (response 304 adclients_body), None))
             (AdclientsService_List \<lparr>AdclientsService_s = svc0\<rparr>))" .
  then show ?thesis by (simp add: not_modified_result_def s h)
qed

text \<open>
  C3, at the input where the code leaves its own comment ("Exactly one of *AdClients or
  error will be non-nil"): a response with status 200 whose body is the JSON literal null
  makes \<open>Do\<close> return a nil result and a nil error.
\<close>

theorem Do_null_body_returns_nil_nil:
  "AdclientsListCall_Do (net_of (Some (response 200 (Some JNull)), None))
     (AdclientsService_List \<lparr>AdclientsService_s = svc0\<rparr>)
   = (Return (None, None), [BodyDecoded, BodyClosed]) \<and>
   AdunitsListCall_Do (net_of (Some (response 200 (Some JNull)), None))
     (AdunitsService_List
        \<lparr>AdunitsService_s = svc0, AdunitsService_Customchannels = None\<rparr> ''ca-pub-1'')
   = (Return (None, None), [BodyDecoded, BodyClosed])"
proof -
  have c: "CheckResponse (response 200 (Some JNull)) = None"
    by (simp add: CheckResponse_def response_def)
  have b: "Body (response 200 (Some JNull)) = Some (Some JNull)"
    by (simp add: response_def)
  show ?thesis
    by (simp add: AdclientsListCall_Do_def AdclientsListCall_doRequest_def
        AdunitsListCall_Do_def AdunitsListCall_doRequest_def send_def net_of_def
        AdclientsService_List_def AdunitsService_List_def Do_json_2xx [OF c b] Decode_def)
qed

text \<open>
  Apart from that input the pair is as the comment says: on every other path that returns,
  exactly one of the result and the error is nil.
\<close>

lemma Do_json_exactly_one:
  assumes "Do_json new dec (res, err) = (Return (ret, e), evs)"
    and "\<And>r. res = Some r \<Longrightarrow> Body r \<noteq> Some (Some JNull)"
  shows "(ret = None) \<noteq> (e = None)"
proof (cases "\<exists>r. res = Some r \<and> StatusCode r = http_StatusNotModified")
  case True
  then show ?thesis using assms(1) by (auto simp: Do_json_304)
next
  case n304: False
  show ?thesis
  proof (cases err)
    case (Some x)
    then show ?thesis using assms(1) n304 by (cases res) (auto simp: Do_json_def)
  next
    case None
    show ?thesis
    proof (cases res)
      case None': None
      then show ?thesis using assms(1) None by (simp add: Do_json_def)
    next
      case (Some r)
      show ?thesis
      proof (cases "CheckResponse r")
        case (Some x)
        have "StatusCode r \<noteq> http_StatusNotModified" using n304 \<open>res = Some r\<close> by simp
        from Do_json_status_error [OF this Some, of new dec] assms(1) None \<open>res = Some r\<close>
        show ?thesis by auto
      next
        case cr: None
        show ?thesis
        proof (cases "Body r")
          case None''': None
          then show ?thesis using assms(1) n304 None \<open>res = Some r\<close> cr
            by (simp add: Do_json_def)
        next
          case (Some b)
          then have "b \<noteq> Some JNull" using assms(2) \<open>res = Some r\<close> by auto
          then show ?thesis using assms(1) None \<open>res = Some r\<close> Some
            by (auto simp: Do_json_2xx [OF cr Some] Decode_def
                split: sum.splits option.splits json.splits)
        qed
      qed
    qed
  qed
qed

lemma Do_json_ServerResponse:
  assumes "CheckResponse r = None" "Body r = Some (Some j)" "j \<noteq> JNull"
    and "dec j (new \<lparr>HTTPStatusCode = StatusCode r, ServerResponse_Header = Header r\<rparr>) = Inr v"
  shows "Do_json new dec (Some r, None) = (Return (Some v, None), [BodyDecoded, BodyClosed])"
  using assms(3,4) by (cases j) (simp_all add: Do_json_2xx [OF assms(1,2)] Decode_def)

text \<open>
  C7. When the response has a body, and the transport gave no error or the status is 304,
  the \<open>Do\<close> method of every call closes the body on each of its exit paths: at once for
  status 304, after the status check for any other status outside 2xx, and after decoding
  for a 2xx status, whether decoding fails or not. \<open>Download\<close> returns the response of a
  2xx status with its body neither decoded nor closed, and closes the body only when the
  media check fails.
\<close>

theorem body_closed_on_every_path:
  assumes "Body r = Some b" and "err = None \<or> StatusCode r = http_StatusNotModified"
  shows "(AdclientsListCall_doRequest net ''json'' c1 = (Some r, err) \<longrightarrow>
            snd (AdclientsListCall_Do net c1) = body_events r) \<and>
         (AdunitsGetCall_doRequest net ''json'' c2 = (Some r, err) \<longrightarrow>
            snd (AdunitsGetCall_Do net c2) = body_events r) \<and>
         (AdunitsListCall_doRequest net ''json'' c3 = (Some r, err) \<longrightarrow>
            snd (AdunitsListCall_Do net c3) = body_events r) \<and>
         (AdunitsCustomchannelsListCall_doRequest net ''json'' c4 = (Some r, err) \<longrightarrow>
            snd (AdunitsCustomchannelsListCall_Do net c4) = body_events r) \<and>
         (CustomchannelsGetCall_doRequest net ''json'' c5 = (Some r, err) \<longrightarrow>
            snd (CustomchannelsGetCall_Do net c5) = body_events r) \<and>
         (CustomchannelsListCall_doRequest net ''json'' c6 = (Some r, err) \<longrightarrow>
            snd (CustomchannelsListCall_Do net c6) = body_events r) \<and>
         (CustomchannelsAdunitsListCall_doRequest net ''json'' c7 = (Some r, err) \<longrightarrow>
            snd (CustomchannelsAdunitsListCall_Do net c7) = body_events r) \<and>
         (ReportsGenerateCall_doRequest net ''json'' c8 = (Some r, err) \<longrightarrow>
            snd (ReportsGenerateCall_Do net c8) = body_events r) \<and>
         (ReportsSavedGenerateCall_doRequest net ''json'' c9 = (Some r, err) \<longrightarrow>
            snd (ReportsSavedGenerateCall_Do net c9) = body_events r) \<and>
         (ReportsSavedListCall_doRequest net ''json'' c10 = (Some r, err) \<longrightarrow>
            snd (ReportsSavedListCall_Do net c10) = body_events r) \<and>
         (UrlchannelsListCall_doRequest net ''json'' c11 = (Some r, err) \<longrightarrow>
            snd (UrlchannelsListCall_Do net c11) = body_events r) \<and>
         (ReportsGenerateCall_doRequest net ''media'' c8 = (Some r, None) \<longrightarrow>
            ReportsGenerateCall_Download net c8 =
              (case CheckMediaResponse r of
                 None \<Rightarrow> (Return (Some r, None), [])
               | Some e \<Rightarrow> (Return (None, Some e), [BodyClosed])))"
proof -
  have e: "\<And>new dec. snd (Do_json new dec (Some r, err)) = body_events r"
  proof -
    fix new :: "ServerResponse \<Rightarrow> 'x" and dec :: "json \<Rightarrow> 'x \<Rightarrow> error + 'x"
    show "snd (Do_json new dec (Some r, err)) = body_events r"
    proof (cases "StatusCode r = http_StatusNotModified")
      case True
      then have "CheckResponse r \<noteq> None"
        by (simp add: CheckResponse_def http_StatusNotModified_def)
      with True assms(1) show ?thesis by (simp add: Do_json_304 body_events_def)
    next
      case False
      with assms(2) have n: "err = None" by simp
      show ?thesis
      proof (cases "CheckResponse r")
        case None
        with assms(1) n show ?thesis
          by (simp add: Do_json_2xx body_events_def split: sum.splits)
      next
        case (Some x)
        with assms(1) n False show ?thesis
          by (simp add: Do_json_status_error CloseBody_def body_events_def)
      qed
    qed
  qed
  have d: "ReportsGenerateCall_doRequest net ''media'' c8 = (Some r, None) \<longrightarrow>
            ReportsGenerateCall_Download net c8 =
              (case CheckMediaResponse r of
                 None \<Rightarrow> (Return (Some r, None), [])
               | Some e \<Rightarrow> (Return (None, Some e), [BodyClosed]))"
    using assms(1) by (simp add: ReportsGenerateCall_Download_def split: option.splits)
  show ?thesis by (simp add: Do_defs e d)
qed

theorem body_closed_on_every_path_witness:
  "Body (response 304 None) = Some None \<and>
   snd (AdclientsListCall_Do (net_of (Some (response 304 None), None)) adclients_call)
     = [BodyClosed] \<and>
   snd (AdclientsListCall_Do (net_of (Some (response 404 None), None)) adclients_call)
     = [BodyClosed] \<and>
   snd (AdclientsListCall_Do (net_of (Some (response 200 None), None)) adclients_call)
     = [BodyDecoded, BodyClosed] \<and>
   snd (AdclientsListCall_Do (net_of (Some (response 200 adclients_body), None)) adclients_call)
     = [BodyDecoded, BodyClosed] \<and>
   ReportsGenerateCall_Download (net_of (Some (response 200 None), None)) reports_call
     = (Return (Some (response 200 None), None), []) \<and>
   fst (ReportsGenerateCall_Download (net_of (Some (response 500 None), None)) reports_call)
     \<noteq> Return (Some (response 500 None), None) \<and>
   snd (ReportsGenerateCall_Download (net_of (Some (response 500 None), None)) reports_call)
     = [BodyClosed]"
proof -
  have b: "\<And>code x. Body (response code x) = Some x" by (simp add: response_def)
  have o: "(None :: error option) = None \<or> StatusCode (response code x) = http_StatusNotModified"
    for code x by simp
  have d: "\<And>code x. AdclientsListCall_doRequest (net_of (Some (response code x), None)) ''json''
       adclients_call = (Some (response code x), None)"
    by (simp add: AdclientsListCall_doRequest_def send_def net_of_def adclients_call_def
        AdclientsService_List_def)
  have m: "\<And>code x. ReportsGenerateCall_doRequest (net_of (Some (response code x), None)) ''media''
       reports_call = (Some (response code x), None)"
    by (simp add: ReportsGenerateCall_doRequest_def send_def net_of_def reports_call_def
        ReportsService_Generate_def)
  have s: "body_events (response 304 None) = [BodyClosed]"
    "body_events (response 404 None) = [BodyClosed]"
    "body_events (response 200 None) = [BodyDecoded, BodyClosed]"
    "body_events (response 200 adclients_body) = [BodyDecoded, BodyClosed]"
    "CheckMediaResponse (response 200 None) = None"
    "CheckMediaResponse (response 500 None) \<noteq> None"
    by (simp_all add: body_events_def response_def CheckResponse_def CheckMediaResponse_def)
  have 1: "snd (AdclientsListCall_Do (net_of (Some (response code x), None)) adclients_call)
             = body_events (response code x)" for code x
    using body_closed_on_every_path [OF b o, THEN conjunct1, rule_format, OF d] .
  have 2: "ReportsGenerateCall_Download (net_of (Some (response code x), None)) reports_call =
      (case CheckMediaResponse (response code x) of
         None \<Rightarrow> (Return (Some (response code x), None), [])
       | Some e \<Rightarrow> (Return (None, Some e), [BodyClosed]))" for code x
    using body_closed_on_every_path [OF b o, THEN conjunct2, THEN conjunct2, THEN conjunct2,
        THEN conjunct2, THEN conjunct2, THEN conjunct2, THEN conjunct2, THEN conjunct2,
        THEN conjunct2, THEN conjunct2, THEN conjunct2, rule_format, OF m] .
  from s show ?thesis by (auto simp: 1 2 b split: option.splits)
qed

subsection \<open>Decoding what was encoded\<close>

lemma foldName_keys [simp]:
  "foldName ''arcOptIn'' = ''arcoptin''"
  "foldName ''id'' = ''id''"
  "foldName ''kind'' = ''kind''"
  "foldName ''productCode'' = ''productcode''"
  "foldName ''supportsReporting'' = ''supportsreporting''"
  "foldName ''etag'' = ''etag''"
  "foldName ''items'' = ''items''"
  "foldName ''nextPageToken'' = ''nextpagetoken''"
  "foldName ''code'' = ''code''"
  "foldName ''name'' = ''name''"
  "foldName ''status'' = ''status''"
  "foldName ''adsAppearOn'' = ''adsappearon''"
  "foldName ''description'' = ''description''"
  "foldName ''location'' = ''location''"
  "foldName ''siteLanguage'' = ''sitelanguage''"
  "foldName ''targetingInfo'' = ''targetinginfo''"
  "foldName ''currency'' = ''currency''"
  "foldName ''type'' = ''type''"
  "foldName ''averages'' = ''averages''"
  "foldName ''headers'' = ''headers''"
  "foldName ''rows'' = ''rows''"
  "foldName ''totalMatchedRows'' = ''totalmatchedrows''"
  "foldName ''totals'' = ''totals''"
  "foldName ''warnings'' = ''warnings''"
  "foldName ''urlPattern'' = ''urlpattern''"
  by (simp_all add: foldName.simps to_lower_def)

lemma Decode_object:
  "j = JObject ms \<Longrightarrow>
   Decode dec (Some j) ret = (case dec j ret of Inl e \<Rightarrow> Inl e | Inr v \<Rightarrow> Inr (Some v))"
  by (simp add: Decode_def)

lemma dec_members_append:
  "dec_members fld (xs @ ys) cur =
     (case dec_members fld xs cur of Inl e \<Rightarrow> Inl e | Inr c \<Rightarrow> dec_members fld ys c)"
  by (induction xs arbitrary: cur) (auto split: sum.splits)

lemma dec_members_member:
  "dec_members fld (member f g k e v) cur = (if e \<and> g \<notin> set f then Inr cur else fld k v cur)"
  by (auto simp: member_def split: sum.splits)

lemma member_last:
  "\<not> isl (fld k v cur) \<Longrightarrow> (e \<Longrightarrow> projr (fld k v cur) = cur) \<Longrightarrow>
   dec_members fld (member f g k e v) cur = Inr (projr (fld k v cur))"
  by (cases "fld k v cur") (auto simp add: dec_members_member)

lemma member_next:
  "\<not> isl (fld k v cur) \<Longrightarrow> (e \<Longrightarrow> projr (fld k v cur) = cur) \<Longrightarrow>
   dec_members fld (member f g k e v @ rest) cur = dec_members fld rest (projr (fld k v cur))"
  by (cases "fld k v cur") (auto simp add: dec_members_append dec_members_member)

lemma dec_elems_map:
  "(\<And>x. x \<in> set xs \<Longrightarrow> dec (enc x) zero = Inr (norm x)) \<Longrightarrow>
   dec_elems dec zero (map enc xs) [] = Inr (map norm xs)"
  by (induction xs) simp_all

lemma dec_slice_nil [simp]: "dec_slice dec zero (JArray []) cur = Inr []"
  by (simp add: dec_slice_def)

lemma dec_slice_strings [simp]:
  "dec_slice dec_string [] (JArray (map JString xs)) [] = Inr xs"
proof -
  have "dec_elems dec_string [] (map JString xs) [] = Inr (map (\<lambda>x. x) xs)"
    by (rule dec_elems_map) (simp add: dec_string_def)
  then show ?thesis by (simp add: dec_slice_def)
qed

lemma dec_slice_rows [simp]:
  "dec_slice (dec_slice dec_string []) [] (JArray (map (\<lambda>row. JArray (map JString row)) rs)) []
     = Inr rs"
proof -
  have "dec_elems (dec_slice dec_string []) [] (map (\<lambda>row. JArray (map JString row)) rs) []
          = Inr (map (\<lambda>x. x) rs)"
    by (rule dec_elems_map) simp
  then show ?thesis by (simp add: dec_slice_def)
qed

lemma dec_slice_ptrs:
  "(\<And>a. dec (enc a) zero = Inr (norm a)) \<Longrightarrow> (\<And>a. enc a \<noteq> JNull) \<Longrightarrow>
   dec_slice (dec_ptr dec zero) None
     (JArray (map (\<lambda>p. case p of None \<Rightarrow> JNull | Some a \<Rightarrow> enc a) xs)) []
   = Inr (map (map_option norm) xs)"
proof -
  assume r: "\<And>a. dec (enc a) zero = Inr (norm a)" and n: "\<And>a. enc a \<noteq> JNull"
  have "\<And>p. dec_ptr dec zero (case p of None \<Rightarrow> JNull | Some a \<Rightarrow> enc a) None = Inr (map_option norm p)"
  proof -
    fix p show "dec_ptr dec zero (case p of None \<Rightarrow> JNull | Some a \<Rightarrow> enc a) None = Inr (map_option norm p)"
    proof (cases p)
      case None
      then show ?thesis by (simp add: dec_ptr_def)
    next
      case (Some a)
      with n [of a] r [of a] show ?thesis by (cases "enc a") (simp_all add: dec_ptr_def)
    qed
  qed
  then show ?thesis
    using dec_elems_map [of xs "dec_ptr dec zero" "\<lambda>p. case p of None \<Rightarrow> JNull | Some a \<Rightarrow> enc a"
        None "map_option norm"]
    by (simp add: dec_slice_def)
qed

text \<open>What decoding keeps.\<close>

lemma dec_members_invariant:
  assumes step: "\<And>k v c c'. fld k v c = Inr c' \<Longrightarrow> P c \<Longrightarrow> P c'"
  shows "dec_members fld ms cur = Inr r \<Longrightarrow> P cur \<Longrightarrow> P r"
proof (induction ms arbitrary: cur)
  case Nil
  then show ?case by simp
next
  case (Cons m ms)
  obtain k v where m: "m = (k, v)" by (cases m)
  from Cons.prems(1) obtain c where c: "fld k v cur = Inr c" "dec_members fld ms c = Inr r"
    by (auto simp: m split: sum.splits)
  from step [OF c(1) Cons.prems(2)] Cons.IH [OF c(2)] show ?case by simp
qed

lemma dec_struct_invariant:
  assumes step: "\<And>k v c c'. fld k v c = Inr c' \<Longrightarrow> P c \<Longrightarrow> P c'"
  shows "dec_struct fld j cur = Inr r \<Longrightarrow> P cur \<Longrightarrow> P r"
  using dec_members_invariant [of fld P, OF step]
  by (cases j) (auto simp: dec_struct_def)

lemma dec_elems_invariant:
  assumes step: "\<And>j c v. dec j c = Inr v \<Longrightarrow> P c \<Longrightarrow> P v" and zero: "P zero"
  shows "dec_elems dec zero js cur = Inr vs \<Longrightarrow> list_all P cur \<Longrightarrow> list_all P vs"
proof (induction js arbitrary: cur vs)
  case Nil
  then show ?case by simp
next
  case (Cons j js)
  let ?c = "case cur of [] \<Rightarrow> zero | c # _ \<Rightarrow> c"
  from Cons.prems(1) obtain v ws where v: "dec j ?c = Inr v"
    and ws: "dec_elems dec zero js (tl cur) = Inr ws" and vs: "vs = v # ws"
    by (auto split: sum.splits)
  have "P ?c" using Cons.prems(2) zero by (cases cur) simp_all
  with step [OF v] have "P v" .
  moreover have "list_all P (tl cur)" using Cons.prems(2) by (cases cur) simp_all
  with Cons.IH [OF ws] have "list_all P ws" .
  ultimately show ?case by (simp add: vs)
qed

lemma dec_slice_invariant:
  assumes step: "\<And>j c v. dec j c = Inr v \<Longrightarrow> P c \<Longrightarrow> P v" and zero: "P zero"
  shows "dec_slice dec zero j cur = Inr vs \<Longrightarrow> list_all P cur \<Longrightarrow> list_all P vs"
  using dec_elems_invariant [of dec P zero, OF step zero]
  by (cases j) (auto simp: dec_slice_def)

lemma dec_ptr_invariant:
  assumes step: "\<And>j c v. dec j c = Inr v \<Longrightarrow> P c \<Longrightarrow> P v" and zero: "P zero"
  shows "dec_ptr dec zero j cur = Inr v \<Longrightarrow> pred_option P cur \<Longrightarrow> pred_option P v"
proof -
  assume d: "dec_ptr dec zero j cur = Inr v" and c: "pred_option P cur"
  have "P (case cur of None \<Rightarrow> zero | Some x \<Rightarrow> x)" using c zero by (cases cur) simp_all
  with step d show ?thesis by (cases j) (auto simp: dec_ptr_def split: sum.splits)
qed

lemma dec_items_invariant:
  assumes step: "\<And>j c v. dec j c = Inr v \<Longrightarrow> P c \<Longrightarrow> P v" and zero: "P zero"
  shows "dec_slice (dec_ptr dec zero) None j cur = Inr vs \<Longrightarrow> list_all (pred_option P) cur \<Longrightarrow>
         list_all (pred_option P) vs"
proof -
  assume d: "dec_slice (dec_ptr dec zero) None j cur = Inr vs" and c: "list_all (pred_option P) cur"
  show ?thesis
  proof (rule dec_slice_invariant [OF _ _ d c])
    fix j' c' v assume d': "dec_ptr dec zero j' c' = Inr v" and c': "pred_option P c'"
    have "\<And>j c v. dec j c = Inr v \<Longrightarrow> P c \<Longrightarrow> P v" by (rule step)
    from dec_ptr_invariant [of dec P zero j' c' v, OF this zero d' c']
    show "pred_option P v" .
  next
    show "pred_option P None" by simp
  qed
qed

lemma clean_item_fixed: "pred_option (\<lambda>a. norm a = a) p \<Longrightarrow> map_option norm p = p"
  by (cases p) simp_all

lemma clean_items_fixed:
  "list_all (pred_option (\<lambda>a. norm a = a)) xs \<Longrightarrow> map (map_option norm) xs = xs"
  by (induction xs) (simp_all add: clean_item_fixed)

lemma dec_ptr_roundtrip:
  "dec j zero = Inr v \<Longrightarrow> j \<noteq> JNull \<Longrightarrow> dec_ptr dec zero j None = Inr (Some v)"
  by (cases j) (simp_all add: dec_ptr_def)

lemma Itoa_shape:
  "\<exists>c cs. Itoa i = c # cs \<and> (c = CHR ''-'' \<or> digit_val c \<noteq> None) \<and> c \<noteq> CHR ''n''"
proof (cases "i < 0")
  case True
  then show ?thesis by (simp add: Itoa_def)
next
  case False
  obtain c cs where e: "digits (nat i) = c # cs"
    using digits_nonempty [of "nat i"] by (cases "digits (nat i)") auto
  then have "digit_val c \<noteq> None" using digits_all_digit [of c "nat i"] by simp
  moreover from this have "c \<noteq> CHR ''n''" by (auto simp: digit_val_def)
  ultimately show ?thesis using False e by (simp add: Itoa_def)
qed

lemma dec_int64_string_Itoa [simp]:
  "dec_int64_string (JString (Itoa (sint n))) cur = Inr n"
proof -
  obtain c cs where e: "Itoa (sint n) = c # cs" "c = CHR ''-'' \<or> digit_val c \<noteq> None"
      "c \<noteq> CHR ''n''"
    using Itoa_shape [of "sint n"] by blast
  have p: "ParseInt64 (c # cs) = Some n" using ParseInt64_Itoa [of n] e(1) by simp
  from e(2,3) show ?thesis
    by (auto simp add: dec_int64_string_def e(1) p)
qed

lemma dec_int64_string_zero [simp]: "dec_int64_string (JString (Itoa 0)) cur = Inr 0"
  using dec_int64_string_Itoa [of 0 cur] by simp

text \<open>AdClient.\<close>

lemma AdClient_field_simps:
  "AdClient_field ''arcOptIn'' (JBool b) cur = Inr (cur\<lparr>AdClient_ArcOptIn := b\<rparr>)"
  "AdClient_field ''id'' (JString x) cur = Inr (cur\<lparr>AdClient_Id := x\<rparr>)"
  "AdClient_field ''kind'' (JString x) cur = Inr (cur\<lparr>AdClient_Kind := x\<rparr>)"
  "AdClient_field ''productCode'' (JString x) cur = Inr (cur\<lparr>AdClient_ProductCode := x\<rparr>)"
  "AdClient_field ''supportsReporting'' (JBool b) cur = Inr (cur\<lparr>AdClient_SupportsReporting := b\<rparr>)"
  by (simp_all add: AdClient_field_def equalFold_def stored_def dec_string_def dec_bool_def)

lemma AdClient_roundtrip:
  "AdClient_dec (AdClient_MarshalJSON a) AdClient_zero = Inr (AdClient_strip a)"
  by (cases a)
     (simp add: AdClient_dec_def AdClient_MarshalJSON_def dec_struct_def member_next member_last
        AdClient_field_simps AdClient_zero_def AdClient_strip_def)

lemma AdClient_MarshalJSON_not_null: "AdClient_MarshalJSON a \<noteq> JNull"
  by (simp add: AdClient_MarshalJSON_def Let_def)

lemma AdClient_ptr_roundtrip:
  "dec_ptr AdClient_dec AdClient_zero (AdClient_MarshalJSON a) None = Inr (Some (AdClient_strip a))"
  by (rule dec_ptr_roundtrip) (rule AdClient_roundtrip AdClient_MarshalJSON_not_null)+

lemma AdClient_items_roundtrip:
  "dec_slice (dec_ptr AdClient_dec AdClient_zero) None (JArray (map AdClient_ptr_json xs)) []
   = Inr (map (map_option AdClient_strip) xs)"
  using dec_slice_ptrs [of AdClient_dec AdClient_MarshalJSON AdClient_zero AdClient_strip xs,
      OF AdClient_roundtrip AdClient_MarshalJSON_not_null]
  by (simp add: AdClient_ptr_json_def [abs_def])

lemma AdClient_field_fresh:
  "AdClient_field k v c = Inr c' \<Longrightarrow> AdClient_fresh c \<Longrightarrow> AdClient_fresh c'"
  by (auto simp: AdClient_field_def stored_def AdClient_fresh_def split: if_splits sum.splits)

lemma AdClient_dec_fresh:
  "AdClient_dec j c = Inr v \<Longrightarrow> AdClient_fresh c \<Longrightarrow> AdClient_fresh v"
  unfolding AdClient_dec_def
  by (erule dec_struct_invariant [rotated]) (simp_all add: AdClient_field_fresh)

lemma AdClient_zero_fresh: "AdClient_fresh AdClient_zero"
  by (simp add: AdClient_fresh_def AdClient_zero_def)

lemma AdClient_fresh_strip: "AdClient_fresh a \<Longrightarrow> AdClient_strip a = a"
  by (cases a) (simp add: AdClient_fresh_def AdClient_strip_def)

text \<open>AdClients.\<close>

lemma AdClients_field_simps:
  "AdClients_field ''etag'' (JString x) cur = Inr (cur\<lparr>AdClients_Etag := x\<rparr>)"
  "AdClients_Items cur = [] \<Longrightarrow>
   AdClients_field ''items'' (JArray (map AdClient_ptr_json xs1)) cur
     = Inr (cur\<lparr>AdClients_Items := map (map_option AdClient_strip) xs1\<rparr>)"
  "AdClients_field ''items'' (JArray []) cur = Inr (cur\<lparr>AdClients_Items := []\<rparr>)"
  "AdClients_field ''kind'' (JString x) cur = Inr (cur\<lparr>AdClients_Kind := x\<rparr>)"
  "AdClients_field ''nextPageToken'' (JString x) cur = Inr (cur\<lparr>AdClients_NextPageToken := x\<rparr>)"
  by (simp_all add: AdClients_field_def equalFold_def stored_def dec_string_def dec_bool_def
      AdClient_items_roundtrip)

lemma AdClients_roundtrip_new:
  "AdClients_dec (AdClients_MarshalJSON c) (AdClients_new sr) =
     Inr (c\<lparr>AdClients_Items := map (map_option AdClient_strip) (AdClients_Items c),
           AdClients_ServerResponse := sr,
           AdClients_ForceSendFields := []\<rparr>)"
  by (cases c)
     (simp add: AdClients_dec_def AdClients_MarshalJSON_def dec_struct_def member_next member_last
        AdClients_field_simps AdClients_new_def AdClients_zero_def)

lemma AdClients_field_fresh:
  assumes "AdClients_field k v c = Inr c'"
    and "list_all (pred_option AdClient_fresh) (AdClients_Items c)"
  shows "list_all (pred_option AdClient_fresh) (AdClients_Items c')"
proof -
  have "\<And>y. dec_slice (dec_ptr AdClient_dec AdClient_zero) None v (AdClients_Items c) = Inr y \<Longrightarrow>
      list_all (pred_option AdClient_fresh) y"
    by (rule dec_items_invariant [OF AdClient_dec_fresh AdClient_zero_fresh _ assms(2)])
  with assms show ?thesis
    by (auto simp: AdClients_field_def stored_def split: if_splits sum.splits)
qed

lemma AdClients_dec_fresh:
  "AdClients_dec j (AdClients_new sr) = Inr c \<Longrightarrow> list_all (pred_option AdClient_fresh) (AdClients_Items c)"
  unfolding AdClients_dec_def
  by (erule dec_struct_invariant [rotated])
     (simp_all add: AdClients_field_fresh AdClients_new_def AdClients_zero_def)

lemma AdClients_roundtrip_items:
  assumes "Decode AdClients_dec b (AdClients_new sr) = Inr (Some c)"
  shows "\<exists>c'. Decode AdClients_dec (Some (AdClients_MarshalJSON c)) (AdClients_new sr') = Inr (Some c') \<and>
              AdClients_Items c' = AdClients_Items c"
proof -
  from assms obtain j where "AdClients_dec j (AdClients_new sr) = Inr c"
    by (auto simp: Decode_def split: option.splits json.splits sum.splits)
  then have "list_all (pred_option AdClient_fresh) (AdClients_Items c)"
    by (rule AdClients_dec_fresh)
  then have "list_all (pred_option (\<lambda>a. AdClient_strip a = a)) (AdClients_Items c)"
    by (simp add: list_all_iff option.pred_set AdClient_fresh_strip)
  then have i: "map (map_option AdClient_strip) (AdClients_Items c) = AdClients_Items c"
    by (rule clean_items_fixed)
  obtain ms where m: "AdClients_MarshalJSON c = JObject ms"
    by (simp add: AdClients_MarshalJSON_def Let_def)
  show ?thesis
    by (simp add: Decode_object [OF m] AdClients_roundtrip_new i)
qed

text \<open>AdUnit.\<close>

lemma AdUnit_field_simps:
  "AdUnit_field ''code'' (JString x) cur = Inr (cur\<lparr>AdUnit_Code := x\<rparr>)"
  "AdUnit_field ''id'' (JString x) cur = Inr (cur\<lparr>AdUnit_Id := x\<rparr>)"
  "AdUnit_field ''kind'' (JString x) cur = Inr (cur\<lparr>AdUnit_Kind := x\<rparr>)"
  "AdUnit_field ''name'' (JString x) cur = Inr (cur\<lparr>AdUnit_Name := x\<rparr>)"
  "AdUnit_field ''status'' (JString x) cur = Inr (cur\<lparr>AdUnit_Status := x\<rparr>)"
  by (simp_all add: AdUnit_field_def equalFold_def stored_def dec_string_def dec_bool_def)

lemma AdUnit_roundtrip:
  "AdUnit_dec (AdUnit_MarshalJSON a) AdUnit_zero = Inr (AdUnit_strip a)"
  by (cases a)
     (simp add: AdUnit_dec_def AdUnit_MarshalJSON_def dec_struct_def member_next member_last
        AdUnit_field_simps AdUnit_zero_def AdUnit_strip_def)

lemma AdUnit_MarshalJSON_not_null: "AdUnit_MarshalJSON a \<noteq> JNull"
  by (simp add: AdUnit_MarshalJSON_def Let_def)

lemma AdUnit_ptr_roundtrip:
  "dec_ptr AdUnit_dec AdUnit_zero (AdUnit_MarshalJSON a) None = Inr (Some (AdUnit_strip a))"
  by (rule dec_ptr_roundtrip) (rule AdUnit_roundtrip AdUnit_MarshalJSON_not_null)+

lemma AdUnit_items_roundtrip:
  "dec_slice (dec_ptr AdUnit_dec AdUnit_zero) None (JArray (map AdUnit_ptr_json xs)) []
   = Inr (map (map_option AdUnit_strip) xs)"
  using dec_slice_ptrs [of AdUnit_dec AdUnit_MarshalJSON AdUnit_zero AdUnit_strip xs,
      OF AdUnit_roundtrip AdUnit_MarshalJSON_not_null]
  by (simp add: AdUnit_ptr_json_def [abs_def])

lemma AdUnit_field_fresh:
  "AdUnit_field k v c = Inr c' \<Longrightarrow> AdUnit_fresh c \<Longrightarrow> AdUnit_fresh c'"
  by (auto simp: AdUnit_field_def stored_def AdUnit_fresh_def split: if_splits sum.splits)

lemma AdUnit_dec_fresh:
  "AdUnit_dec j c = Inr v \<Longrightarrow> AdUnit_fresh c \<Longrightarrow> AdUnit_fresh v"
  unfolding AdUnit_dec_def
  by (erule dec_struct_invariant [rotated]) (simp_all add: AdUnit_field_fresh)

lemma AdUnit_zero_fresh: "AdUnit_fresh AdUnit_zero"
  by (simp add: AdUnit_fresh_def AdUnit_zero_def)

lemma AdUnit_fresh_strip: "AdUnit_fresh a \<Longrightarrow> AdUnit_strip a = a"
  by (cases a) (simp add: AdUnit_fresh_def AdUnit_strip_def)

text \<open>AdUnits.\<close>

lemma AdUnits_field_simps:
  "AdUnits_field ''etag'' (JString x) cur = Inr (cur\<lparr>AdUnits_Etag := x\<rparr>)"
  "AdUnits_Items cur = [] \<Longrightarrow>
   AdUnits_field ''items'' (JArray (map AdUnit_ptr_json xs1)) cur
     = Inr (cur\<lparr>AdUnits_Items := map (map_option AdUnit_strip) xs1\<rparr>)"
  "AdUnits_field ''items'' (JArray []) cur = Inr (cur\<lparr>AdUnits_Items := []\<rparr>)"
  "AdUnits_field ''kind'' (JString x) cur = Inr (cur\<lparr>AdUnits_Kind := x\<rparr>)"
  "AdUnits_field ''nextPageToken'' (JString x) cur = Inr (cur\<lparr>AdUnits_NextPageToken := x\<rparr>)"
  by (simp_all add: AdUnits_field_def equalFold_def stored_def dec_string_def dec_bool_def
      AdUnit_items_roundtrip)

lemma AdUnits_roundtrip_new:
  "AdUnits_dec (AdUnits_MarshalJSON c) (AdUnits_new sr) =
     Inr (c\<lparr>AdUnits_Items := map (map_option AdUnit_strip) (AdUnits_Items c),
           AdUnits_ServerResponse := sr,
           AdUnits_ForceSendFields := []\<rparr>)"
  by (cases c)
     (simp add: AdUnits_dec_def AdUnits_MarshalJSON_def dec_struct_def member_next member_last
        AdUnits_field_simps AdUnits_new_def AdUnits_zero_def)

lemma AdUnits_field_fresh:
  assumes "AdUnits_field k v c = Inr c'"
    and "list_all (pred_option AdUnit_fresh) (AdUnits_Items c)"
  shows "list_all (pred_option AdUnit_fresh) (AdUnits_Items c')"
proof -
  have "\<And>y. dec_slice (dec_ptr AdUnit_dec AdUnit_zero) None v (AdUnits_Items c) = Inr y \<Longrightarrow>
      list_all (pred_option AdUnit_fresh) y"
    by (rule dec_items_invariant [OF AdUnit_dec_fresh AdUnit_zero_fresh _ assms(2)])
  with assms show ?thesis
    by (auto simp: AdUnits_field_def stored_def split: if_splits sum.splits)
qed

lemma AdUnits_dec_fresh:
  "AdUnits_dec j (AdUnits_new sr) = Inr c \<Longrightarrow> list_all (pred_option AdUnit_fresh) (AdUnits_Items c)"
  unfolding AdUnits_dec_def
  by (erule dec_struct_invariant [rotated])
     (simp_all add: AdUnits_field_fresh AdUnits_new_def AdUnits_zero_def)

lemma AdUnits_roundtrip_items:
  assumes "Decode AdUnits_dec b (AdUnits_new sr) = Inr (Some c)"
  shows "\<exists>c'. Decode AdUnits_dec (Some (AdUnits_MarshalJSON c)) (AdUnits_new sr') = Inr (Some c') \<and>
              AdUnits_Items c' = AdUnits_Items c"
proof -
  from assms obtain j where "AdUnits_dec j (AdUnits_new sr) = Inr c"
    by (auto simp: Decode_def split: option.splits json.splits sum.splits)
  then have "list_all (pred_option AdUnit_fresh) (AdUnits_Items c)"
    by (rule AdUnits_dec_fresh)
  then have "list_all (pred_option (\<lambda>a. AdUnit_strip a = a)) (AdUnits_Items c)"
    by (simp add: list_all_iff option.pred_set AdUnit_fresh_strip)
  then have i: "map (map_option AdUnit_strip) (AdUnits_Items c) = AdUnits_Items c"
    by (rule clean_items_fixed)
  obtain ms where m: "AdUnits_MarshalJSON c = JObject ms"
    by (simp add: AdUnits_MarshalJSON_def Let_def)
  show ?thesis
    by (simp add: Decode_object [OF m] AdUnits_roundtrip_new i)
qed

text \<open>CustomChannelTargetingInfo.\<close>

lemma CustomChannelTargetingInfo_field_simps:
  "CustomChannelTargetingInfo_field ''adsAppearOn'' (JString x) cur = Inr (cur\<lparr>CustomChannelTargetingInfo_AdsAppearOn := x\<rparr>)"
  "CustomChannelTargetingInfo_field ''description'' (JString x) cur = Inr (cur\<lparr>CustomChannelTargetingInfo_Description := x\<rparr>)"
  "CustomChannelTargetingInfo_field ''location'' (JString x) cur = Inr (cur\<lparr>CustomChannelTargetingInfo_Location := x\<rparr>)"
  "CustomChannelTargetingInfo_field ''siteLanguage'' (JString x) cur = Inr (cur\<lparr>CustomChannelTargetingInfo_SiteLanguage := x\<rparr>)"
  by (simp_all add: CustomChannelTargetingInfo_field_def equalFold_def stored_def dec_string_def dec_bool_def)

lemma CustomChannelTargetingInfo_roundtrip:
  "CustomChannelTargetingInfo_dec (CustomChannelTargetingInfo_MarshalJSON a) CustomChannelTargetingInfo_zero = Inr (CustomChannelTargetingInfo_strip a)"
  by (cases a)
     (simp add: CustomChannelTargetingInfo_dec_def CustomChannelTargetingInfo_MarshalJSON_def dec_struct_def member_next member_last
        CustomChannelTargetingInfo_field_simps CustomChannelTargetingInfo_zero_def CustomChannelTargetingInfo_strip_def)

lemma CustomChannelTargetingInfo_MarshalJSON_not_null: "CustomChannelTargetingInfo_MarshalJSON a \<noteq> JNull"
  by (simp add: CustomChannelTargetingInfo_MarshalJSON_def Let_def)

lemma CustomChannelTargetingInfo_ptr_roundtrip:
  "dec_ptr CustomChannelTargetingInfo_dec CustomChannelTargetingInfo_zero (CustomChannelTargetingInfo_MarshalJSON a) None = Inr (Some (CustomChannelTargetingInfo_strip a))"
  by (rule dec_ptr_roundtrip) (rule CustomChannelTargetingInfo_roundtrip CustomChannelTargetingInfo_MarshalJSON_not_null)+

lemma CustomChannelTargetingInfo_field_fresh:
  "CustomChannelTargetingInfo_field k v c = Inr c' \<Longrightarrow> CustomChannelTargetingInfo_fresh c \<Longrightarrow> CustomChannelTargetingInfo_fresh c'"
  by (auto simp: CustomChannelTargetingInfo_field_def stored_def CustomChannelTargetingInfo_fresh_def split: if_splits sum.splits)

lemma CustomChannelTargetingInfo_dec_fresh:
  "CustomChannelTargetingInfo_dec j c = Inr v \<Longrightarrow> CustomChannelTargetingInfo_fresh c \<Longrightarrow> CustomChannelTargetingInfo_fresh v"
  unfolding CustomChannelTargetingInfo_dec_def
  by (erule dec_struct_invariant [rotated]) (simp_all add: CustomChannelTargetingInfo_field_fresh)

lemma CustomChannelTargetingInfo_zero_fresh: "CustomChannelTargetingInfo_fresh CustomChannelTargetingInfo_zero"
  by (simp add: CustomChannelTargetingInfo_fresh_def CustomChannelTargetingInfo_zero_def)

lemma CustomChannelTargetingInfo_fresh_strip: "CustomChannelTargetingInfo_fresh a \<Longrightarrow> CustomChannelTargetingInfo_strip a = a"
  by (cases a) (simp add: CustomChannelTargetingInfo_fresh_def CustomChannelTargetingInfo_strip_def)

text \<open>CustomChannel.\<close>

lemma CustomChannel_field_simps:
  "CustomChannel_field ''code'' (JString x) cur = Inr (cur\<lparr>CustomChannel_Code := x\<rparr>)"
  "CustomChannel_field ''id'' (JString x) cur = Inr (cur\<lparr>CustomChannel_Id := x\<rparr>)"
  "CustomChannel_field ''kind'' (JString x) cur = Inr (cur\<lparr>CustomChannel_Kind := x\<rparr>)"
  "CustomChannel_field ''name'' (JString x) cur = Inr (cur\<lparr>CustomChannel_Name := x\<rparr>)"
  "CustomChannel_TargetingInfo cur = None \<Longrightarrow>
   CustomChannel_field ''targetingInfo'' (CustomChannelTargetingInfo_MarshalJSON p) cur = Inr (cur\<lparr>CustomChannel_TargetingInfo := Some (CustomChannelTargetingInfo_strip p)\<rparr>)"
  by (simp_all add: CustomChannel_field_def equalFold_def stored_def dec_string_def dec_bool_def
      CustomChannelTargetingInfo_ptr_roundtrip)

lemma CustomChannel_roundtrip:
  "CustomChannel_dec (CustomChannel_MarshalJSON a) CustomChannel_zero = Inr (CustomChannel_strip a)"
  by (cases a)
     (simp add: CustomChannel_dec_def CustomChannel_MarshalJSON_def dec_struct_def member_next member_last
        CustomChannel_field_simps CustomChannel_zero_def CustomChannel_strip_def split: option.splits)

lemma CustomChannel_MarshalJSON_not_null: "CustomChannel_MarshalJSON a \<noteq> JNull"
  by (simp add: CustomChannel_MarshalJSON_def Let_def)

lemma CustomChannel_ptr_roundtrip:
  "dec_ptr CustomChannel_dec CustomChannel_zero (CustomChannel_MarshalJSON a) None = Inr (Some (CustomChannel_strip a))"
  by (rule dec_ptr_roundtrip) (rule CustomChannel_roundtrip CustomChannel_MarshalJSON_not_null)+

lemma CustomChannel_items_roundtrip:
  "dec_slice (dec_ptr CustomChannel_dec CustomChannel_zero) None (JArray (map CustomChannel_ptr_json xs)) []
   = Inr (map (map_option CustomChannel_strip) xs)"
  using dec_slice_ptrs [of CustomChannel_dec CustomChannel_MarshalJSON CustomChannel_zero CustomChannel_strip xs,
      OF CustomChannel_roundtrip CustomChannel_MarshalJSON_not_null]
  by (simp add: CustomChannel_ptr_json_def [abs_def])

lemma CustomChannel_field_fresh:
  assumes "CustomChannel_field k v c = Inr c'" and "CustomChannel_fresh c"
  shows "CustomChannel_fresh c'"
proof -
  have "\<And>x. dec_ptr CustomChannelTargetingInfo_dec CustomChannelTargetingInfo_zero v (CustomChannel_TargetingInfo c) = Inr x \<Longrightarrow> pred_option CustomChannelTargetingInfo_fresh x"
    using dec_ptr_invariant [of CustomChannelTargetingInfo_dec CustomChannelTargetingInfo_fresh CustomChannelTargetingInfo_zero v "CustomChannel_TargetingInfo c", OF CustomChannelTargetingInfo_dec_fresh CustomChannelTargetingInfo_zero_fresh]
      assms(2) by (simp add: CustomChannel_fresh_def)
  with assms show ?thesis
    by (auto simp: CustomChannel_field_def stored_def CustomChannel_fresh_def split: if_splits sum.splits)
qed

lemma CustomChannel_dec_fresh:
  "CustomChannel_dec j c = Inr v \<Longrightarrow> CustomChannel_fresh c \<Longrightarrow> CustomChannel_fresh v"
  unfolding CustomChannel_dec_def
  by (erule dec_struct_invariant [rotated]) (simp_all add: CustomChannel_field_fresh)

lemma CustomChannel_zero_fresh: "CustomChannel_fresh CustomChannel_zero"
  by (simp add: CustomChannel_fresh_def CustomChannel_zero_def)

lemma CustomChannel_fresh_strip:
  assumes "CustomChannel_fresh a"
  shows "CustomChannel_strip a = a"
proof -
  have "map_option CustomChannelTargetingInfo_strip (CustomChannel_TargetingInfo a) = CustomChannel_TargetingInfo a"
    using assms by (cases "CustomChannel_TargetingInfo a") (simp_all add: CustomChannel_fresh_def CustomChannelTargetingInfo_fresh_strip)
  with assms show ?thesis by (cases a) (simp add: CustomChannel_fresh_def CustomChannel_strip_def)
qed

text \<open>CustomChannels.\<close>

lemma CustomChannels_field_simps:
  "CustomChannels_field ''etag'' (JString x) cur = Inr (cur\<lparr>CustomChannels_Etag := x\<rparr>)"
  "CustomChannels_Items cur = [] \<Longrightarrow>
   CustomChannels_field ''items'' (JArray (map CustomChannel_ptr_json xs1)) cur
     = Inr (cur\<lparr>CustomChannels_Items := map (map_option CustomChannel_strip) xs1\<rparr>)"
  "CustomChannels_field ''items'' (JArray []) cur = Inr (cur\<lparr>CustomChannels_Items := []\<rparr>)"
  "CustomChannels_field ''kind'' (JString x) cur = Inr (cur\<lparr>CustomChannels_Kind := x\<rparr>)"
  "CustomChannels_field ''nextPageToken'' (JString x) cur = Inr (cur\<lparr>CustomChannels_NextPageToken := x\<rparr>)"
  by (simp_all add: CustomChannels_field_def equalFold_def stored_def dec_string_def dec_bool_def
      CustomChannel_items_roundtrip)

lemma CustomChannels_roundtrip_new:
  "CustomChannels_dec (CustomChannels_MarshalJSON c) (CustomChannels_new sr) =
     Inr (c\<lparr>CustomChannels_Items := map (map_option CustomChannel_strip) (CustomChannels_Items c),
           CustomChannels_ServerResponse := sr,
           CustomChannels_ForceSendFields := []\<rparr>)"
  by (cases c)
     (simp add: CustomChannels_dec_def CustomChannels_MarshalJSON_def dec_struct_def member_next member_last
        CustomChannels_field_simps CustomChannels_new_def CustomChannels_zero_def)

lemma CustomChannels_field_fresh:
  assumes "CustomChannels_field k v c = Inr c'"
    and "list_all (pred_option CustomChannel_fresh) (CustomChannels_Items c)"
  shows "list_all (pred_option CustomChannel_fresh) (CustomChannels_Items c')"
proof -
  have "\<And>y. dec_slice (dec_ptr CustomChannel_dec CustomChannel_zero) None v (CustomChannels_Items c) = Inr y \<Longrightarrow>
      list_all (pred_option CustomChannel_fresh) y"
    by (rule dec_items_invariant [OF CustomChannel_dec_fresh CustomChannel_zero_fresh _ assms(2)])
  with assms show ?thesis
    by (auto simp: CustomChannels_field_def stored_def split: if_splits sum.splits)
qed

lemma CustomChannels_dec_fresh:
  "CustomChannels_dec j (CustomChannels_new sr) = Inr c \<Longrightarrow> list_all (pred_option CustomChannel_fresh) (CustomChannels_Items c)"
  unfolding CustomChannels_dec_def
  by (erule dec_struct_invariant [rotated])
     (simp_all add: CustomChannels_field_fresh CustomChannels_new_def CustomChannels_zero_def)

lemma CustomChannels_roundtrip_items:
  assumes "Decode CustomChannels_dec b (CustomChannels_new sr) = Inr (Some c)"
  shows "\<exists>c'. Decode CustomChannels_dec (Some (CustomChannels_MarshalJSON c)) (CustomChannels_new sr') = Inr (Some c') \<and>
              CustomChannels_Items c' = CustomChannels_Items c"
proof -
  from assms obtain j where "CustomChannels_dec j (CustomChannels_new sr) = Inr c"
    by (auto simp: Decode_def split: option.splits json.splits sum.splits)
  then have "list_all (pred_option CustomChannel_fresh) (CustomChannels_Items c)"
    by (rule CustomChannels_dec_fresh)
  then have "list_all (pred_option (\<lambda>a. CustomChannel_strip a = a)) (CustomChannels_Items c)"
    by (simp add: list_all_iff option.pred_set CustomChannel_fresh_strip)
  then have i: "map (map_option CustomChannel_strip) (CustomChannels_Items c) = CustomChannels_Items c"
    by (rule clean_items_fixed)
  obtain ms where m: "CustomChannels_MarshalJSON c = JObject ms"
    by (simp add: CustomChannels_MarshalJSON_def Let_def)
  show ?thesis
    by (simp add: Decode_object [OF m] CustomChannels_roundtrip_new i)
qed

text \<open>SavedReport.\<close>

lemma SavedReport_field_simps:
  "SavedReport_field ''id'' (JString x) cur = Inr (cur\<lparr>SavedReport_Id := x\<rparr>)"
  "SavedReport_field ''kind'' (JString x) cur = Inr (cur\<lparr>SavedReport_Kind := x\<rparr>)"
  "SavedReport_field ''name'' (JString x) cur = Inr (cur\<lparr>SavedReport_Name := x\<rparr>)"
  by (simp_all add: SavedReport_field_def equalFold_def stored_def dec_string_def dec_bool_def)

lemma SavedReport_roundtrip:
  "SavedReport_dec (SavedReport_MarshalJSON a) SavedReport_zero = Inr (SavedReport_strip a)"
  by (cases a)
     (simp add: SavedReport_dec_def SavedReport_MarshalJSON_def dec_struct_def member_next member_last
        SavedReport_field_simps SavedReport_zero_def SavedReport_strip_def)

lemma SavedReport_MarshalJSON_not_null: "SavedReport_MarshalJSON a \<noteq> JNull"
  by (simp add: SavedReport_MarshalJSON_def Let_def)

lemma SavedReport_ptr_roundtrip:
  "dec_ptr SavedReport_dec SavedReport_zero (SavedReport_MarshalJSON a) None = Inr (Some (SavedReport_strip a))"
  by (rule dec_ptr_roundtrip) (rule SavedReport_roundtrip SavedReport_MarshalJSON_not_null)+

lemma SavedReport_items_roundtrip:
  "dec_slice (dec_ptr SavedReport_dec SavedReport_zero) None (JArray (map SavedReport_ptr_json xs)) []
   = Inr (map (map_option SavedReport_strip) xs)"
  using dec_slice_ptrs [of SavedReport_dec SavedReport_MarshalJSON SavedReport_zero SavedReport_strip xs,
      OF SavedReport_roundtrip SavedReport_MarshalJSON_not_null]
  by (simp add: SavedReport_ptr_json_def [abs_def])

lemma SavedReport_field_fresh:
  "SavedReport_field k v c = Inr c' \<Longrightarrow> SavedReport_fresh c \<Longrightarrow> SavedReport_fresh c'"
  by (auto simp: SavedReport_field_def stored_def SavedReport_fresh_def split: if_splits sum.splits)

lemma SavedReport_dec_fresh:
  "SavedReport_dec j c = Inr v \<Longrightarrow> SavedReport_fresh c \<Longrightarrow> SavedReport_fresh v"
  unfolding SavedReport_dec_def
  by (erule dec_struct_invariant [rotated]) (simp_all add: SavedReport_field_fresh)

lemma SavedReport_zero_fresh: "SavedReport_fresh SavedReport_zero"
  by (simp add: SavedReport_fresh_def SavedReport_zero_def)

lemma SavedReport_fresh_strip: "SavedReport_fresh a \<Longrightarrow> SavedReport_strip a = a"
  by (cases a) (simp add: SavedReport_fresh_def SavedReport_strip_def)

text \<open>SavedReports.\<close>

lemma SavedReports_field_simps:
  "SavedReports_field ''etag'' (JString x) cur = Inr (cur\<lparr>SavedReports_Etag := x\<rparr>)"
  "SavedReports_Items cur = [] \<Longrightarrow>
   SavedReports_field ''items'' (JArray (map SavedReport_ptr_json xs1)) cur
     = Inr (cur\<lparr>SavedReports_Items := map (map_option SavedReport_strip) xs1\<rparr>)"
  "SavedReports_field ''items'' (JArray []) cur = Inr (cur\<lparr>SavedReports_Items := []\<rparr>)"
  "SavedReports_field ''kind'' (JString x) cur = Inr (cur\<lparr>SavedReports_Kind := x\<rparr>)"
  "SavedReports_field ''nextPageToken'' (JString x) cur = Inr (cur\<lparr>SavedReports_NextPageToken := x\<rparr>)"
  by (simp_all add: SavedReports_field_def equalFold_def stored_def dec_string_def dec_bool_def
      SavedReport_items_roundtrip)

lemma SavedReports_roundtrip_new:
  "SavedReports_dec (SavedReports_MarshalJSON c) (SavedReports_new sr) =
     Inr (c\<lparr>SavedReports_Items := map (map_option SavedReport_strip) (SavedReports_Items c),
           SavedReports_ServerResponse := sr,
           SavedReports_ForceSendFields := []\<rparr>)"
  by (cases c)
     (simp add: SavedReports_dec_def SavedReports_MarshalJSON_def dec_struct_def member_next member_last
        SavedReports_field_simps SavedReports_new_def SavedReports_zero_def)

lemma SavedReports_field_fresh:
  assumes "SavedReports_field k v c = Inr c'"
    and "list_all (pred_option SavedReport_fresh) (SavedReports_Items c)"
  shows "list_all (pred_option SavedReport_fresh) (SavedReports_Items c')"
proof -
  have "\<And>y. dec_slice (dec_ptr SavedReport_dec SavedReport_zero) None v (SavedReports_Items c) = Inr y \<Longrightarrow>
      list_all (pred_option SavedReport_fresh) y"
    by (rule dec_items_invariant [OF SavedReport_dec_fresh SavedReport_zero_fresh _ assms(2)])
  with assms show ?thesis
    by (auto simp: SavedReports_field_def stored_def split: if_splits sum.splits)
qed

lemma SavedReports_dec_fresh:
  "SavedReports_dec j (SavedReports_new sr) = Inr c \<Longrightarrow> list_all (pred_option SavedReport_fresh) (SavedReports_Items c)"
  unfolding SavedReports_dec_def
  by (erule dec_struct_invariant [rotated])
     (simp_all add: SavedReports_field_fresh SavedReports_new_def SavedReports_zero_def)

lemma SavedReports_roundtrip_items:
  assumes "Decode SavedReports_dec b (SavedReports_new sr) = Inr (Some c)"
  shows "\<exists>c'. Decode SavedReports_dec (Some (SavedReports_MarshalJSON c)) (SavedReports_new sr') = Inr (Some c') \<and>
              SavedReports_Items c' = SavedReports_Items c"
proof -
  from assms obtain j where "SavedReports_dec j (SavedReports_new sr) = Inr c"
    by (auto simp: Decode_def split: option.splits json.splits sum.splits)
  then have "list_all (pred_option SavedReport_fresh) (SavedReports_Items c)"
    by (rule SavedReports_dec_fresh)
  then have "list_all (pred_option (\<lambda>a. SavedReport_strip a = a)) (SavedReports_Items c)"
    by (simp add: list_all_iff option.pred_set SavedReport_fresh_strip)
  then have i: "map (map_option SavedReport_strip) (SavedReports_Items c) = SavedReports_Items c"
    by (rule clean_items_fixed)
  obtain ms where m: "SavedReports_MarshalJSON c = JObject ms"
    by (simp add: SavedReports_MarshalJSON_def Let_def)
  show ?thesis
    by (simp add: Decode_object [OF m] SavedReports_roundtrip_new i)
qed

text \<open>UrlChannel.\<close>

lemma UrlChannel_field_simps:
  "UrlChannel_field ''id'' (JString x) cur = Inr (cur\<lparr>UrlChannel_Id := x\<rparr>)"
  "UrlChannel_field ''kind'' (JString x) cur = Inr (cur\<lparr>UrlChannel_Kind := x\<rparr>)"
  "UrlChannel_field ''urlPattern'' (JString x) cur = Inr (cur\<lparr>UrlChannel_UrlPattern := x\<rparr>)"
  by (simp_all add: UrlChannel_field_def equalFold_def stored_def dec_string_def dec_bool_def)

lemma UrlChannel_roundtrip:
  "UrlChannel_dec (UrlChannel_MarshalJSON a) UrlChannel_zero = Inr (UrlChannel_strip a)"
  by (cases a)
     (simp add: UrlChannel_dec_def UrlChannel_MarshalJSON_def dec_struct_def member_next member_last
        UrlChannel_field_simps UrlChannel_zero_def UrlChannel_strip_def)

lemma UrlChannel_MarshalJSON_not_null: "UrlChannel_MarshalJSON a \<noteq> JNull"
  by (simp add: UrlChannel_MarshalJSON_def Let_def)

lemma UrlChannel_ptr_roundtrip:
  "dec_ptr UrlChannel_dec UrlChannel_zero (UrlChannel_MarshalJSON a) None = Inr (Some (UrlChannel_strip a))"
  by (rule dec_ptr_roundtrip) (rule UrlChannel_roundtrip UrlChannel_MarshalJSON_not_null)+

lemma UrlChannel_items_roundtrip:
  "dec_slice (dec_ptr UrlChannel_dec UrlChannel_zero) None (JArray (map UrlChannel_ptr_json xs)) []
   = Inr (map (map_option UrlChannel_strip) xs)"
  using dec_slice_ptrs [of UrlChannel_dec UrlChannel_MarshalJSON UrlChannel_zero UrlChannel_strip xs,
      OF UrlChannel_roundtrip UrlChannel_MarshalJSON_not_null]
  by (simp add: UrlChannel_ptr_json_def [abs_def])

lemma UrlChannel_field_fresh:
  "UrlChannel_field k v c = Inr c' \<Longrightarrow> UrlChannel_fresh c \<Longrightarrow> UrlChannel_fresh c'"
  by (auto simp: UrlChannel_field_def stored_def UrlChannel_fresh_def split: if_splits sum.splits)

lemma UrlChannel_dec_fresh:
  "UrlChannel_dec j c = Inr v \<Longrightarrow> UrlChannel_fresh c \<Longrightarrow> UrlChannel_fresh v"
  unfolding UrlChannel_dec_def
  by (erule dec_struct_invariant [rotated]) (simp_all add: UrlChannel_field_fresh)

lemma UrlChannel_zero_fresh: "UrlChannel_fresh UrlChannel_zero"
  by (simp add: UrlChannel_fresh_def UrlChannel_zero_def)

lemma UrlChannel_fresh_strip: "UrlChannel_fresh a \<Longrightarrow> UrlChannel_strip a = a"
  by (cases a) (simp add: UrlChannel_fresh_def UrlChannel_strip_def)

text \<open>UrlChannels.\<close>

lemma UrlChannels_field_simps:
  "UrlChannels_field ''etag'' (JString x) cur = Inr (cur\<lparr>UrlChannels_Etag := x\<rparr>)"
  "UrlChannels_Items cur = [] \<Longrightarrow>
   UrlChannels_field ''items'' (JArray (map UrlChannel_ptr_json xs1)) cur
     = Inr (cur\<lparr>UrlChannels_Items := map (map_option UrlChannel_strip) xs1\<rparr>)"
  "UrlChannels_field ''items'' (JArray []) cur = Inr (cur\<lparr>UrlChannels_Items := []\<rparr>)"
  "UrlChannels_field ''kind'' (JString x) cur = Inr (cur\<lparr>UrlChannels_Kind := x\<rparr>)"
  "UrlChannels_field ''nextPageToken'' (JString x) cur = Inr (cur\<lparr>UrlChannels_NextPageToken := x\<rparr>)"
  by (simp_all add: UrlChannels_field_def equalFold_def stored_def dec_string_def dec_bool_def
      UrlChannel_items_roundtrip)

lemma UrlChannels_roundtrip_new:
  "UrlChannels_dec (UrlChannels_MarshalJSON c) (UrlChannels_new sr) =
     Inr (c\<lparr>UrlChannels_Items := map (map_option UrlChannel_strip) (UrlChannels_Items c),
           UrlChannels_ServerResponse := sr,
           UrlChannels_ForceSendFields := []\<rparr>)"
  by (cases c)
     (simp add: UrlChannels_dec_def UrlChannels_MarshalJSON_def dec_struct_def member_next member_last
        UrlChannels_field_simps UrlChannels_new_def UrlChannels_zero_def)

lemma UrlChannels_field_fresh:
  assumes "UrlChannels_field k v c = Inr c'"
    and "list_all (pred_option UrlChannel_fresh) (UrlChannels_Items c)"
  shows "list_all (pred_option UrlChannel_fresh) (UrlChannels_Items c')"
proof -
  have "\<And>y. dec_slice (dec_ptr UrlChannel_dec UrlChannel_zero) None v (UrlChannels_Items c) = Inr y \<Longrightarrow>
      list_all (pred_option UrlChannel_fresh) y"
    by (rule dec_items_invariant [OF UrlChannel_dec_fresh UrlChannel_zero_fresh _ assms(2)])
  with assms show ?thesis
    by (auto simp: UrlChannels_field_def stored_def split: if_splits sum.splits)
qed

lemma UrlChannels_dec_fresh:
  "UrlChannels_dec j (UrlChannels_new sr) = Inr c \<Longrightarrow> list_all (pred_option UrlChannel_fresh) (UrlChannels_Items c)"
  unfolding UrlChannels_dec_def
  by (erule dec_struct_invariant [rotated])
     (simp_all add: UrlChannels_field_fresh UrlChannels_new_def UrlChannels_zero_def)

lemma UrlChannels_roundtrip_items:
  assumes "Decode UrlChannels_dec b (UrlChannels_new sr) = Inr (Some c)"
  shows "\<exists>c'. Decode UrlChannels_dec (Some (UrlChannels_MarshalJSON c)) (UrlChannels_new sr') = Inr (Some c') \<and>
              UrlChannels_Items c' = UrlChannels_Items c"
proof -
  from assms obtain j where "UrlChannels_dec j (UrlChannels_new sr) = Inr c"
    by (auto simp: Decode_def split: option.splits json.splits sum.splits)
  then have "list_all (pred_option UrlChannel_fresh) (UrlChannels_Items c)"
    by (rule UrlChannels_dec_fresh)
  then have "list_all (pred_option (\<lambda>a. UrlChannel_strip a = a)) (UrlChannels_Items c)"
    by (simp add: list_all_iff option.pred_set UrlChannel_fresh_strip)
  then have i: "map (map_option UrlChannel_strip) (UrlChannels_Items c) = UrlChannels_Items c"
    by (rule clean_items_fixed)
  obtain ms where m: "UrlChannels_MarshalJSON c = JObject ms"
    by (simp add: UrlChannels_MarshalJSON_def Let_def)
  show ?thesis
    by (simp add: Decode_object [OF m] UrlChannels_roundtrip_new i)
qed

text \<open>ReportHeaders.\<close>

lemma ReportHeaders_field_simps:
  "ReportHeaders_field ''currency'' (JString x) cur = Inr (cur\<lparr>ReportHeaders_Currency := x\<rparr>)"
  "ReportHeaders_field ''name'' (JString x) cur = Inr (cur\<lparr>ReportHeaders_Name := x\<rparr>)"
  "ReportHeaders_field ''type'' (JString x) cur = Inr (cur\<lparr>ReportHeaders_Type := x\<rparr>)"
  by (simp_all add: ReportHeaders_field_def equalFold_def stored_def dec_string_def dec_bool_def)

lemma ReportHeaders_roundtrip:
  "ReportHeaders_dec (ReportHeaders_MarshalJSON a) ReportHeaders_zero = Inr (ReportHeaders_strip a)"
  by (cases a)
     (simp add: ReportHeaders_dec_def ReportHeaders_MarshalJSON_def dec_struct_def member_next member_last
        ReportHeaders_field_simps ReportHeaders_zero_def ReportHeaders_strip_def)

lemma ReportHeaders_MarshalJSON_not_null: "ReportHeaders_MarshalJSON a \<noteq> JNull"
  by (simp add: ReportHeaders_MarshalJSON_def Let_def)

lemma ReportHeaders_ptr_roundtrip:
  "dec_ptr ReportHeaders_dec ReportHeaders_zero (ReportHeaders_MarshalJSON a) None = Inr (Some (ReportHeaders_strip a))"
  by (rule dec_ptr_roundtrip) (rule ReportHeaders_roundtrip ReportHeaders_MarshalJSON_not_null)+

lemma ReportHeaders_items_roundtrip:
  "dec_slice (dec_ptr ReportHeaders_dec ReportHeaders_zero) None (JArray (map ReportHeaders_ptr_json xs)) []
   = Inr (map (map_option ReportHeaders_strip) xs)"
  using dec_slice_ptrs [of ReportHeaders_dec ReportHeaders_MarshalJSON ReportHeaders_zero ReportHeaders_strip xs,
      OF ReportHeaders_roundtrip ReportHeaders_MarshalJSON_not_null]
  by (simp add: ReportHeaders_ptr_json_def [abs_def])

lemma ReportHeaders_field_fresh:
  "ReportHeaders_field k v c = Inr c' \<Longrightarrow> ReportHeaders_fresh c \<Longrightarrow> ReportHeaders_fresh c'"
  by (auto simp: ReportHeaders_field_def stored_def ReportHeaders_fresh_def split: if_splits sum.splits)

lemma ReportHeaders_dec_fresh:
  "ReportHeaders_dec j c = Inr v \<Longrightarrow> ReportHeaders_fresh c \<Longrightarrow> ReportHeaders_fresh v"
  unfolding ReportHeaders_dec_def
  by (erule dec_struct_invariant [rotated]) (simp_all add: ReportHeaders_field_fresh)

lemma ReportHeaders_zero_fresh: "ReportHeaders_fresh ReportHeaders_zero"
  by (simp add: ReportHeaders_fresh_def ReportHeaders_zero_def)

lemma ReportHeaders_fresh_strip: "ReportHeaders_fresh a \<Longrightarrow> ReportHeaders_strip a = a"
  by (cases a) (simp add: ReportHeaders_fresh_def ReportHeaders_strip_def)

text \<open>Report.\<close>

lemma Report_field_simps:
  "Report_Averages cur = [] \<Longrightarrow>
   Report_field ''averages'' (JArray (map JString xs0)) cur = Inr (cur\<lparr>Report_Averages := xs0\<rparr>)"
  "Report_field ''averages'' (JArray []) cur = Inr (cur\<lparr>Report_Averages := []\<rparr>)"
  "Report_Headers cur = [] \<Longrightarrow>
   Report_field ''headers'' (JArray (map ReportHeaders_ptr_json xs1)) cur
     = Inr (cur\<lparr>Report_Headers := map (map_option ReportHeaders_strip) xs1\<rparr>)"
  "Report_field ''headers'' (JArray []) cur = Inr (cur\<lparr>Report_Headers := []\<rparr>)"
  "Report_field ''kind'' (JString x) cur = Inr (cur\<lparr>Report_Kind := x\<rparr>)"
  "Report_Rows cur = [] \<Longrightarrow>
   Report_field ''rows'' (JArray (map (\<lambda>row. JArray (map JString row)) rs3)) cur = Inr (cur\<lparr>Report_Rows := rs3\<rparr>)"
  "Report_field ''rows'' (JArray []) cur = Inr (cur\<lparr>Report_Rows := []\<rparr>)"
  "Report_field ''totalMatchedRows'' (JString (Itoa (sint n))) cur = Inr (cur\<lparr>Report_TotalMatchedRows := n\<rparr>)"
  "Report_field ''totalMatchedRows'' (JString (Itoa 0)) cur = Inr (cur\<lparr>Report_TotalMatchedRows := 0\<rparr>)"
  "Report_Totals cur = [] \<Longrightarrow>
   Report_field ''totals'' (JArray (map JString xs5)) cur = Inr (cur\<lparr>Report_Totals := xs5\<rparr>)"
  "Report_field ''totals'' (JArray []) cur = Inr (cur\<lparr>Report_Totals := []\<rparr>)"
  "Report_Warnings cur = [] \<Longrightarrow>
   Report_field ''warnings'' (JArray (map JString xs6)) cur = Inr (cur\<lparr>Report_Warnings := xs6\<rparr>)"
  "Report_field ''warnings'' (JArray []) cur = Inr (cur\<lparr>Report_Warnings := []\<rparr>)"
  by (simp_all add: Report_field_def equalFold_def stored_def dec_string_def dec_bool_def
      ReportHeaders_items_roundtrip)

lemma Report_roundtrip_new:
  "Report_dec (Report_MarshalJSON c) (Report_new sr) =
     Inr (c\<lparr>Report_Headers := map (map_option ReportHeaders_strip) (Report_Headers c),
           Report_ServerResponse := sr,
           Report_ForceSendFields := []\<rparr>)"
  by (cases c)
     (simp add: Report_dec_def Report_MarshalJSON_def dec_struct_def member_next member_last
        Report_field_simps Report_new_def Report_zero_def)

subsection \<open>The fields of a result and the members of the body\<close>

text \<open>
  A field that only the members of one name are decoded into is, after decoding an object
  that has no such member, what it was, and after decoding an object that has one such
  member, what the decoder of the field makes of the value of that member.
\<close>

lemma equalFold_iff: "equalFold name key \<longleftrightarrow> foldName key = foldName name"
  by (auto simp: equalFold_def)

lemma dec_members_field:
  assumes other: "\<And>k v c c'. \<not> equalFold name k \<Longrightarrow> fld k v c = Inr c' \<Longrightarrow> get c' = get c"
    and named: "\<And>k v c c'. equalFold name k \<Longrightarrow> fld k v c = Inr c' \<Longrightarrow>
                  fdec v (get c) = Inr (get c')"
  shows "dec_members fld ms cur = Inr r \<Longrightarrow>
         (members_named name ms = [] \<longrightarrow> get r = get cur) \<and>
         (\<forall>j. members_named name ms = [j] \<longrightarrow> fdec j (get cur) = Inr (get r))"
proof (induction ms arbitrary: cur)
  case Nil
  then show ?case by (simp add: members_named_def)
next
  case (Cons a ms)
  obtain k v where a: "a = (k, v)" by (cases a)
  from Cons.prems a obtain c1 where f: "fld k v cur = Inr c1" and d: "dec_members fld ms c1 = Inr r"
    by (auto split: sum.splits)
  note ih = Cons.IH [OF d]
  show ?case
  proof (cases "equalFold name k")
    case True
    from named [OF True f] ih True a show ?thesis
      by (auto simp: members_named_def)
  next
    case False
    from other [OF False f] ih False a show ?thesis
      by (auto simp: members_named_def)
  qed
qed

lemma dec_elems_length: "dec_elems dec zero js cur = Inr vs \<Longrightarrow> length vs = length js"
  by (induction js arbitrary: cur vs) (auto split: sum.splits)

lemma dec_members_array:
  assumes other: "\<And>k v c c'. \<not> equalFold name k \<Longrightarrow> fld k v c = Inr c' \<Longrightarrow> get c' = get c"
    and named: "\<And>k v c c'. equalFold name k \<Longrightarrow> fld k v c = Inr c' \<Longrightarrow>
                  dec_slice dec zero v (get c) = Inr (get c')"
    and d: "dec_members fld ms cur = Inr r" and e: "get cur = []"
    and m: "member_array name ms js"
  shows "dec_elems dec zero js [] = Inr (get r)"
proof -
  note f = dec_members_field [of name fld get "dec_slice dec zero", OF other named d]
  show ?thesis
  proof (cases "members_named name ms")
    case Nil
    with f m e show ?thesis by (simp add: member_array_def)
  next
    case (Cons j js')
    with m have js': "js' = []" by (cases js') (simp_all add: member_array_def)
    with Cons f e have s: "dec_slice dec zero j [] = Inr (get r)" by simp
    from m Cons js' s show ?thesis
      by (cases j) (simp_all add: member_array_def dec_slice_def)
  qed
qed

lemma Decode_struct:
  "Decode (dec_struct fld) b ret = Inr (Some c) \<Longrightarrow>
   \<exists>ms. b = Some (JObject ms) \<and> dec_members fld ms ret = Inr c"
  by (auto simp: Decode_def dec_struct_def split: option.splits json.splits sum.splits)

lemma AdClients_items_other:
  "\<not> equalFold ''items'' k \<Longrightarrow> AdClients_field k v c = Inr c' \<Longrightarrow> AdClients_Items c' = AdClients_Items c"
  by (auto simp: AdClients_field_def stored_def split: if_splits sum.splits)

lemma AdClients_items_named:
  "equalFold ''items'' k \<Longrightarrow> AdClients_field k v c = Inr c' \<Longrightarrow>
   dec_slice (dec_ptr AdClient_dec AdClient_zero) None v (AdClients_Items c) = Inr (AdClients_Items c')"
  by (auto simp: AdClients_field_def stored_def equalFold_iff split: if_splits sum.splits)

lemma AdClients_items_of_body:
  assumes d: "Decode AdClients_dec b (AdClients_new sr) = Inr (Some c)"
  shows "(\<exists>ms. b = Some (JObject ms)) \<and>
         (\<forall>ms js. b = Some (JObject ms) \<longrightarrow> member_array ''items'' ms js \<longrightarrow>
            length (AdClients_Items c) = length js \<and>
            dec_elems (dec_ptr AdClient_dec AdClient_zero) None js [] = Inr (AdClients_Items c) \<and>
            (\<forall>xs. js = map AdClient_ptr_json xs \<longrightarrow> AdClients_Items c = map (map_option AdClient_strip) xs)) \<and>
         (\<exists>c'. Decode AdClients_dec (Some (AdClients_MarshalJSON c)) (AdClients_new sr') = Inr (Some c') \<and>
               AdClients_Items c' = AdClients_Items c)"
proof -
  from d obtain ms0 where b: "b = Some (JObject ms0)"
    and m: "dec_members AdClients_field ms0 (AdClients_new sr) = Inr c"
    unfolding AdClients_dec_def by (auto dest: Decode_struct)
  have e: "AdClients_Items (AdClients_new sr) = []" by (simp add: AdClients_new_def AdClients_zero_def)
  have i: "dec_elems (dec_ptr AdClient_dec AdClient_zero) None js [] = Inr (AdClients_Items c)"
    if "member_array ''items'' ms0 js" for js
    using dec_members_array [where get = AdClients_Items and name = "''items''" and fld = AdClients_field,
        OF AdClients_items_other AdClients_items_named m e that] .
  have n: "length (AdClients_Items c) = length js" if "member_array ''items'' ms0 js" for js
    using i [OF that] by (rule dec_elems_length)
  have r: "AdClients_Items c = map (map_option AdClient_strip) xs"
    if "member_array ''items'' ms0 (map AdClient_ptr_json xs)" for xs
    using i [OF that] AdClient_items_roundtrip [of xs] by (simp add: dec_slice_def)
  from b i n r AdClients_roundtrip_items [OF d, of sr'] show ?thesis by auto
qed

lemma AdUnits_items_other:
  "\<not> equalFold ''items'' k \<Longrightarrow> AdUnits_field k v c = Inr c' \<Longrightarrow> AdUnits_Items c' = AdUnits_Items c"
  by (auto simp: AdUnits_field_def stored_def split: if_splits sum.splits)

lemma AdUnits_items_named:
  "equalFold ''items'' k \<Longrightarrow> AdUnits_field k v c = Inr c' \<Longrightarrow>
   dec_slice (dec_ptr AdUnit_dec AdUnit_zero) None v (AdUnits_Items c) = Inr (AdUnits_Items c')"
  by (auto simp: AdUnits_field_def stored_def equalFold_iff split: if_splits sum.splits)

lemma AdUnits_items_of_body:
  assumes d: "Decode AdUnits_dec b (AdUnits_new sr) = Inr (Some c)"
  shows "(\<exists>ms. b = Some (JObject ms)) \<and>
         (\<forall>ms js. b = Some (JObject ms) \<longrightarrow> member_array ''items'' ms js \<longrightarrow>
            length (AdUnits_Items c) = length js \<and>
            dec_elems (dec_ptr AdUnit_dec AdUnit_zero) None js [] = Inr (AdUnits_Items c) \<and>
            (\<forall>xs. js = map AdUnit_ptr_json xs \<longrightarrow> AdUnits_Items c = map (map_option AdUnit_strip) xs)) \<and>
         (\<exists>c'. Decode AdUnits_dec (Some (AdUnits_MarshalJSON c)) (AdUnits_new sr') = Inr (Some c') \<and>
               AdUnits_Items c' = AdUnits_Items c)"
proof -
  from d obtain ms0 where b: "b = Some (JObject ms0)"
    and m: "dec_members AdUnits_field ms0 (AdUnits_new sr) = Inr c"
    unfolding AdUnits_dec_def by (auto dest: Decode_struct)
  have e: "AdUnits_Items (AdUnits_new sr) = []" by (simp add: AdUnits_new_def AdUnits_zero_def)
  have i: "dec_elems (dec_ptr AdUnit_dec AdUnit_zero) None js [] = Inr (AdUnits_Items c)"
    if "member_array ''items'' ms0 js" for js
    using dec_members_array [where get = AdUnits_Items and name = "''items''" and fld = AdUnits_field,
        OF AdUnits_items_other AdUnits_items_named m e that] .
  have n: "length (AdUnits_Items c) = length js" if "member_array ''items'' ms0 js" for js
    using i [OF that] by (rule dec_elems_length)
  have r: "AdUnits_Items c = map (map_option AdUnit_strip) xs"
    if "member_array ''items'' ms0 (map AdUnit_ptr_json xs)" for xs
    using i [OF that] AdUnit_items_roundtrip [of xs] by (simp add: dec_slice_def)
  from b i n r AdUnits_roundtrip_items [OF d, of sr'] show ?thesis by auto
qed

lemma CustomChannels_items_other:
  "\<not> equalFold ''items'' k \<Longrightarrow> CustomChannels_field k v c = Inr c' \<Longrightarrow> CustomChannels_Items c' = CustomChannels_Items c"
  by (auto simp: CustomChannels_field_def stored_def split: if_splits sum.splits)

lemma CustomChannels_items_named:
  "equalFold ''items'' k \<Longrightarrow> CustomChannels_field k v c = Inr c' \<Longrightarrow>
   dec_slice (dec_ptr CustomChannel_dec CustomChannel_zero) None v (CustomChannels_Items c) = Inr (CustomChannels_Items c')"
  by (auto simp: CustomChannels_field_def stored_def equalFold_iff split: if_splits sum.splits)

lemma CustomChannels_items_of_body:
  assumes d: "Decode CustomChannels_dec b (CustomChannels_new sr) = Inr (Some c)"
  shows "(\<exists>ms. b = Some (JObject ms)) \<and>
         (\<forall>ms js. b = Some (JObject ms) \<longrightarrow> member_array ''items'' ms js \<longrightarrow>
            length (CustomChannels_Items c) = length js \<and>
            dec_elems (dec_ptr CustomChannel_dec CustomChannel_zero) None js [] = Inr (CustomChannels_Items c) \<and>
            (\<forall>xs. js = map CustomChannel_ptr_json xs \<longrightarrow> CustomChannels_Items c = map (map_option CustomChannel_strip) xs)) \<and>
         (\<exists>c'. Decode CustomChannels_dec (Some (CustomChannels_MarshalJSON c)) (CustomChannels_new sr') = Inr (Some c') \<and>
               CustomChannels_Items c' = CustomChannels_Items c)"
proof -
  from d obtain ms0 where b: "b = Some (JObject ms0)"
    and m: "dec_members CustomChannels_field ms0 (CustomChannels_new sr) = Inr c"
    unfolding CustomChannels_dec_def by (auto dest: Decode_struct)
  have e: "CustomChannels_Items (CustomChannels_new sr) = []" by (simp add: CustomChannels_new_def CustomChannels_zero_def)
  have i: "dec_elems (dec_ptr CustomChannel_dec CustomChannel_zero) None js [] = Inr (CustomChannels_Items c)"
    if "member_array ''items'' ms0 js" for js
    using dec_members_array [where get = CustomChannels_Items and name = "''items''" and fld = CustomChannels_field,
        OF CustomChannels_items_other CustomChannels_items_named m e that] .
  have n: "length (CustomChannels_Items c) = length js" if "member_array ''items'' ms0 js" for js
    using i [OF that] by (rule dec_elems_length)
  have r: "CustomChannels_Items c = map (map_option CustomChannel_strip) xs"
    if "member_array ''items'' ms0 (map CustomChannel_ptr_json xs)" for xs
    using i [OF that] CustomChannel_items_roundtrip [of xs] by (simp add: dec_slice_def)
  from b i n r CustomChannels_roundtrip_items [OF d, of sr'] show ?thesis by auto
qed

lemma SavedReports_items_other:
  "\<not> equalFold ''items'' k \<Longrightarrow> SavedReports_field k v c = Inr c' \<Longrightarrow> SavedReports_Items c' = SavedReports_Items c"
  by (auto simp: SavedReports_field_def stored_def split: if_splits sum.splits)

lemma SavedReports_items_named:
  "equalFold ''items'' k \<Longrightarrow> SavedReports_field k v c = Inr c' \<Longrightarrow>
   dec_slice (dec_ptr SavedReport_dec SavedReport_zero) None v (SavedReports_Items c) = Inr (SavedReports_Items c')"
  by (auto simp: SavedReports_field_def stored_def equalFold_iff split: if_splits sum.splits)

lemma SavedReports_items_of_body:
  assumes d: "Decode SavedReports_dec b (SavedReports_new sr) = Inr (Some c)"
  shows "(\<exists>ms. b = Some (JObject ms)) \<and>
         (\<forall>ms js. b = Some (JObject ms) \<longrightarrow> member_array ''items'' ms js \<longrightarrow>
            length (SavedReports_Items c) = length js \<and>
            dec_elems (dec_ptr SavedReport_dec SavedReport_zero) None js [] = Inr (SavedReports_Items c) \<and>
            (\<forall>xs. js = map SavedReport_ptr_json xs \<longrightarrow> SavedReports_Items c = map (map_option SavedReport_strip) xs)) \<and>
         (\<exists>c'. Decode SavedReports_dec (Some (SavedReports_MarshalJSON c)) (SavedReports_new sr') = Inr (Some c') \<and>
               SavedReports_Items c' = SavedReports_Items c)"
proof -
  from d obtain ms0 where b: "b = Some (JObject ms0)"
    and m: "dec_members SavedReports_field ms0 (SavedReports_new sr) = Inr c"
    unfolding SavedReports_dec_def by (auto dest: Decode_struct)
  have e: "SavedReports_Items (SavedReports_new sr) = []" by (simp add: SavedReports_new_def SavedReports_zero_def)
  have i: "dec_elems (dec_ptr SavedReport_dec SavedReport_zero) None js [] = Inr (SavedReports_Items c)"
    if "member_array ''items'' ms0 js" for js
    using dec_members_array [where get = SavedReports_Items and name = "''items''" and fld = SavedReports_field,
        OF SavedReports_items_other SavedReports_items_named m e that] .
  have n: "length (SavedReports_Items c) = length js" if "member_array ''items'' ms0 js" for js
    using i [OF that] by (rule dec_elems_length)
  have r: "SavedReports_Items c = map (map_option SavedReport_strip) xs"
    if "member_array ''items'' ms0 (map SavedReport_ptr_json xs)" for xs
    using i [OF that] SavedReport_items_roundtrip [of xs] by (simp add: dec_slice_def)
  from b i n r SavedReports_roundtrip_items [OF d, of sr'] show ?thesis by auto
qed

lemma UrlChannels_items_other:
  "\<not> equalFold ''items'' k \<Longrightarrow> UrlChannels_field k v c = Inr c' \<Longrightarrow> UrlChannels_Items c' = UrlChannels_Items c"
  by (auto simp: UrlChannels_field_def stored_def split: if_splits sum.splits)

lemma UrlChannels_items_named:
  "equalFold ''items'' k \<Longrightarrow> UrlChannels_field k v c = Inr c' \<Longrightarrow>
   dec_slice (dec_ptr UrlChannel_dec UrlChannel_zero) None v (UrlChannels_Items c) = Inr (UrlChannels_Items c')"
  by (auto simp: UrlChannels_field_def stored_def equalFold_iff split: if_splits sum.splits)

lemma UrlChannels_items_of_body:
  assumes d: "Decode UrlChannels_dec b (UrlChannels_new sr) = Inr (Some c)"
  shows "(\<exists>ms. b = Some (JObject ms)) \<and>
         (\<forall>ms js. b = Some (JObject ms) \<longrightarrow> member_array ''items'' ms js \<longrightarrow>
            length (UrlChannels_Items c) = length js \<and>
            dec_elems (dec_ptr UrlChannel_dec UrlChannel_zero) None js [] = Inr (UrlChannels_Items c) \<and>
            (\<forall>xs. js = map UrlChannel_ptr_json xs \<longrightarrow> UrlChannels_Items c = map (map_option UrlChannel_strip) xs)) \<and>
         (\<exists>c'. Decode UrlChannels_dec (Some (UrlChannels_MarshalJSON c)) (UrlChannels_new sr') = Inr (Some c') \<and>
               UrlChannels_Items c' = UrlChannels_Items c)"
proof -
  from d obtain ms0 where b: "b = Some (JObject ms0)"
    and m: "dec_members UrlChannels_field ms0 (UrlChannels_new sr) = Inr c"
    unfolding UrlChannels_dec_def by (auto dest: Decode_struct)
  have e: "UrlChannels_Items (UrlChannels_new sr) = []" by (simp add: UrlChannels_new_def UrlChannels_zero_def)
  have i: "dec_elems (dec_ptr UrlChannel_dec UrlChannel_zero) None js [] = Inr (UrlChannels_Items c)"
    if "member_array ''items'' ms0 js" for js
    using dec_members_array [where get = UrlChannels_Items and name = "''items''" and fld = UrlChannels_field,
        OF UrlChannels_items_other UrlChannels_items_named m e that] .
  have n: "length (UrlChannels_Items c) = length js" if "member_array ''items'' ms0 js" for js
    using i [OF that] by (rule dec_elems_length)
  have r: "UrlChannels_Items c = map (map_option UrlChannel_strip) xs"
    if "member_array ''items'' ms0 (map UrlChannel_ptr_json xs)" for xs
    using i [OF that] UrlChannel_items_roundtrip [of xs] by (simp add: dec_slice_def)
  from b i n r UrlChannels_roundtrip_items [OF d, of sr'] show ?thesis by auto
qed

text \<open>
  C8. A collection (of ad clients, ad units, custom channels, saved reports or URL channels)
  is decoded from a body that is a JSON object. When the object holds the N items \<open>js\<close>,
  the collection has N items, the item at each index decoded from the item of the body at
  that index (for items as the encoder writes them, the items themselves but for the
  fields that are never sent); and the collection, encoded again by its \<open>MarshalJSON\<close>
  and decoded into a new collection, has the same items in the same order, hence as many.
\<close>

theorem collection_roundtrip:
  "(Decode AdClients_dec b (AdClients_new sr) = Inr (Some c1) \<longrightarrow>
      (\<exists>ms. b = Some (JObject ms)) \<and>
      (\<forall>ms js. b = Some (JObject ms) \<longrightarrow> member_array ''items'' ms js \<longrightarrow>
         length (AdClients_Items c1) = length js \<and>
         dec_elems (dec_ptr AdClient_dec AdClient_zero) None js [] = Inr (AdClients_Items c1) \<and>
         (\<forall>xs. js = map AdClient_ptr_json xs \<longrightarrow> AdClients_Items c1 = map (map_option AdClient_strip) xs)) \<and>
      (\<exists>c'. Decode AdClients_dec (Some (AdClients_MarshalJSON c1)) (AdClients_new sr') = Inr (Some c') \<and>
            AdClients_Items c' = AdClients_Items c1)) \<and>
   (Decode AdUnits_dec b (AdUnits_new sr) = Inr (Some c2) \<longrightarrow>
      (\<exists>ms. b = Some (JObject ms)) \<and>
      (\<forall>ms js. b = Some (JObject ms) \<longrightarrow> member_array ''items'' ms js \<longrightarrow>
         length (AdUnits_Items c2) = length js \<and>
         dec_elems (dec_ptr AdUnit_dec AdUnit_zero) None js [] = Inr (AdUnits_Items c2) \<and>
         (\<forall>xs. js = map AdUnit_ptr_json xs \<longrightarrow> AdUnits_Items c2 = map (map_option AdUnit_strip) xs)) \<and>
      (\<exists>c'. Decode AdUnits_dec (Some (AdUnits_MarshalJSON c2)) (AdUnits_new sr') = Inr (Some c') \<and>
            AdUnits_Items c' = AdUnits_Items c2)) \<and>
   (Decode CustomChannels_dec b (CustomChannels_new sr) = Inr (Some c3) \<longrightarrow>
      (\<exists>ms. b = Some (JObject ms)) \<and>
      (\<forall>ms js. b = Some (JObject ms) \<longrightarrow> member_array ''items'' ms js \<longrightarrow>
         length (CustomChannels_Items c3) = length js \<and>
         dec_elems (dec_ptr CustomChannel_dec CustomChannel_zero) None js [] = Inr (CustomChannels_Items c3) \<and>
         (\<forall>xs. js = map CustomChannel_ptr_json xs \<longrightarrow> CustomChannels_Items c3 = map (map_option CustomChannel_strip) xs)) \<and>
      (\<exists>c'. Decode CustomChannels_dec (Some (CustomChannels_MarshalJSON c3)) (CustomChannels_new sr') = Inr (Some c') \<and>
            CustomChannels_Items c' = CustomChannels_Items c3)) \<and>
   (Decode SavedReports_dec b (SavedReports_new sr) = Inr (Some c4) \<longrightarrow>
      (\<exists>ms. b = Some (JObject ms)) \<and>
      (\<forall>ms js. b = Some (JObject ms) \<longrightarrow> member_array ''items'' ms js \<longrightarrow>
         length (SavedReports_Items c4) = length js \<and>
         dec_elems (dec_ptr SavedReport_dec SavedReport_zero) None js [] = Inr (SavedReports_Items c4) \<and>
         (\<forall>xs. js = map SavedReport_ptr_json xs \<longrightarrow> SavedReports_Items c4 = map (map_option SavedReport_strip) xs)) \<and>
      (\<exists>c'. Decode SavedReports_dec (Some (SavedReports_MarshalJSON c4)) (SavedReports_new sr') = Inr (Some c') \<and>
            SavedReports_Items c' = SavedReports_Items c4)) \<and>
   (Decode UrlChannels_dec b (UrlChannels_new sr) = Inr (Some c5) \<longrightarrow>
      (\<exists>ms. b = Some (JObject ms)) \<and>
      (\<forall>ms js. b = Some (JObject ms) \<longrightarrow> member_array ''items'' ms js \<longrightarrow>
         length (UrlChannels_Items c5) = length js \<and>
         dec_elems (dec_ptr UrlChannel_dec UrlChannel_zero) None js [] = Inr (UrlChannels_Items c5) \<and>
         (\<forall>xs. js = map UrlChannel_ptr_json xs \<longrightarrow> UrlChannels_Items c5 = map (map_option UrlChannel_strip) xs)) \<and>
      (\<exists>c'. Decode UrlChannels_dec (Some (UrlChannels_MarshalJSON c5)) (UrlChannels_new sr') = Inr (Some c') \<and>
            UrlChannels_Items c' = UrlChannels_Items c5))"
  by (intro conjI;
      (rule impI, rule AdClients_items_of_body AdUnits_items_of_body CustomChannels_items_of_body SavedReports_items_of_body UrlChannels_items_of_body, assumption))

lemma foldName_Items: "foldName ''Items'' = ''items''"
  by (simp add: foldName.simps to_lower_def)

theorem collection_roundtrip_witness:
  "(\<exists>c. Decode AdClients_dec (Some (JObject adclients_members)) (AdClients_new ServerResponse_zero) = Inr (Some c) \<and>
        member_array ''items'' adclients_members adclients_items \<and>
        length (AdClients_Items c) = 3 \<and>
        AdClients_Items c =
           [Some (AdClient_zero\<lparr>AdClient_Id := ''ca-pub-9'', AdClient_SupportsReporting := True\<rparr>),
            None,
            Some (AdClient_zero\<lparr>AdClient_Id := ''ca-pub-7''\<rparr>)] \<and>
        (\<exists>c'. Decode AdClients_dec (Some (AdClients_MarshalJSON c)) (AdClients_new ServerResponse_zero)
                = Inr (Some c') \<and>
              AdClients_Items c' =
                [Some (AdClient_zero\<lparr>AdClient_Id := ''ca-pub-9'', AdClient_SupportsReporting := True\<rparr>),
            None,
            Some (AdClient_zero\<lparr>AdClient_Id := ''ca-pub-7''\<rparr>)])) \<and>
   (\<exists>c. Decode AdUnits_dec (Some (JObject adunits_members)) (AdUnits_new ServerResponse_zero) = Inr (Some c) \<and>
        member_array ''items'' adunits_members adunits_items \<and>
        length (AdUnits_Items c) = 2 \<and>
        AdUnits_Items c =
           [Some (AdUnit_zero\<lparr>AdUnit_Id := ''ca-pub-1:10'', AdUnit_Name := ''Top''\<rparr>),
            Some (AdUnit_zero\<lparr>AdUnit_Id := ''ca-pub-1:11'', AdUnit_Status := ''ACTIVE''\<rparr>)] \<and>
        (\<exists>c'. Decode AdUnits_dec (Some (AdUnits_MarshalJSON c)) (AdUnits_new ServerResponse_zero)
                = Inr (Some c') \<and>
              AdUnits_Items c' =
                [Some (AdUnit_zero\<lparr>AdUnit_Id := ''ca-pub-1:10'', AdUnit_Name := ''Top''\<rparr>),
            Some (AdUnit_zero\<lparr>AdUnit_Id := ''ca-pub-1:11'', AdUnit_Status := ''ACTIVE''\<rparr>)])) \<and>
   (\<exists>c. Decode CustomChannels_dec (Some (JObject customchannels_members)) (CustomChannels_new ServerResponse_zero) = Inr (Some c) \<and>
        member_array ''items'' customchannels_members customchannels_items \<and>
        length (CustomChannels_Items c) = 2 \<and>
        CustomChannels_Items c =
           [Some (CustomChannel_zero
               \<lparr>CustomChannel_Id := ''ch-1'',
                CustomChannel_TargetingInfo :=
                  Some (CustomChannelTargetingInfo_zero
                    \<lparr>CustomChannelTargetingInfo_Location := ''TOP_LEFT''\<rparr>)\<rparr>),
            None] \<and>
        (\<exists>c'. Decode CustomChannels_dec (Some (CustomChannels_MarshalJSON c)) (CustomChannels_new ServerResponse_zero)
                = Inr (Some c') \<and>
              CustomChannels_Items c' =
                [Some (CustomChannel_zero
               \<lparr>CustomChannel_Id := ''ch-1'',
                CustomChannel_TargetingInfo :=
                  Some (CustomChannelTargetingInfo_zero
                    \<lparr>CustomChannelTargetingInfo_Location := ''TOP_LEFT''\<rparr>)\<rparr>),
            None])) \<and>
   (\<exists>c. Decode SavedReports_dec (Some (JObject savedreports_members)) (SavedReports_new ServerResponse_zero) = Inr (Some c) \<and>
        member_array ''items'' savedreports_members savedreports_items \<and>
        length (SavedReports_Items c) = 2 \<and>
        SavedReports_Items c =
           [Some (SavedReport_zero\<lparr>SavedReport_Id := ''r1'', SavedReport_Name := ''Weekly''\<rparr>),
            Some (SavedReport_zero\<lparr>SavedReport_Id := ''r2''\<rparr>)] \<and>
        (\<exists>c'. Decode SavedReports_dec (Some (SavedReports_MarshalJSON c)) (SavedReports_new ServerResponse_zero)
                = Inr (Some c') \<and>
              SavedReports_Items c' =
                [Some (SavedReport_zero\<lparr>SavedReport_Id := ''r1'', SavedReport_Name := ''Weekly''\<rparr>),
            Some (SavedReport_zero\<lparr>SavedReport_Id := ''r2''\<rparr>)])) \<and>
   (\<exists>c. Decode UrlChannels_dec (Some (JObject urlchannels_members)) (UrlChannels_new ServerResponse_zero) = Inr (Some c) \<and>
        member_array ''items'' urlchannels_members urlchannels_items \<and>
        length (UrlChannels_Items c) = 2 \<and>
        UrlChannels_Items c =
           [Some (UrlChannel_zero\<lparr>UrlChannel_Id := ''u1'', UrlChannel_UrlPattern := ''example.com/a''\<rparr>),
            Some (UrlChannel_zero\<lparr>UrlChannel_Id := ''u2'', UrlChannel_UrlPattern := ''example.com/b''\<rparr>)] \<and>
        (\<exists>c'. Decode UrlChannels_dec (Some (UrlChannels_MarshalJSON c)) (UrlChannels_new ServerResponse_zero)
                = Inr (Some c') \<and>
              UrlChannels_Items c' =
                [Some (UrlChannel_zero\<lparr>UrlChannel_Id := ''u1'', UrlChannel_UrlPattern := ''example.com/a''\<rparr>),
            Some (UrlChannel_zero\<lparr>UrlChannel_Id := ''u2'', UrlChannel_UrlPattern := ''example.com/b''\<rparr>)]))"
proof -
  have "\<exists>c. Decode AdClients_dec (Some (JObject adclients_members)) (AdClients_new ServerResponse_zero) = Inr (Some c) \<and>
        AdClients_Items c =
           [Some (AdClient_zero\<lparr>AdClient_Id := ''ca-pub-9'', AdClient_SupportsReporting := True\<rparr>),
            None,
            Some (AdClient_zero\<lparr>AdClient_Id := ''ca-pub-7''\<rparr>)]"
    by (simp add: adclients_members_def adclients_items_def Decode_def AdClients_dec_def dec_struct_def AdClients_field_def
        AdClient_dec_def AdClient_field_def equalFold_def foldName_Items stored_def dec_string_def
        dec_bool_def dec_slice_def dec_ptr_def AdClients_new_def AdClients_zero_def AdClient_zero_def)
  then obtain c1 where d1: "Decode AdClients_dec (Some (JObject adclients_members)) (AdClients_new ServerResponse_zero)
        = Inr (Some c1)"
    and i1: "AdClients_Items c1 =
           [Some (AdClient_zero\<lparr>AdClient_Id := ''ca-pub-9'', AdClient_SupportsReporting := True\<rparr>),
            None,
            Some (AdClient_zero\<lparr>AdClient_Id := ''ca-pub-7''\<rparr>)]"
    by blast
  have m1: "member_array ''items'' adclients_members adclients_items"
    by (simp add: member_array_def members_named_def adclients_members_def equalFold_def
        foldName_Items)
  note t1 = collection_roundtrip [THEN conjunct1, rule_format, OF d1]
  have n1: "length (AdClients_Items c1) = 3"
    using t1 [THEN conjunct2, THEN conjunct1, rule_format, OF refl m1, THEN conjunct1]
    by (simp add: adclients_items_def)
  have w1: "(\<exists>c. Decode AdClients_dec (Some (JObject adclients_members)) (AdClients_new ServerResponse_zero) = Inr (Some c) \<and>
        member_array ''items'' adclients_members adclients_items \<and>
        length (AdClients_Items c) = 3 \<and>
        AdClients_Items c =
           [Some (AdClient_zero\<lparr>AdClient_Id := ''ca-pub-9'', AdClient_SupportsReporting := True\<rparr>),
            None,
            Some (AdClient_zero\<lparr>AdClient_Id := ''ca-pub-7''\<rparr>)] \<and>
        (\<exists>c'. Decode AdClients_dec (Some (AdClients_MarshalJSON c)) (AdClients_new ServerResponse_zero)
                = Inr (Some c') \<and>
              AdClients_Items c' =
                [Some (AdClient_zero\<lparr>AdClient_Id := ''ca-pub-9'', AdClient_SupportsReporting := True\<rparr>),
            None,
            Some (AdClient_zero\<lparr>AdClient_Id := ''ca-pub-7''\<rparr>)]))"
    using d1 m1 n1 i1 t1 [THEN conjunct2, THEN conjunct2, of ServerResponse_zero]
    by (auto simp only: i1)
  have "\<exists>c. Decode AdUnits_dec (Some (JObject adunits_members)) (AdUnits_new ServerResponse_zero) = Inr (Some c) \<and>
        AdUnits_Items c =
           [Some (AdUnit_zero\<lparr>AdUnit_Id := ''ca-pub-1:10'', AdUnit_Name := ''Top''\<rparr>),
            Some (AdUnit_zero\<lparr>AdUnit_Id := ''ca-pub-1:11'', AdUnit_Status := ''ACTIVE''\<rparr>)]"
    by (simp add: adunits_members_def adunits_items_def Decode_def AdUnits_dec_def dec_struct_def AdUnits_field_def
        AdUnit_dec_def AdUnit_field_def equalFold_def foldName_Items stored_def dec_string_def
        dec_bool_def dec_slice_def dec_ptr_def AdUnits_new_def AdUnits_zero_def AdUnit_zero_def)
  then obtain c2 where d2: "Decode AdUnits_dec (Some (JObject adunits_members)) (AdUnits_new ServerResponse_zero)
        = Inr (Some c2)"
    and i2: "AdUnits_Items c2 =
           [Some (AdUnit_zero\<lparr>AdUnit_Id := ''ca-pub-1:10'', AdUnit_Name := ''Top''\<rparr>),
            Some (AdUnit_zero\<lparr>AdUnit_Id := ''ca-pub-1:11'', AdUnit_Status := ''ACTIVE''\<rparr>)]"
    by blast
  have m2: "member_array ''items'' adunits_members adunits_items"
    by (simp add: member_array_def members_named_def adunits_members_def equalFold_def
        foldName_Items)
  note t2 = collection_roundtrip [THEN conjunct2, THEN conjunct1, rule_format, OF d2]
  have n2: "length (AdUnits_Items c2) = 2"
    using t2 [THEN conjunct2, THEN conjunct1, rule_format, OF refl m2, THEN conjunct1]
    by (simp add: adunits_items_def)
  have w2: "(\<exists>c. Decode AdUnits_dec (Some (JObject adunits_members)) (AdUnits_new ServerResponse_zero) = Inr (Some c) \<and>
        member_array ''items'' adunits_members adunits_items \<and>
        length (AdUnits_Items c) = 2 \<and>
        AdUnits_Items c =
           [Some (AdUnit_zero\<lparr>AdUnit_Id := ''ca-pub-1:10'', AdUnit_Name := ''Top''\<rparr>),
            Some (AdUnit_zero\<lparr>AdUnit_Id := ''ca-pub-1:11'', AdUnit_Status := ''ACTIVE''\<rparr>)] \<and>
        (\<exists>c'. Decode AdUnits_dec (Some (AdUnits_MarshalJSON c)) (AdUnits_new ServerResponse_zero)
                = Inr (Some c') \<and>
              AdUnits_Items c' =
                [Some (AdUnit_zero\<lparr>AdUnit_Id := ''ca-pub-1:10'', AdUnit_Name := ''Top''\<rparr>),
            Some (AdUnit_zero\<lparr>AdUnit_Id := ''ca-pub-1:11'', AdUnit_Status := ''ACTIVE''\<rparr>)]))"
    using d2 m2 n2 i2 t2 [THEN conjunct2, THEN conjunct2, of ServerResponse_zero]
    by (auto simp only: i2)
  have "\<exists>c. Decode CustomChannels_dec (Some (JObject customchannels_members)) (CustomChannels_new ServerResponse_zero) = Inr (Some c) \<and>
        CustomChannels_Items c =
           [Some (CustomChannel_zero
               \<lparr>CustomChannel_Id := ''ch-1'',
                CustomChannel_TargetingInfo :=
                  Some (CustomChannelTargetingInfo_zero
                    \<lparr>CustomChannelTargetingInfo_Location := ''TOP_LEFT''\<rparr>)\<rparr>),
            None]"
    by (simp add: customchannels_members_def customchannels_items_def Decode_def CustomChannels_dec_def dec_struct_def CustomChannels_field_def
        CustomChannel_dec_def CustomChannel_field_def CustomChannelTargetingInfo_dec_def CustomChannelTargetingInfo_field_def CustomChannelTargetingInfo_zero_def equalFold_def foldName_Items stored_def dec_string_def
        dec_bool_def dec_slice_def dec_ptr_def CustomChannels_new_def CustomChannels_zero_def CustomChannel_zero_def)
  then obtain c3 where d3: "Decode CustomChannels_dec (Some (JObject customchannels_members)) (CustomChannels_new ServerResponse_zero)
        = Inr (Some c3)"
    and i3: "CustomChannels_Items c3 =
           [Some (CustomChannel_zero
               \<lparr>CustomChannel_Id := ''ch-1'',
                CustomChannel_TargetingInfo :=
                  Some (CustomChannelTargetingInfo_zero
                    \<lparr>CustomChannelTargetingInfo_Location := ''TOP_LEFT''\<rparr>)\<rparr>),
            None]"
    by blast
  have m3: "member_array ''items'' customchannels_members customchannels_items"
    by (simp add: member_array_def members_named_def customchannels_members_def equalFold_def
        foldName_Items)
  note t3 = collection_roundtrip [THEN conjunct2, THEN conjunct2, THEN conjunct1, rule_format, OF d3]
  have n3: "length (CustomChannels_Items c3) = 2"
    using t3 [THEN conjunct2, THEN conjunct1, rule_format, OF refl m3, THEN conjunct1]
    by (simp add: customchannels_items_def)
  have w3: "(\<exists>c. Decode CustomChannels_dec (Some (JObject customchannels_members)) (CustomChannels_new ServerResponse_zero) = Inr (Some c) \<and>
        member_array ''items'' customchannels_members customchannels_items \<and>
        length (CustomChannels_Items c) = 2 \<and>
        CustomChannels_Items c =
           [Some (CustomChannel_zero
               \<lparr>CustomChannel_Id := ''ch-1'',
                CustomChannel_TargetingInfo :=
                  Some (CustomChannelTargetingInfo_zero
                    \<lparr>CustomChannelTargetingInfo_Location := ''TOP_LEFT''\<rparr>)\<rparr>),
            None] \<and>
        (\<exists>c'. Decode CustomChannels_dec (Some (CustomChannels_MarshalJSON c)) (CustomChannels_new ServerResponse_zero)
                = Inr (Some c') \<and>
              CustomChannels_Items c' =
                [Some (CustomChannel_zero
               \<lparr>CustomChannel_Id := ''ch-1'',
                CustomChannel_TargetingInfo :=
                  Some (CustomChannelTargetingInfo_zero
                    \<lparr>CustomChannelTargetingInfo_Location := ''TOP_LEFT''\<rparr>)\<rparr>),
            None]))"
    using d3 m3 n3 i3 t3 [THEN conjunct2, THEN conjunct2, of ServerResponse_zero]
    by (auto simp only: i3)
  have "\<exists>c. Decode SavedReports_dec (Some (JObject savedreports_members)) (SavedReports_new ServerResponse_zero) = Inr (Some c) \<and>
        SavedReports_Items c =
           [Some (SavedReport_zero\<lparr>SavedReport_Id := ''r1'', SavedReport_Name := ''Weekly''\<rparr>),
            Some (SavedReport_zero\<lparr>SavedReport_Id := ''r2''\<rparr>)]"
    by (simp add: savedreports_members_def savedreports_items_def Decode_def SavedReports_dec_def dec_struct_def SavedReports_field_def
        SavedReport_dec_def SavedReport_field_def equalFold_def foldName_Items stored_def dec_string_def
        dec_bool_def dec_slice_def dec_ptr_def SavedReports_new_def SavedReports_zero_def SavedReport_zero_def)
  then obtain c4 where d4: "Decode SavedReports_dec (Some (JObject savedreports_members)) (SavedReports_new ServerResponse_zero)
        = Inr (Some c4)"
    and i4: "SavedReports_Items c4 =
           [Some (SavedReport_zero\<lparr>SavedReport_Id := ''r1'', SavedReport_Name := ''Weekly''\<rparr>),
            Some (SavedReport_zero\<lparr>SavedReport_Id := ''r2''\<rparr>)]"
    by blast
  have m4: "member_array ''items'' savedreports_members savedreports_items"
    by (simp add: member_array_def members_named_def savedreports_members_def equalFold_def
        foldName_Items)
  note t4 = collection_roundtrip [THEN conjunct2, THEN conjunct2, THEN conjunct2, THEN conjunct1, rule_format, OF d4]
  have n4: "length (SavedReports_Items c4) = 2"
    using t4 [THEN conjunct2, THEN conjunct1, rule_format, OF refl m4, THEN conjunct1]
    by (simp add: savedreports_items_def)
  have w4: "(\<exists>c. Decode SavedReports_dec (Some (JObject savedreports_members)) (SavedReports_new ServerResponse_zero) = Inr (Some c) \<and>
        member_array ''items'' savedreports_members savedreports_items \<and>
        length (SavedReports_Items c) = 2 \<and>
        SavedReports_Items c =
           [Some (SavedReport_zero\<lparr>SavedReport_Id := ''r1'', SavedReport_Name := ''Weekly''\<rparr>),
            Some (SavedReport_zero\<lparr>SavedReport_Id := ''r2''\<rparr>)] \<and>
        (\<exists>c'. Decode SavedReports_dec (Some (SavedReports_MarshalJSON c)) (SavedReports_new ServerResponse_zero)
                = Inr (Some c') \<and>
              SavedReports_Items c' =
                [Some (SavedReport_zero\<lparr>SavedReport_Id := ''r1'', SavedReport_Name := ''Weekly''\<rparr>),
            Some (SavedReport_zero\<lparr>SavedReport_Id := ''r2''\<rparr>)]))"
    using d4 m4 n4 i4 t4 [THEN conjunct2, THEN conjunct2, of ServerResponse_zero]
    by (auto simp only: i4)
  have "\<exists>c. Decode UrlChannels_dec (Some (JObject urlchannels_members)) (UrlChannels_new ServerResponse_zero) = Inr (Some c) \<and>
        UrlChannels_Items c =
           [Some (UrlChannel_zero\<lparr>UrlChannel_Id := ''u1'', UrlChannel_UrlPattern := ''example.com/a''\<rparr>),
            Some (UrlChannel_zero\<lparr>UrlChannel_Id := ''u2'', UrlChannel_UrlPattern := ''example.com/b''\<rparr>)]"
    by (simp add: urlchannels_members_def urlchannels_items_def Decode_def UrlChannels_dec_def dec_struct_def UrlChannels_field_def
        UrlChannel_dec_def UrlChannel_field_def equalFold_def foldName_Items stored_def dec_string_def
        dec_bool_def dec_slice_def dec_ptr_def UrlChannels_new_def UrlChannels_zero_def UrlChannel_zero_def)
  then obtain c5 where d5: "Decode UrlChannels_dec (Some (JObject urlchannels_members)) (UrlChannels_new ServerResponse_zero)
        = Inr (Some c5)"
    and i5: "UrlChannels_Items c5 =
           [Some (UrlChannel_zero\<lparr>UrlChannel_Id := ''u1'', UrlChannel_UrlPattern := ''example.com/a''\<rparr>),
            Some (UrlChannel_zero\<lparr>UrlChannel_Id := ''u2'', UrlChannel_UrlPattern := ''example.com/b''\<rparr>)]"
    by blast
  have m5: "member_array ''items'' urlchannels_members urlchannels_items"
    by (simp add: member_array_def members_named_def urlchannels_members_def equalFold_def
        foldName_Items)
  note t5 = collection_roundtrip [THEN conjunct2, THEN conjunct2, THEN conjunct2, THEN conjunct2, rule_format, OF d5]
  have n5: "length (UrlChannels_Items c5) = 2"
    using t5 [THEN conjunct2, THEN conjunct1, rule_format, OF refl m5, THEN conjunct1]
    by (simp add: urlchannels_items_def)
  have w5: "(\<exists>c. Decode UrlChannels_dec (Some (JObject urlchannels_members)) (UrlChannels_new ServerResponse_zero) = Inr (Some c) \<and>
        member_array ''items'' urlchannels_members urlchannels_items \<and>
        length (UrlChannels_Items c) = 2 \<and>
        UrlChannels_Items c =
           [Some (UrlChannel_zero\<lparr>UrlChannel_Id := ''u1'', UrlChannel_UrlPattern := ''example.com/a''\<rparr>),
            Some (UrlChannel_zero\<lparr>UrlChannel_Id := ''u2'', UrlChannel_UrlPattern := ''example.com/b''\<rparr>)] \<and>
        (\<exists>c'. Decode UrlChannels_dec (Some (UrlChannels_MarshalJSON c)) (UrlChannels_new ServerResponse_zero)
                = Inr (Some c') \<and>
              UrlChannels_Items c' =
                [Some (UrlChannel_zero\<lparr>UrlChannel_Id := ''u1'', UrlChannel_UrlPattern := ''example.com/a''\<rparr>),
            Some (UrlChannel_zero\<lparr>UrlChannel_Id := ''u2'', UrlChannel_UrlPattern := ''example.com/b''\<rparr>)]))"
    using d5 m5 n5 i5 t5 [THEN conjunct2, THEN conjunct2, of ServerResponse_zero]
    by (auto simp only: i5)
  from w1 w2 w3 w4 w5 show ?thesis by (intro conjI)
qed

text \<open>
  C4, as stated, fails: a response with one header and a row of two cells is decoded as it
  is, and the report that \<open>Do\<close> returns has a row longer than its list of headers.
\<close>

theorem report_rows_not_checked:
  "fst (ReportsGenerateCall_Do (net_of (Some (response 200 report_body), None))
          (ReportsService_Generate \<lparr>ReportsService_s = svc0, ReportsService_Saved = None\<rparr>
             ''2016-01-01'' ''2016-01-31''))
     = Return (Some report_decoded, None) \<and>
   \<not> Report_rows_match report_decoded"
proof -
  have c: "CheckResponse (response 200 report_body) = None"
    by (simp add: CheckResponse_def response_def)
  have b: "Body (response 200 report_body) = Some report_body"
    by (simp add: response_def)
  have d: "Decode Report_dec report_body
             (Report_new \<lparr>HTTPStatusCode = StatusCode (response 200 report_body),
                          ServerResponse_Header = Header (response 200 report_body)\<rparr>)
           = Inr (Some report_decoded)"
    by (simp add: report_body_def report_decoded_def Decode_def Report_dec_def
        dec_struct_def Report_field_def ReportHeaders_dec_def ReportHeaders_field_def
        equalFold_def stored_def dec_string_def dec_slice_def dec_ptr_def Report_new_def
        Report_zero_def ReportHeaders_zero_def response_def)
  have "\<not> Report_rows_match report_decoded"
    by (simp add: Report_rows_match_def report_decoded_def Report_zero_def)
  then show ?thesis
    by (simp add: ReportsGenerateCall_Do_def ReportsGenerateCall_doRequest_def send_def
        net_of_def ReportsService_Generate_def Do_json_2xx [OF c b] d)
qed

lemma Report_averages_other:
  "\<not> equalFold ''averages'' k \<Longrightarrow> Report_field k v c = Inr c' \<Longrightarrow> Report_Averages c' = Report_Averages c"
  by (auto simp: Report_field_def stored_def split: if_splits sum.splits)

lemma Report_averages_named:
  "equalFold ''averages'' k \<Longrightarrow> Report_field k v c = Inr c' \<Longrightarrow>
   dec_slice dec_string [] v (Report_Averages c) = Inr (Report_Averages c')"
  by (auto simp: Report_field_def stored_def equalFold_iff split: if_splits sum.splits)

lemma Report_headers_other:
  "\<not> equalFold ''headers'' k \<Longrightarrow> Report_field k v c = Inr c' \<Longrightarrow> Report_Headers c' = Report_Headers c"
  by (auto simp: Report_field_def stored_def split: if_splits sum.splits)

lemma Report_headers_named:
  "equalFold ''headers'' k \<Longrightarrow> Report_field k v c = Inr c' \<Longrightarrow>
   dec_slice (dec_ptr ReportHeaders_dec ReportHeaders_zero) None v (Report_Headers c) = Inr (Report_Headers c')"
  by (auto simp: Report_field_def stored_def equalFold_iff split: if_splits sum.splits)

lemma Report_rows_other:
  "\<not> equalFold ''rows'' k \<Longrightarrow> Report_field k v c = Inr c' \<Longrightarrow> Report_Rows c' = Report_Rows c"
  by (auto simp: Report_field_def stored_def split: if_splits sum.splits)

lemma Report_rows_named:
  "equalFold ''rows'' k \<Longrightarrow> Report_field k v c = Inr c' \<Longrightarrow>
   dec_slice (dec_slice dec_string []) [] v (Report_Rows c) = Inr (Report_Rows c')"
  by (auto simp: Report_field_def stored_def equalFold_iff split: if_splits sum.splits)

lemma Report_totals_other:
  "\<not> equalFold ''totals'' k \<Longrightarrow> Report_field k v c = Inr c' \<Longrightarrow> Report_Totals c' = Report_Totals c"
  by (auto simp: Report_field_def stored_def split: if_splits sum.splits)

lemma Report_totals_named:
  "equalFold ''totals'' k \<Longrightarrow> Report_field k v c = Inr c' \<Longrightarrow>
   dec_slice dec_string [] v (Report_Totals c) = Inr (Report_Totals c')"
  by (auto simp: Report_field_def stored_def equalFold_iff split: if_splits sum.splits)

lemma Report_table_of_body:
  assumes d: "dec_members Report_field ms (Report_new sr) = Inr r"
    and h: "member_array ''headers'' ms hs"
    and rw: "member_array ''rows'' ms (map (\<lambda>row. JArray (map JString row)) rs)"
    and a: "member_array ''averages'' ms (map JString av)"
    and t: "member_array ''totals'' ms (map JString tot)"
  shows "length (Report_Headers r) = length hs \<and>
         dec_elems (dec_ptr ReportHeaders_dec ReportHeaders_zero) None hs [] = Inr (Report_Headers r) \<and>
         (\<forall>xs. hs = map ReportHeaders_ptr_json xs \<longrightarrow>
            Report_Headers r = map (map_option ReportHeaders_strip) xs) \<and>
         Report_Rows r = rs \<and> Report_Averages r = av \<and> Report_Totals r = tot \<and>
         (Report_rows_match r \<longleftrightarrow>
            (\<forall>row \<in> set rs. length row = length hs) \<and> length av = length hs \<and>
            length tot = length hs)"
proof -
  have e: "Report_Headers (Report_new sr) = []" "Report_Rows (Report_new sr) = []"
    "Report_Averages (Report_new sr) = []" "Report_Totals (Report_new sr) = []"
    by (simp_all add: Report_new_def Report_zero_def)
  have hd: "dec_elems (dec_ptr ReportHeaders_dec ReportHeaders_zero) None hs [] = Inr (Report_Headers r)"
    using dec_members_array [where get = Report_Headers and name = "''headers''"
        and fld = Report_field, OF Report_headers_other Report_headers_named d e(1) h] .
  have n: "length (Report_Headers r) = length hs"
    using hd by (rule dec_elems_length)
  have x: "Report_Headers r = map (map_option ReportHeaders_strip) xs"
    if "hs = map ReportHeaders_ptr_json xs" for xs
    using hd that ReportHeaders_items_roundtrip [of xs] by (simp add: dec_slice_def)
  have "dec_elems (dec_slice dec_string []) [] (map (\<lambda>row. JArray (map JString row)) rs) []
          = Inr (Report_Rows r)"
    using dec_members_array [where get = Report_Rows and name = "''rows''"
        and fld = Report_field, OF Report_rows_other Report_rows_named d e(2) rw] .
  with dec_slice_rows [of rs] have r: "Report_Rows r = rs" by (simp add: dec_slice_def)
  have "dec_elems dec_string [] (map JString av) [] = Inr (Report_Averages r)"
    using dec_members_array [where get = Report_Averages and name = "''averages''"
        and fld = Report_field, OF Report_averages_other Report_averages_named d e(3) a] .
  with dec_slice_strings [of av] have av: "Report_Averages r = av" by (simp add: dec_slice_def)
  have "dec_elems dec_string [] (map JString tot) [] = Inr (Report_Totals r)"
    using dec_members_array [where get = Report_Totals and name = "''totals''"
        and fld = Report_field, OF Report_totals_other Report_totals_named d e(4) t] .
  with dec_slice_strings [of tot] have tot: "Report_Totals r = tot" by (simp add: dec_slice_def)
  from hd n x r av tot show ?thesis by (simp add: Report_rows_match_def)
qed

lemma Do_json_result:
  assumes "Do_json new dec (Some r, None) = (Return (Some v, None), evs)"
  shows "CheckResponse r = None \<and>
         (\<exists>j. Body r = Some (Some j) \<and>
              dec j (new \<lparr>HTTPStatusCode = StatusCode r, ServerResponse_Header = Header r\<rparr>) = Inr v)"
proof -
  have n: "StatusCode r \<noteq> http_StatusNotModified"
    using assms by (auto simp: Do_json_304)
  have c: "CheckResponse r = None"
  proof (cases "CheckResponse r")
    case None
    then show ?thesis .
  next
    case (Some x)
    from Do_json_status_error [OF n Some, of new dec] assms show ?thesis by simp
  qed
  obtain b where b: "Body r = Some b"
    using assms n c by (cases "Body r") (auto simp: Do_json_def)
  from assms show ?thesis
    by (auto simp: Do_json_2xx [OF c b] b c Decode_def
        split: sum.splits option.splits json.splits)
qed

lemma Report_Do_table:
  assumes d: "Do_json Report_new Report_dec (Some res, None) = (Return (Some r, None), evs)"
    and b: "Body res = Some (Some (JObject ms))"
    and h: "member_array ''headers'' ms hs"
    and rw: "member_array ''rows'' ms (map (\<lambda>row. JArray (map JString row)) rs)"
    and a: "member_array ''averages'' ms (map JString av)"
    and t: "member_array ''totals'' ms (map JString tot)"
  shows "length (Report_Headers r) = length hs \<and>
         dec_elems (dec_ptr ReportHeaders_dec ReportHeaders_zero) None hs [] = Inr (Report_Headers r) \<and>
         (\<forall>xs. hs = map ReportHeaders_ptr_json xs \<longrightarrow>
            Report_Headers r = map (map_option ReportHeaders_strip) xs) \<and>
         Report_Rows r = rs \<and> Report_Averages r = av \<and> Report_Totals r = tot \<and>
         (Report_rows_match r \<longleftrightarrow>
            (\<forall>row \<in> set rs. length row = length hs) \<and> length av = length hs \<and>
            length tot = length hs)"
proof -
  from Do_json_result [OF d] b
  have "Report_dec (JObject ms)
          (Report_new \<lparr>HTTPStatusCode = StatusCode res, ServerResponse_Header = Header res\<rparr>)
        = Inr r"
    by auto
  then have "dec_members Report_field ms
          (Report_new \<lparr>HTTPStatusCode = StatusCode res, ServerResponse_Header = Header res\<rparr>)
        = Inr r"
    by (simp add: Report_dec_def dec_struct_def)
  then show ?thesis using h rw a t by (rule Report_table_of_body)
qed

lemma Report_Do_encoded:
  assumes "CheckResponse res = None" and "Body res = Some (Some (Report_MarshalJSON r0))"
  shows "Do_json Report_new Report_dec (Some res, None)
           = (Return (Some (r0\<lparr>Report_Headers := map (map_option ReportHeaders_strip) (Report_Headers r0),
                               Report_ServerResponse :=
                                 \<lparr>HTTPStatusCode = StatusCode res, ServerResponse_Header = Header res\<rparr>,
                               Report_ForceSendFields := []\<rparr>), None),
              [BodyDecoded, BodyClosed])"
proof -
  obtain ms where m: "Report_MarshalJSON r0 = JObject ms"
    by (simp add: Report_MarshalJSON_def Let_def)
  show ?thesis
    by (simp add: Do_json_2xx [OF assms] Decode_object [OF m] Report_roundtrip_new)
qed

lemma report_body_decoded:
  "Do_json Report_new Report_dec (Some (response 200 report_body), None)
     = (Return (Some report_decoded, None), [BodyDecoded, BodyClosed])"
proof -
  have c: "CheckResponse (response 200 report_body) = None"
    by (simp add: CheckResponse_def response_def)
  have b: "Body (response 200 report_body) = Some report_body"
    by (simp add: response_def)
  have d: "Decode Report_dec report_body
             (Report_new \<lparr>HTTPStatusCode = StatusCode (response 200 report_body),
                          ServerResponse_Header = Header (response 200 report_body)\<rparr>)
           = Inr (Some report_decoded)"
    by (simp add: report_body_def report_decoded_def Decode_def Report_dec_def
        dec_struct_def Report_field_def ReportHeaders_dec_def ReportHeaders_field_def
        equalFold_def stored_def dec_string_def dec_slice_def dec_ptr_def Report_new_def
        Report_zero_def ReportHeaders_zero_def response_def)
  show ?thesis by (simp add: Do_json_2xx [OF c b] d)
qed

lemma report_members_table:
  "report_body = Some (JObject report_members)"
  "member_array ''headers'' report_members
     (map ReportHeaders_ptr_json
        [Some (ReportHeaders_zero
           \<lparr>ReportHeaders_Name := ''DATE'', ReportHeaders_Type := ''DIMENSION''\<rparr>)])"
  "member_array ''rows'' report_members
     (map (\<lambda>row. JArray (map JString row)) [[''2016-01-01'', ''7'']])"
  "member_array ''averages'' report_members (map JString [''''])"
  "member_array ''totals'' report_members (map JString [''''])"
  by (simp_all add: report_body_def report_members_def member_array_def members_named_def
      equalFold_def ReportHeaders_ptr_json_def ReportHeaders_MarshalJSON_def member_def
      ReportHeaders_zero_def Let_def)

text \<open>
  C4, amended. The report that \<open>Do\<close> of either report call returns for a body, a JSON
  object with its members in any order, carries the table of the body as it is: as many
  headers as the body has, each decoded from the header at its index (for headers as the
  encoder writes them, the headers themselves but for the field that is never sent), and
  the rows, the averages and the totals of the body. The client checks no cell count: the
  rows of the result match its headers exactly when those of the table in the body do. And
  for a 2xx response whose body is the encoding of a report, \<open>Do\<close> returns that report
  with the status code and the headers of the response.
\<close>

theorem report_as_the_body_has_it:
  "(ReportsGenerateCall_doRequest net ''json'' c = (Some res, None) \<longrightarrow>
    ReportsGenerateCall_Do net c = (Return (Some r, None), evs) \<longrightarrow>
    Body res = Some (Some (JObject ms)) \<longrightarrow>
    member_array ''headers'' ms hs \<longrightarrow>
    member_array ''rows'' ms (map (\<lambda>row. JArray (map JString row)) rs) \<longrightarrow>
    member_array ''averages'' ms (map JString av) \<longrightarrow>
    member_array ''totals'' ms (map JString tot) \<longrightarrow>
      length (Report_Headers r) = length hs \<and>
      dec_elems (dec_ptr ReportHeaders_dec ReportHeaders_zero) None hs [] = Inr (Report_Headers r) \<and>
      (\<forall>xs. hs = map ReportHeaders_ptr_json xs \<longrightarrow>
         Report_Headers r = map (map_option ReportHeaders_strip) xs) \<and>
      Report_Rows r = rs \<and> Report_Averages r = av \<and> Report_Totals r = tot \<and>
      (Report_rows_match r \<longleftrightarrow>
         (\<forall>row \<in> set rs. length row = length hs) \<and> length av = length hs \<and>
         length tot = length hs)) \<and>
   (ReportsSavedGenerateCall_doRequest net ''json'' c' = (Some res, None) \<longrightarrow>
    ReportsSavedGenerateCall_Do net c' = (Return (Some r, None), evs) \<longrightarrow>
    Body res = Some (Some (JObject ms)) \<longrightarrow>
    member_array ''headers'' ms hs \<longrightarrow>
    member_array ''rows'' ms (map (\<lambda>row. JArray (map JString row)) rs) \<longrightarrow>
    member_array ''averages'' ms (map JString av) \<longrightarrow>
    member_array ''totals'' ms (map JString tot) \<longrightarrow>
      length (Report_Headers r) = length hs \<and>
      dec_elems (dec_ptr ReportHeaders_dec ReportHeaders_zero) None hs [] = Inr (Report_Headers r) \<and>
      (\<forall>xs. hs = map ReportHeaders_ptr_json xs \<longrightarrow>
         Report_Headers r = map (map_option ReportHeaders_strip) xs) \<and>
      Report_Rows r = rs \<and> Report_Averages r = av \<and> Report_Totals r = tot \<and>
      (Report_rows_match r \<longleftrightarrow>
         (\<forall>row \<in> set rs. length row = length hs) \<and> length av = length hs \<and>
         length tot = length hs)) \<and>
   (ReportsGenerateCall_doRequest net ''json'' c = (Some res, None) \<longrightarrow>
    CheckResponse res = None \<longrightarrow> Body res = Some (Some (Report_MarshalJSON r0)) \<longrightarrow>
      ReportsGenerateCall_Do net c
        = (Return (Some (r0\<lparr>Report_Headers := map (map_option ReportHeaders_strip) (Report_Headers r0),
                            Report_ServerResponse :=
                              \<lparr>HTTPStatusCode = StatusCode res, ServerResponse_Header = Header res\<rparr>,
                            Report_ForceSendFields := []\<rparr>), None),
           [BodyDecoded, BodyClosed])) \<and>
   (ReportsSavedGenerateCall_doRequest net ''json'' c' = (Some res, None) \<longrightarrow>
    CheckResponse res = None \<longrightarrow> Body res = Some (Some (Report_MarshalJSON r0)) \<longrightarrow>
      ReportsSavedGenerateCall_Do net c'
        = (Return (Some (r0\<lparr>Report_Headers := map (map_option ReportHeaders_strip) (Report_Headers r0),
                            Report_ServerResponse :=
                              \<lparr>HTTPStatusCode = StatusCode res, ServerResponse_Header = Header res\<rparr>,
                            Report_ForceSendFields := []\<rparr>), None),
           [BodyDecoded, BodyClosed]))"
proof (intro conjI)
  show "(ReportsGenerateCall_doRequest net ''json'' c = (Some res, None) \<longrightarrow>
    ReportsGenerateCall_Do net c = (Return (Some r, None), evs) \<longrightarrow>
    Body res = Some (Some (JObject ms)) \<longrightarrow>
    member_array ''headers'' ms hs \<longrightarrow>
    member_array ''rows'' ms (map (\<lambda>row. JArray (map JString row)) rs) \<longrightarrow>
    member_array ''averages'' ms (map JString av) \<longrightarrow>
    member_array ''totals'' ms (map JString tot) \<longrightarrow>
      length (Report_Headers r) = length hs \<and>
      dec_elems (dec_ptr ReportHeaders_dec ReportHeaders_zero) None hs [] = Inr (Report_Headers r) \<and>
      (\<forall>xs. hs = map ReportHeaders_ptr_json xs \<longrightarrow>
         Report_Headers r = map (map_option ReportHeaders_strip) xs) \<and>
      Report_Rows r = rs \<and> Report_Averages r = av \<and> Report_Totals r = tot \<and>
      (Report_rows_match r \<longleftrightarrow>
         (\<forall>row \<in> set rs. length row = length hs) \<and> length av = length hs \<and>
         length tot = length hs))"
    by (intro impI, simp only: ReportsGenerateCall_Do_def) (rule Report_Do_table; assumption)
next
  show "(ReportsSavedGenerateCall_doRequest net ''json'' c' = (Some res, None) \<longrightarrow>
    ReportsSavedGenerateCall_Do net c' = (Return (Some r, None), evs) \<longrightarrow>
    Body res = Some (Some (JObject ms)) \<longrightarrow>
    member_array ''headers'' ms hs \<longrightarrow>
    member_array ''rows'' ms (map (\<lambda>row. JArray (map JString row)) rs) \<longrightarrow>
    member_array ''averages'' ms (map JString av) \<longrightarrow>
    member_array ''totals'' ms (map JString tot) \<longrightarrow>
      length (Report_Headers r) = length hs \<and>
      dec_elems (dec_ptr ReportHeaders_dec ReportHeaders_zero) None hs [] = Inr (Report_Headers r) \<and>
      (\<forall>xs. hs = map ReportHeaders_ptr_json xs \<longrightarrow>
         Report_Headers r = map (map_option ReportHeaders_strip) xs) \<and>
      Report_Rows r = rs \<and> Report_Averages r = av \<and> Report_Totals r = tot \<and>
      (Report_rows_match r \<longleftrightarrow>
         (\<forall>row \<in> set rs. length row = length hs) \<and> length av = length hs \<and>
         length tot = length hs))"
    by (intro impI, simp only: ReportsSavedGenerateCall_Do_def) (rule Report_Do_table; assumption)
next
  show "(ReportsGenerateCall_doRequest net ''json'' c = (Some res, None) \<longrightarrow>
    CheckResponse res = None \<longrightarrow> Body res = Some (Some (Report_MarshalJSON r0)) \<longrightarrow>
      ReportsGenerateCall_Do net c
        = (Return (Some (r0\<lparr>Report_Headers := map (map_option ReportHeaders_strip) (Report_Headers r0),
                            Report_ServerResponse :=
                              \<lparr>HTTPStatusCode = StatusCode res, ServerResponse_Header = Header res\<rparr>,
                            Report_ForceSendFields := []\<rparr>), None),
           [BodyDecoded, BodyClosed]))"
    by (simp add: ReportsGenerateCall_Do_def Report_Do_encoded)
next
  show "(ReportsSavedGenerateCall_doRequest net ''json'' c' = (Some res, None) \<longrightarrow>
    CheckResponse res = None \<longrightarrow> Body res = Some (Some (Report_MarshalJSON r0)) \<longrightarrow>
      ReportsSavedGenerateCall_Do net c'
        = (Return (Some (r0\<lparr>Report_Headers := map (map_option ReportHeaders_strip) (Report_Headers r0),
                            Report_ServerResponse :=
                              \<lparr>HTTPStatusCode = StatusCode res, ServerResponse_Header = Header res\<rparr>,
                            Report_ForceSendFields := []\<rparr>), None),
           [BodyDecoded, BodyClosed]))"
    by (simp add: ReportsSavedGenerateCall_Do_def Report_Do_encoded)
qed

theorem report_as_the_body_has_it_witness:
  "(\<exists>r. ReportsGenerateCall_Do (net_of (Some (response 200 report_body), None)) reports_call
          = (Return (Some r, None), [BodyDecoded, BodyClosed]) \<and>
        Report_Headers r =
          [Some (ReportHeaders_zero
             \<lparr>ReportHeaders_Name := ''DATE'', ReportHeaders_Type := ''DIMENSION''\<rparr>)] \<and>
        Report_Rows r = [[''2016-01-01'', ''7'']] \<and>
        Report_Averages r = [''''] \<and> Report_Totals r = [''''] \<and>
        \<not> Report_rows_match r) \<and>
   (\<exists>r. ReportsSavedGenerateCall_Do (net_of (Some (response 200 report_body), None)) saved_call
          = (Return (Some r, None), [BodyDecoded, BodyClosed]) \<and>
        Report_Headers r =
          [Some (ReportHeaders_zero
             \<lparr>ReportHeaders_Name := ''DATE'', ReportHeaders_Type := ''DIMENSION''\<rparr>)] \<and>
        Report_Rows r = [[''2016-01-01'', ''7'']] \<and>
        Report_Averages r = [''''] \<and> Report_Totals r = [''''] \<and>
        \<not> Report_rows_match r) \<and>
   ReportsGenerateCall_Do
       (net_of (Some (response 200 (Some (Report_MarshalJSON report_decoded))), None)) reports_call
     = (Return (Some report_decoded, None), [BodyDecoded, BodyClosed]) \<and>
   ReportsSavedGenerateCall_Do
       (net_of (Some (response 200 (Some (Report_MarshalJSON report_decoded))), None)) saved_call
     = (Return (Some report_decoded, None), [BodyDecoded, BodyClosed])"
proof -
  let ?net = "net_of (Some (response 200 report_body), None)"
  let ?enc = "response 200 (Some (Report_MarshalJSON report_decoded))"
  let ?h = "[Some (ReportHeaders_zero
             \<lparr>ReportHeaders_Name := ''DATE'', ReportHeaders_Type := ''DIMENSION''\<rparr>)]"
  have b: "Body (response 200 report_body) = Some (Some (JObject report_members))"
    by (simp add: response_def report_members_table(1))
  have s: "ReportHeaders_strip (ReportHeaders_zero
             \<lparr>ReportHeaders_Name := ''DATE'', ReportHeaders_Type := ''DIMENSION''\<rparr>)
           = ReportHeaders_zero
             \<lparr>ReportHeaders_Name := ''DATE'', ReportHeaders_Type := ''DIMENSION''\<rparr>"
    by (simp add: ReportHeaders_strip_def ReportHeaders_zero_def)
  have q1: "ReportsGenerateCall_doRequest ?net ''json'' reports_call
              = (Some (response 200 report_body), None)"
    by (simp add: ReportsGenerateCall_doRequest_def send_def net_of_def reports_call_def
        ReportsService_Generate_def)
  have d1: "ReportsGenerateCall_Do ?net reports_call
              = (Return (Some report_decoded, None), [BodyDecoded, BodyClosed])"
    by (simp add: ReportsGenerateCall_Do_def q1 report_body_decoded)
  have q2: "ReportsSavedGenerateCall_doRequest ?net ''json'' saved_call
              = (Some (response 200 report_body), None)"
    by (simp add: ReportsSavedGenerateCall_doRequest_def send_def net_of_def saved_call_def
        ReportsSavedService_Generate_def)
  have d2: "ReportsSavedGenerateCall_Do ?net saved_call
              = (Return (Some report_decoded, None), [BodyDecoded, BodyClosed])"
    by (simp add: ReportsSavedGenerateCall_Do_def q2 report_body_decoded)
  note t1 = report_as_the_body_has_it [THEN conjunct1, rule_format,
      OF q1 d1 b report_members_table(2-5)]
  note t2 = report_as_the_body_has_it [THEN conjunct2, THEN conjunct1, rule_format,
      OF q2 d2 b report_members_table(2-5)]
  note h1 = t1 [THEN conjunct2, THEN conjunct2, THEN conjunct1, rule_format, OF refl]
  note r1 = t1 [THEN conjunct2, THEN conjunct2, THEN conjunct2]
  note h2 = t2 [THEN conjunct2, THEN conjunct2, THEN conjunct1, rule_format, OF refl]
  note r2 = t2 [THEN conjunct2, THEN conjunct2, THEN conjunct2]
  from h1 r1 have "Report_Headers report_decoded = ?h \<and>
      Report_Rows report_decoded = [[''2016-01-01'', ''7'']] \<and>
      Report_Averages report_decoded = [''''] \<and> Report_Totals report_decoded = [''''] \<and>
      \<not> Report_rows_match report_decoded"
    by (simp add: s)
  moreover from h2 r2 have "Report_Headers report_decoded = ?h \<and>
      Report_Rows report_decoded = [[''2016-01-01'', ''7'']] \<and>
      Report_Averages report_decoded = [''''] \<and> Report_Totals report_decoded = [''''] \<and>
      \<not> Report_rows_match report_decoded"
    by (simp add: s)
  ultimately have w12: "(\<exists>r. ReportsGenerateCall_Do ?net reports_call
          = (Return (Some r, None), [BodyDecoded, BodyClosed]) \<and>
        Report_Headers r = ?h \<and> Report_Rows r = [[''2016-01-01'', ''7'']] \<and>
        Report_Averages r = [''''] \<and> Report_Totals r = [''''] \<and>
        \<not> Report_rows_match r) \<and>
     (\<exists>r. ReportsSavedGenerateCall_Do ?net saved_call
          = (Return (Some r, None), [BodyDecoded, BodyClosed]) \<and>
        Report_Headers r = ?h \<and> Report_Rows r = [[''2016-01-01'', ''7'']] \<and>
        Report_Averages r = [''''] \<and> Report_Totals r = [''''] \<and>
        \<not> Report_rows_match r)"
    using d1 d2 by simp
  have c: "CheckResponse ?enc = None" by (simp add: CheckResponse_def response_def)
  have b': "Body ?enc = Some (Some (Report_MarshalJSON report_decoded))"
    by (simp add: response_def)
  have q3: "ReportsGenerateCall_doRequest (net_of (Some ?enc, None)) ''json'' reports_call
              = (Some ?enc, None)"
    by (simp add: ReportsGenerateCall_doRequest_def send_def net_of_def reports_call_def
        ReportsService_Generate_def)
  have q4: "ReportsSavedGenerateCall_doRequest (net_of (Some ?enc, None)) ''json'' saved_call
              = (Some ?enc, None)"
    by (simp add: ReportsSavedGenerateCall_doRequest_def send_def net_of_def saved_call_def
        ReportsSavedService_Generate_def)
  have e: "report_decoded
             \<lparr>Report_Headers := map (map_option ReportHeaders_strip) (Report_Headers report_decoded),
              Report_ServerResponse :=
                \<lparr>HTTPStatusCode = StatusCode ?enc, ServerResponse_Header = Header ?enc\<rparr>,
              Report_ForceSendFields := []\<rparr>
           = report_decoded"
    by (simp add: report_decoded_def Report_zero_def ReportHeaders_strip_def
        ReportHeaders_zero_def response_def)
  note t3 = report_as_the_body_has_it [THEN conjunct2, THEN conjunct2, THEN conjunct1,
      rule_format, OF q3 c b']
  note t4 = report_as_the_body_has_it [THEN conjunct2, THEN conjunct2, THEN conjunct2,
      rule_format, OF q4 c b']
  from t3 have w3: "ReportsGenerateCall_Do (net_of (Some ?enc, None)) reports_call
      = (Return (Some report_decoded, None), [BodyDecoded, BodyClosed])"
    by (simp only: e)
  from t4 have w4: "ReportsSavedGenerateCall_Do (net_of (Some ?enc, None)) saved_call
      = (Return (Some report_decoded, None), [BodyDecoded, BodyClosed])"
    by (simp only: e)
  from w12 w3 w4 show ?thesis by (intro conjI) (erule conjunct1, erule conjunct2, assumption+)
qed

subsection \<open>The server response of a result\<close>

text \<open>
  No member of a body is decoded into the server response of a result: after a successful
  \<open>Do\<close> it is the status code and the headers of the response.
\<close>

lemma AdClients_field_ServerResponse:
  "AdClients_field k v c = Inr c' \<Longrightarrow> AdClients_ServerResponse c' = AdClients_ServerResponse c"
  by (auto simp: AdClients_field_def stored_def split: if_splits sum.splits)

lemma AdClients_dec_ServerResponse:
  "AdClients_dec j (AdClients_new sr) = Inr c \<Longrightarrow> AdClients_ServerResponse c = sr"
  unfolding AdClients_dec_def
  by (erule dec_struct_invariant [rotated])
     (simp_all add: AdClients_field_ServerResponse AdClients_new_def)

lemma AdUnit_field_ServerResponse:
  "AdUnit_field k v c = Inr c' \<Longrightarrow> AdUnit_ServerResponse c' = AdUnit_ServerResponse c"
  by (auto simp: AdUnit_field_def stored_def split: if_splits sum.splits)

lemma AdUnit_dec_ServerResponse:
  "AdUnit_dec j (AdUnit_new sr) = Inr c \<Longrightarrow> AdUnit_ServerResponse c = sr"
  unfolding AdUnit_dec_def
  by (erule dec_struct_invariant [rotated])
     (simp_all add: AdUnit_field_ServerResponse AdUnit_new_def)

lemma AdUnits_field_ServerResponse:
  "AdUnits_field k v c = Inr c' \<Longrightarrow> AdUnits_ServerResponse c' = AdUnits_ServerResponse c"
  by (auto simp: AdUnits_field_def stored_def split: if_splits sum.splits)

lemma AdUnits_dec_ServerResponse:
  "AdUnits_dec j (AdUnits_new sr) = Inr c \<Longrightarrow> AdUnits_ServerResponse c = sr"
  unfolding AdUnits_dec_def
  by (erule dec_struct_invariant [rotated])
     (simp_all add: AdUnits_field_ServerResponse AdUnits_new_def)

lemma CustomChannel_field_ServerResponse:
  "CustomChannel_field k v c = Inr c' \<Longrightarrow> CustomChannel_ServerResponse c' = CustomChannel_ServerResponse c"
  by (auto simp: CustomChannel_field_def stored_def split: if_splits sum.splits)

lemma CustomChannel_dec_ServerResponse:
  "CustomChannel_dec j (CustomChannel_new sr) = Inr c \<Longrightarrow> CustomChannel_ServerResponse c = sr"
  unfolding CustomChannel_dec_def
  by (erule dec_struct_invariant [rotated])
     (simp_all add: CustomChannel_field_ServerResponse CustomChannel_new_def)

lemma CustomChannels_field_ServerResponse:
  "CustomChannels_field k v c = Inr c' \<Longrightarrow> CustomChannels_ServerResponse c' = CustomChannels_ServerResponse c"
  by (auto simp: CustomChannels_field_def stored_def split: if_splits sum.splits)

lemma CustomChannels_dec_ServerResponse:
  "CustomChannels_dec j (CustomChannels_new sr) = Inr c \<Longrightarrow> CustomChannels_ServerResponse c = sr"
  unfolding CustomChannels_dec_def
  by (erule dec_struct_invariant [rotated])
     (simp_all add: CustomChannels_field_ServerResponse CustomChannels_new_def)

lemma Report_field_ServerResponse:
  "Report_field k v c = Inr c' \<Longrightarrow> Report_ServerResponse c' = Report_ServerResponse c"
  by (auto simp: Report_field_def stored_def split: if_splits sum.splits)

lemma Report_dec_ServerResponse:
  "Report_dec j (Report_new sr) = Inr c \<Longrightarrow> Report_ServerResponse c = sr"
  unfolding Report_dec_def
  by (erule dec_struct_invariant [rotated])
     (simp_all add: Report_field_ServerResponse Report_new_def)

lemma SavedReports_field_ServerResponse:
  "SavedReports_field k v c = Inr c' \<Longrightarrow> SavedReports_ServerResponse c' = SavedReports_ServerResponse c"
  by (auto simp: SavedReports_field_def stored_def split: if_splits sum.splits)

lemma SavedReports_dec_ServerResponse:
  "SavedReports_dec j (SavedReports_new sr) = Inr c \<Longrightarrow> SavedReports_ServerResponse c = sr"
  unfolding SavedReports_dec_def
  by (erule dec_struct_invariant [rotated])
     (simp_all add: SavedReports_field_ServerResponse SavedReports_new_def)

lemma UrlChannels_field_ServerResponse:
  "UrlChannels_field k v c = Inr c' \<Longrightarrow> UrlChannels_ServerResponse c' = UrlChannels_ServerResponse c"
  by (auto simp: UrlChannels_field_def stored_def split: if_splits sum.splits)

lemma UrlChannels_dec_ServerResponse:
  "UrlChannels_dec j (UrlChannels_new sr) = Inr c \<Longrightarrow> UrlChannels_ServerResponse c = sr"
  unfolding UrlChannels_dec_def
  by (erule dec_struct_invariant [rotated])
     (simp_all add: UrlChannels_field_ServerResponse UrlChannels_new_def)

end
